theory Spec2Isabelle
  imports Main
begin

section \<open>Data model (schema.ts)\<close>

text \<open>
  The zod schemas become records. A panel id is \<open>z.number()\<close>; the model keeps the
  integral ids (the spec's data model calls the id an integer) and renders them in
  decimal, as JavaScript does for integers below \<open>10^21\<close>. A panel count is a JavaScript
  number that can be \<open>NaN\<close> (it comes out of \<open>parseInt\<close>), hence \<open>jsnum\<close>.
  Field names carry a prefix where two schemas use the same name.
\<close>

datatype jsnum = NaN | Num int

record Dialogue =
  dlg_character :: string
  dlg_text :: string

record ComicPanel =
  panel_id :: int
  panel_description :: string
  panel_characters :: "string list"
  panel_setting :: string
  panel_dialogue :: "Dialogue list option"
  panel_visualStyle :: string
  panel_imagePrompt :: string

record Character =
  char_name :: string
  char_description :: string
  char_visualDescription :: string

record ComicStory =
  story_title :: string
  story_genre :: string
  story_theme :: string
  story_characters :: "Character list"
  story_panels :: "ComicPanel list"
  story_artStyle :: string

record ComicGenerationRequest =
  req_prompt :: string
  req_panelCount :: jsnum
  req_artStyle :: "string option"
  req_genre :: "string option"

record GeneratedImage =
  img_panelId :: int
  img_imageUrl :: string
  img_imagePath :: string

record Metadata =
  meta_generatedAt :: string
  meta_totalPanels :: nat
  meta_processingTimeMs :: int

record ComicGenerationResult =
  res_story :: ComicStory
  res_generatedImages :: "GeneratedImage list"
  res_metadata :: Metadata

text \<open>The object \<open>panelData\<close> that \<open>createPanelFile\<close> serialises.\<close>

record PanelData =
  pd_id :: int
  pd_description :: string
  pd_characters :: "string list"
  pd_setting :: string
  pd_dialogue :: "Dialogue list option"
  pd_visualStyle :: string
  pd_imagePrompt :: string
  pd_detailedVisualDescription :: string
  pd_artStyle :: string

section \<open>Numbers as text\<close>

definition digit_char :: "nat \<Rightarrow> char" where
  "digit_char d = ''0123456789'' ! d"

fun digits :: "nat \<Rightarrow> string" where
  "digits n = (if n < 10 then [digit_char n] else digits (n div 10) @ [digit_char (n mod 10)])"

declare digits.simps [simp del]

text \<open>
  \<open>Number.prototype.toString\<close> and template interpolation, on the numbers this model
  covers: a panel id is an \<open>int\<close>, and \<open>show_int\<close> is its plain decimal numeral, which
  is what JavaScript prints for an integral number of magnitude below \<open>10^21\<close>. The
  schema's \<open>z.number()\<close> also admits fractions, and JavaScript prints larger numbers with
  an exponent (\<open>1e+21\<close>); ids of these two kinds are outside the model, and nothing below
  is stated about them.
\<close>

definition show_int :: "int \<Rightarrow> string" where
  "show_int i = (if i < 0 then CHR ''-'' # digits (nat (- i)) else digits (nat i))"

definition show_jsnum :: "jsnum \<Rightarrow> string" where
  "show_jsnum x = (case x of NaN \<Rightarrow> ''NaN'' | Num i \<Rightarrow> show_int i)"

section \<open>Paths (node:path on absolute, normalised paths)\<close>

text \<open>
  A path is the list of its segments below the root. \<open>path.join(dir, name)\<close> with a
  name that has no separator appends one segment; \<open>path.relative\<close> drops the common
  prefix and climbs out of what is left of the first path.
\<close>

type_synonym path = "string list"

definition path_join :: "path \<Rightarrow> string \<Rightarrow> path" where
  "path_join dir name = dir @ [name]"

fun path_relative :: "path \<Rightarrow> path \<Rightarrow> path" where
  "path_relative [] bs = bs"
| "path_relative (a # as) [] = map (\<lambda>_. ''..'') (a # as)"
| "path_relative (a # as) (b # bs) =
     (if a = b then path_relative as bs else map (\<lambda>_. ''..'') (a # as) @ (b # bs))"

text \<open>The text of an absolute path and of a relative one.\<close>

definition render_abs :: "path \<Rightarrow> string" where
  "render_abs p = (if p = [] then ''/'' else concat (map (\<lambda>s. CHR ''/'' # s) p))"

fun render_rel :: "path \<Rightarrow> string" where
  "render_rel [] = []"
| "render_rel [s] = s"
| "render_rel (s # t # ts) = s @ CHR ''/'' # render_rel (t # ts)"

section \<open>The world: file system, external services, trace of effects\<close>

text \<open>
  A thrown value is an \<open>Error\<close> with its message, or something that is not an
  \<open>Error\<close> instance (the UI tells them apart).
\<close>

datatype error = Error string | NonError

text \<open>
  What a file holds. \<open>JSON.stringify\<close> of a value is kept as the value itself.
\<close>

datatype content =
    StoryJson ComicStory
  | PanelJson PanelData
  | ResultJson ComicGenerationResult
  | Bytes string

datatype node = Dir | File content

record time_reading =
  ms :: int
  iso :: string

text \<open>
  A JavaScript value, as far as \<open>!output\<close> and \<open>typeof output\<close> can tell values
  apart.
\<close>

datatype js_value = JUndefined | JNull | JBool bool | JNumber int | JString string | JObject

text \<open>
  What \<open>await replicate.run(...)\<close> resolves to, as far as \<open>.url().href\<close> can tell:
  nothing (\<open>undefined\<close> or \<open>null\<close>), a plain string, an object that has no
  \<open>url\<close> method (an array of outputs included), or a file output, whose \<open>url()\<close>
  returns an object with the given \<open>href\<close>.
\<close>

datatype run_output =
    OutUndefined
  | OutNull
  | OutString string
  | OutObject
  | OutFile js_value

definition truthy :: "js_value \<Rightarrow> bool" where
  "truthy v = (case v of JUndefined \<Rightarrow> False | JNull \<Rightarrow> False | JBool b \<Rightarrow> b
     | JNumber n \<Rightarrow> n \<noteq> 0 | JString s \<Rightarrow> s \<noteq> [] | JObject \<Rightarrow> True)"

definition is_string :: "js_value \<Rightarrow> bool" where
  "is_string v = (case v of JString _ \<Rightarrow> True | _ \<Rightarrow> False)"

definition the_string :: "js_value \<Rightarrow> string" where
  "the_string v = (case v of JString s \<Rightarrow> s | _ \<Rightarrow> [])"

text \<open>
  What \<open>https.get\<close> followed by \<open>response.pipe(file)\<close> can end in, as far as
  \<open>downloadImage\<close> handles it: the request fails, or a response arrives with a status
  code and then either the write stream finishes with the body or it reports an error.
  (A write stream that fails before any response, and a response that breaks off, have
  no handler in \<open>downloadImage\<close>; they are not outcomes of the model.)
\<close>

datatype body_outcome = Finished string | FileError error

datatype http_outcome = RequestError error | Response nat body_outcome

text \<open>
  Every effect is recorded. A write event stands for a file written in full
  (\<open>writeFileSync\<close> returning, or the write stream of a download finishing).
\<close>

datatype event =
    EvClock time_reading
  | EvMkdir path
  | EvWrite path
  | EvCreate path
  | EvUnlink path
  | EvStory string
  | EvDetail string
  | EvRun string
  | EvGet string

record world =
  fs :: "path \<Rightarrow> node option"
  trace :: "event list"

text \<open>
  The environment answers each external call. An answer may depend on everything that
  happened before (the trace at the time of the call), so two calls with the same
  argument need not agree.
\<close>

record env =
  cwd :: path
  clock :: "event list \<Rightarrow> time_reading"
  generateObject :: "event list \<Rightarrow> string \<Rightarrow> error + ComicStory"
  generateText :: "event list \<Rightarrow> string \<Rightarrow> error + string"
  replicate_run :: "event list \<Rightarrow> string \<Rightarrow> error + run_output"
  https_get :: "event list \<Rightarrow> string \<Rightarrow> http_outcome"
  fs_error :: "event list \<Rightarrow> path \<Rightarrow> error option"

definition log_event :: "event \<Rightarrow> world \<Rightarrow> world" where
  "log_event e w = w\<lparr>trace := trace w @ [e]\<rparr>"

subsection \<open>node:fs\<close>

definition existsSync :: "path \<Rightarrow> world \<Rightarrow> bool" where
  "existsSync p w = (fs w p \<noteq> None)"

definition mkdirSync :: "env \<Rightarrow> path \<Rightarrow> world \<Rightarrow> (error + unit) \<times> world" where
  "mkdirSync E p w =
     (case fs_error E (trace w) p of
        Some e \<Rightarrow> (Inl e, w)
      | None \<Rightarrow> (Inr (), log_event (EvMkdir p)
                   (w\<lparr>fs := (if fs w p = None then (fs w)(p \<mapsto> Dir) else fs w)\<rparr>)))"

definition writeFileSync :: "env \<Rightarrow> path \<Rightarrow> content \<Rightarrow> world \<Rightarrow> (error + unit) \<times> world" where
  "writeFileSync E p c w =
     (case fs_error E (trace w) p of
        Some e \<Rightarrow> (Inl e, w)
      | None \<Rightarrow> (Inr (), log_event (EvWrite p) (w\<lparr>fs := (fs w)(p \<mapsto> File c)\<rparr>)))"

definition createWriteStream :: "path \<Rightarrow> world \<Rightarrow> world" where
  "createWriteStream p w = log_event (EvCreate p) (w\<lparr>fs := (fs w)(p \<mapsto> File (Bytes []))\<rparr>)"

definition unlink :: "path \<Rightarrow> world \<Rightarrow> world" where
  "unlink p w = log_event (EvUnlink p) (w\<lparr>fs := (fs w)(p := None)\<rparr>)"

definition read_clock :: "env \<Rightarrow> world \<Rightarrow> time_reading \<times> world" where
  "read_clock E w = (let t = clock E (trace w) in (t, log_event (EvClock t) w))"

section \<open>The pipeline (comic-generator.ts)\<close>

definition nl :: string where
  "nl = [CHR 0x0A]"

definition quote :: string where
  "quote = [CHR 0x22]"

fun join_sep :: "string \<Rightarrow> string list \<Rightarrow> string" where
  "join_sep sep [] = []"
| "join_sep sep [s] = s"
| "join_sep sep (s # t # ts) = s @ sep @ join_sep sep (t # ts)"

subsection \<open>ensureWorkspaceDirectory\<close>

definition ensure_dir :: "env \<Rightarrow> path \<Rightarrow> world \<Rightarrow> (error + unit) \<times> world" where
  "ensure_dir E p w = (if \<not> existsSync p w then mkdirSync E p w else (Inr (), w))"

definition ensureWorkspaceDirectory :: "env \<Rightarrow> world \<Rightarrow> (error + path) \<times> world" where
  "ensureWorkspaceDirectory E w =
     (let workspaceDir = path_join (cwd E) ''.workspace'';
          comicsDir = path_join workspaceDir ''comics'';
          imagesDir = path_join workspaceDir ''images''
      in case ensure_dir E workspaceDir w of
           (Inl e, w1) \<Rightarrow> (Inl e, w1)
         | (Inr _, w1) \<Rightarrow>
        (case ensure_dir E comicsDir w1 of
           (Inl e, w2) \<Rightarrow> (Inl e, w2)
         | (Inr _, w2) \<Rightarrow>
        (case ensure_dir E imagesDir w2 of
           (Inl e, w3) \<Rightarrow> (Inl e, w3)
         | (Inr _, w3) \<Rightarrow> (Inr workspaceDir, w3))))"

subsection \<open>generateDetailedImageDescription\<close>

text \<open>
  The prompt of the \<open>generateText\<close> call. Model name and system instruction are
  constants of the call and are left out.
\<close>

definition detail_prompt :: "ComicPanel \<Rightarrow> ComicStory \<Rightarrow> string" where
  "detail_prompt panel story =
     ''Create a detailed visual description for this comic panel:'' @ nl @ nl @
     ''Panel Description: '' @ panel_description panel @ nl @
     ''Characters: '' @ join_sep '', '' (panel_characters panel) @ nl @
     ''Setting: '' @ panel_setting panel @ nl @
     ''Visual Style: '' @ panel_visualStyle panel @ nl @
     ''Art Style: '' @ story_artStyle story @ nl @
     ''Original Image Prompt: '' @ panel_imagePrompt panel @ nl @ nl @
     ''Provide a comprehensive visual description that an artist could use to create this panel, including specific details about composition, character poses, expressions, background elements, and artistic techniques.''"

definition generateDetailedImageDescription ::
  "env \<Rightarrow> ComicPanel \<Rightarrow> ComicStory \<Rightarrow> world \<Rightarrow> (error + string) \<times> world" where
  "generateDetailedImageDescription E panel story w =
     (generateText E (trace w) (detail_prompt panel story),
      log_event (EvDetail (detail_prompt panel story)) w)"

subsection \<open>downloadImage\<close>

definition downloadImage :: "env \<Rightarrow> string \<Rightarrow> path \<Rightarrow> world \<Rightarrow> (error + unit) \<times> world" where
  "downloadImage E url filepath w =
     (let w1 = createWriteStream filepath w;
          w2 = log_event (EvGet url) w1
      in case https_get E (trace w1) url of
           RequestError err \<Rightarrow> (Inl err, w2)
         | Response statusCode body \<Rightarrow>
             if statusCode \<noteq> 200
             then (Inl (Error (''Failed to download image: '' @ digits statusCode)), w2)
             else (case body of
                     Finished bytes \<Rightarrow>
                       (Inr (), log_event (EvWrite filepath)
                          (w2\<lparr>fs := (fs w2)(filepath \<mapsto> File (Bytes bytes))\<rparr>))
                   | FileError err \<Rightarrow> (Inl err, unlink filepath w2)))"

subsection \<open>generateImageWithFlux\<close>

text \<open>
  The property accesses \<open>.url().href\<close> on what \<open>replicate.run\<close> resolved to. On
  \<open>undefined\<close>, on \<open>null\<close> and on a value without a \<open>url\<close> method they throw a
  \<open>TypeError\<close>, which is an \<open>Error\<close>; its message is the one of V8.
\<close>

definition apostrophe :: string where
  "apostrophe = [CHR 0x27]"

definition cannot_read_url :: "string \<Rightarrow> string" where
  "cannot_read_url v =
     ''Cannot read properties of '' @ v @ '' (reading '' @ apostrophe @ ''url'' @ apostrophe @ '')''"

definition url_href :: "run_output \<Rightarrow> error + js_value" where
  "url_href out =
     (case out of
        OutUndefined \<Rightarrow> Inl (Error (cannot_read_url ''undefined''))
      | OutNull \<Rightarrow> Inl (Error (cannot_read_url ''null''))
      | OutString _ \<Rightarrow> Inl (Error ''(intermediate value).url is not a function'')
      | OutObject \<Rightarrow> Inl (Error ''(intermediate value).url is not a function'')
      | OutFile href \<Rightarrow> Inr href)"

text \<open>
  \<open>replicate_run\<close> answers for \<open>await replicate.run(...)\<close>: the exception of the
  call, or what it resolved to. The \<open>try\<close> block covers the call, the property
  accesses, the check and the download; the \<open>catch\<close> block logs and rethrows.
\<close>

definition generateImageWithFlux ::
  "env \<Rightarrow> string \<Rightarrow> string \<Rightarrow> path \<Rightarrow> world \<Rightarrow> (error + path) \<times> world" where
  "generateImageWithFlux E prompt panelId imagesDir w =
     (let w1 = log_event (EvRun prompt) w
      in case replicate_run E (trace w) prompt of
           Inl e \<Rightarrow> (Inl e, w1)
         | Inr resolved \<Rightarrow>
        (case url_href resolved of
           Inl e \<Rightarrow> (Inl e, w1)
         | Inr output \<Rightarrow>
             if \<not> truthy output \<or> \<not> is_string output
             then (Inl (Error ''Invalid output from Replicate API''), w1)
             else (let imageUrl = the_string output;
                       filename = ''panel-'' @ panelId @ ''.jpg'';
                       filepath = path_join imagesDir filename
                   in case downloadImage E imageUrl filepath w1 of
                        (Inl e, w2) \<Rightarrow> (Inl e, w2)
                      | (Inr _, w2) \<Rightarrow> (Inr filepath, w2))))"

subsection \<open>generateComicStory\<close>

definition story_prompt :: "ComicGenerationRequest \<Rightarrow> string" where
  "story_prompt request =
     ''Create a '' @ show_jsnum (req_panelCount request) @
     ''-panel comic story based on this prompt: '' @ quote @ req_prompt request @ quote @ nl @ nl @
     (case req_genre request of
        None \<Rightarrow> [] | Some g \<Rightarrow> if g = [] then [] else ''Genre: '' @ g) @ nl @
     (case req_artStyle request of
        None \<Rightarrow> [] | Some a \<Rightarrow> if a = [] then [] else ''Art Style: '' @ a) @ nl @ nl @
     ''Focus on creating:'' @ nl @
     ''1. A compelling story arc that fits the panel count'' @ nl @
     ''2. Consistent character designs with detailed visual descriptions'' @ nl @
     ''3. Varied and dynamic panel compositions'' @ nl @
     ''4. Clear, engaging dialogue when appropriate'' @ nl @
     ''5. Detailed image prompts optimized for Flux image generation''"

text \<open>
  \<open>generateObject\<close> answers with an object that passed \<open>ComicStorySchema\<close>, or with
  the error of the call or of the validation.
\<close>

definition generateComicStory ::
  "env \<Rightarrow> ComicGenerationRequest \<Rightarrow> world \<Rightarrow> (error + ComicStory) \<times> world" where
  "generateComicStory E request w =
     (generateObject E (trace w) (story_prompt request),
      log_event (EvStory (story_prompt request)) w)"

subsection \<open>createPanelFile\<close>

definition panel_file :: "path \<Rightarrow> ComicPanel \<Rightarrow> path" where
  "panel_file panelDir panel = path_join panelDir (''panel-'' @ show_int (panel_id panel) @ ''.json'')"

text \<open>The object literal \<open>panelData\<close>.\<close>

definition panelData_of :: "ComicPanel \<Rightarrow> ComicStory \<Rightarrow> string \<Rightarrow> PanelData" where
  "panelData_of panel story detailedDescription =
     \<lparr>pd_id = panel_id panel,
      pd_description = panel_description panel,
      pd_characters = panel_characters panel,
      pd_setting = panel_setting panel,
      pd_dialogue = panel_dialogue panel,
      pd_visualStyle = panel_visualStyle panel,
      pd_imagePrompt = panel_imagePrompt panel,
      pd_detailedVisualDescription = detailedDescription,
      pd_artStyle = story_artStyle story\<rparr>"

definition createPanelFile ::
  "env \<Rightarrow> ComicPanel \<Rightarrow> ComicStory \<Rightarrow> path \<Rightarrow> world \<Rightarrow> (error + path) \<times> world" where
  "createPanelFile E panel story panelDir w =
     (case generateDetailedImageDescription E panel story w of
        (Inl e, w1) \<Rightarrow> (Inl e, w1)
      | (Inr detailedDescription, w1) \<Rightarrow>
          (let panelData = panelData_of panel story detailedDescription;
               filePath = panel_file panelDir panel
           in case writeFileSync E filePath (PanelJson panelData) w1 of
                (Inl e, w2) \<Rightarrow> (Inl e, w2)
              | (Inr _, w2) \<Rightarrow> (Inr filePath, w2)))"

subsection \<open>generateComic\<close>

text \<open>
  The body of \<open>generateComic\<close> is given in three parts, so that the worlds between
  them have names: \<open>comic_prepare\<close> (from \<open>startTime\<close> to \<open>story.json\<close>), the loop
  over the panels (\<open>panel_loop\<close>, with \<open>process_panel\<close> as its body), and
  \<open>comic_finish\<close> (from \<open>endTime\<close> to the \<open>return\<close>). Console output is left out.

  The body of the \<open>for\<close> loop for one panel: the panel file, a second detailed
  description, the image, and the record pushed onto \<open>generatedImages\<close>. Its
  \<open>catch\<close> block logs and rethrows.
\<close>

definition process_panel ::
  "env \<Rightarrow> ComicStory \<Rightarrow> path \<Rightarrow> path \<Rightarrow> ComicPanel \<Rightarrow> world \<Rightarrow> (error + GeneratedImage) \<times> world" where
  "process_panel E story comicDir imagesDir panel w =
     (case createPanelFile E panel story comicDir w of
        (Inl e, w1) \<Rightarrow> (Inl e, w1)
      | (Inr _, w1) \<Rightarrow>
     (case generateDetailedImageDescription E panel story w1 of
        (Inl e, w2) \<Rightarrow> (Inl e, w2)
      | (Inr detailedDescription, w2) \<Rightarrow>
     (case generateImageWithFlux E detailedDescription (show_int (panel_id panel)) imagesDir w2 of
        (Inl e, w3) \<Rightarrow> (Inl e, w3)
      | (Inr imagePath, w3) \<Rightarrow>
          (Inr \<lparr>img_panelId = panel_id panel,
                img_imageUrl = ''file://'' @ render_abs imagePath,
                img_imagePath = render_rel (path_relative (cwd E) imagePath)\<rparr>, w3))))"

text \<open>The loop over \<open>story.panels\<close>, by index from 0, with \<open>generatedImages\<close> as accumulator.\<close>

fun panel_loop ::
  "env \<Rightarrow> ComicStory \<Rightarrow> path \<Rightarrow> path \<Rightarrow> ComicPanel list \<Rightarrow> GeneratedImage list \<Rightarrow> world
     \<Rightarrow> (error + GeneratedImage list) \<times> world" where
  "panel_loop E story comicDir imagesDir [] generatedImages w = (Inr generatedImages, w)"
| "panel_loop E story comicDir imagesDir (panel # rest) generatedImages w =
     (case process_panel E story comicDir imagesDir panel w of
        (Inl e, w1) \<Rightarrow> (Inl e, w1)
      | (Inr entry, w1) \<Rightarrow>
          panel_loop E story comicDir imagesDir rest (generatedImages @ [entry]) w1)"

text \<open>\<open>toISOString().replace(/[:.]/g, "-")\<close>\<close>

definition timestamp_of :: "string \<Rightarrow> string" where
  "timestamp_of s = map (\<lambda>c. if c = CHR '':'' \<or> c = CHR ''.'' then CHR ''-'' else c) s"

record prepared =
  pr_startTime :: int
  pr_story :: ComicStory
  pr_comicDir :: path
  pr_imagesDir :: path

text \<open>
  Everything before the loop: the start time, the workspace directories, the story,
  the comic directory named after a fresh clock reading, and \<open>story.json\<close>.
\<close>

definition comic_prepare ::
  "env \<Rightarrow> ComicGenerationRequest \<Rightarrow> world \<Rightarrow> (error + prepared) \<times> world" where
  "comic_prepare E request w =
     (case read_clock E w of (t0, w1) \<Rightarrow>
     (case ensureWorkspaceDirectory E w1 of
        (Inl e, w2) \<Rightarrow> (Inl e, w2)
      | (Inr workspaceDir, w2) \<Rightarrow>
     (case generateComicStory E request w2 of
        (Inl e, w3) \<Rightarrow> (Inl e, w3)
      | (Inr story, w3) \<Rightarrow>
     (case read_clock E w3 of (t1, w4) \<Rightarrow>
     (let timestamp = timestamp_of (iso t1);
          comicDir = path_join (path_join workspaceDir ''comics'') (''comic-'' @ timestamp)
      in case mkdirSync E comicDir w4 of
           (Inl e, w5) \<Rightarrow> (Inl e, w5)
         | (Inr _, w5) \<Rightarrow>
        (case writeFileSync E (path_join comicDir ''story.json'') (StoryJson story) w5 of
           (Inl e, w6) \<Rightarrow> (Inl e, w6)
         | (Inr _, w6) \<Rightarrow>
             (Inr \<lparr>pr_startTime = ms t0, pr_story = story, pr_comicDir = comicDir,
                   pr_imagesDir = path_join workspaceDir ''images''\<rparr>, w6)))))))"

text \<open>Everything after the loop: the end time, the result object and \<open>result.json\<close>.\<close>

definition comic_finish ::
  "env \<Rightarrow> prepared \<Rightarrow> GeneratedImage list \<Rightarrow> world \<Rightarrow> (error + ComicGenerationResult) \<times> world" where
  "comic_finish E pr generatedImages w =
     (case read_clock E w of (t2, w1) \<Rightarrow>
     (case read_clock E w1 of (t3, w2) \<Rightarrow>
     (let result = \<lparr>res_story = pr_story pr,
                    res_generatedImages = generatedImages,
                    res_metadata = \<lparr>meta_generatedAt = iso t3,
                       meta_totalPanels = length (story_panels (pr_story pr)),
                       meta_processingTimeMs = ms t2 - pr_startTime pr\<rparr>\<rparr>
      in case writeFileSync E (path_join (pr_comicDir pr) ''result.json'') (ResultJson result) w2 of
           (Inl e, w3) \<Rightarrow> (Inl e, w3)
         | (Inr _, w3) \<Rightarrow> (Inr result, w3))))"

definition generateComic ::
  "env \<Rightarrow> ComicGenerationRequest \<Rightarrow> world \<Rightarrow> (error + ComicGenerationResult) \<times> world" where
  "generateComic E request w =
     (case comic_prepare E request w of
        (Inl e, w1) \<Rightarrow> (Inl e, w1)
      | (Inr pr, w1) \<Rightarrow>
     (case panel_loop E (pr_story pr) (pr_comicDir pr) (pr_imagesDir pr)
             (story_panels (pr_story pr)) [] w1 of
        (Inl e, w2) \<Rightarrow> (Inl e, w2)
      | (Inr generatedImages, w2) \<Rightarrow> comic_finish E pr generatedImages w2))"

section \<open>The terminal UI (index.tsx)\<close>

datatype step = Prompt | Options | Processing | Done

record AppState =
  st_step :: step
  st_prompt :: string
  st_currentInput :: string
  st_panelCount :: jsnum
  st_artStyle :: "string option"
  st_genre :: "string option"
  st_result :: "ComicGenerationResult option"
  st_error :: "string option"

definition initial_state :: AppState where
  "initial_state = \<lparr>st_step = Prompt, st_prompt = [], st_currentInput = [],
     st_panelCount = Num 4, st_artStyle = None, st_genre = None,
     st_result = None, st_error = None\<rparr>"

subsection \<open>String.prototype.trim, parseInt, Math.min, Math.max\<close>

text \<open>
  White space and line terminators, among the characters a \<open>char\<close> can hold: tab,
  line feed, vertical tab, form feed, carriage return, space and no-break space
  (\<open>U+00A0\<close>).
\<close>

definition is_ws :: "char \<Rightarrow> bool" where
  "is_ws c = (c \<in> set [CHR 0x09, CHR 0x0A, CHR 0x0B, CHR 0x0C, CHR 0x0D, CHR 0x20, CHR 0xA0])"

definition trim :: "string \<Rightarrow> string" where
  "trim s = rev (dropWhile is_ws (rev (dropWhile is_ws s)))"

definition digit_val :: "char \<Rightarrow> nat option" where
  "digit_val c = map_of (zip ''0123456789abcdef'' [0 ..< 16] @ zip ''ABCDEF'' [10 ..< 16]) c"

definition is_digit :: "nat \<Rightarrow> char \<Rightarrow> bool" where
  "is_digit R c = (case digit_val c of None \<Rightarrow> False | Some d \<Rightarrow> d < R)"

definition digits_value :: "nat \<Rightarrow> string \<Rightarrow> nat" where
  "digits_value R Z = foldl (\<lambda>a c. a * R + the (digit_val c)) 0 Z"

text \<open>
  \<open>parseInt(string)\<close> without a radix: skip leading white space, take a sign, take a
  \<open>0x\<close> or \<open>0X\<close> prefix as radix 16, then read the longest run of digits; no digit
  gives \<open>NaN\<close>. The value is kept exact; JavaScript rounds it to a double beyond
  \<open>2^53\<close>, which changes neither its sign nor on which side of 1 and 12 it lies.
\<close>

definition parseInt :: "string \<Rightarrow> jsnum" where
  "parseInt s =
     (let S = dropWhile is_ws s;
          neg = (case S of c # _ \<Rightarrow> c = CHR ''-'' | [] \<Rightarrow> False);
          S1 = (case S of c # r \<Rightarrow> if c = CHR ''-'' \<or> c = CHR ''+'' then r else S | [] \<Rightarrow> S);
          hex = (case S1 of a # b # _ \<Rightarrow> a = CHR ''0'' \<and> (b = CHR ''x'' \<or> b = CHR ''X'') | _ \<Rightarrow> False);
          R = (if hex then 16 else 10);
          S2 = (if hex then drop 2 S1 else S1);
          Z = takeWhile (is_digit R) S2
      in if Z = [] then NaN
         else Num ((if neg then - 1 else 1) * int (digits_value R Z)))"

definition Math_min :: "jsnum \<Rightarrow> jsnum \<Rightarrow> jsnum" where
  "Math_min a b = (case (a, b) of (Num x, Num y) \<Rightarrow> Num (min x y) | _ \<Rightarrow> NaN)"

definition Math_max :: "jsnum \<Rightarrow> jsnum \<Rightarrow> jsnum" where
  "Math_max a b = (case (a, b) of (Num x, Num y) \<Rightarrow> Num (max x y) | _ \<Rightarrow> NaN)"

subsection \<open>The handlers\<close>

definition handlePromptSubmit :: "string \<Rightarrow> AppState \<Rightarrow> AppState" where
  "handlePromptSubmit v prev = prev\<lparr>st_prompt := v, st_step := Options, st_currentInput := []\<rparr>"

definition handleOptionsSubmit :: "string \<Rightarrow> AppState \<Rightarrow> AppState" where
  "handleOptionsSubmit v prev =
     (let panelCount = (if trim v \<noteq> [] then parseInt (trim v) else Num 4)
      in prev\<lparr>st_panelCount := Math_max (Num 1) (Math_min (Num 12) panelCount),
              st_step := Processing, st_currentInput := []\<rparr>)"

definition handleInputChange :: "string \<Rightarrow> AppState \<Rightarrow> AppState" where
  "handleInputChange v prev = prev\<lparr>st_currentInput := v\<rparr>"

definition handleDoneSubmit :: "string \<Rightarrow> AppState \<Rightarrow> AppState" where
  "handleDoneSubmit v prev = \<lparr>st_step = Prompt, st_prompt = [], st_currentInput = v,
     st_panelCount = Num 4, st_artStyle = None, st_genre = None,
     st_result = None, st_error = None\<rparr>"

text \<open>The request that the effect of the \<open>processing\<close> step builds from the state.\<close>

definition request_of :: "AppState \<Rightarrow> ComicGenerationRequest" where
  "request_of st = \<lparr>req_prompt = st_prompt st, req_panelCount = st_panelCount st,
     req_artStyle = st_artStyle st, req_genre = st_genre st\<rparr>"

definition processComic :: "env \<Rightarrow> AppState \<Rightarrow> world \<Rightarrow> AppState \<times> world" where
  "processComic E st w =
     (case generateComic E (request_of st) w of
        (Inr result, w1) \<Rightarrow> (st\<lparr>st_step := Done, st_result := Some result\<rparr>, w1)
      | (Inl err, w1) \<Rightarrow>
          (st\<lparr>st_step := Done,
              st_error := Some (case err of Error message \<Rightarrow> message | NonError \<Rightarrow> ''Unknown error'')\<rparr>, w1))"

section \<open>Reading the trace\<close>

fun writes_of :: "event list \<Rightarrow> path list" where
  "writes_of [] = []"
| "writes_of (EvWrite p # es) = p # writes_of es"
| "writes_of (_ # es) = writes_of es"

fun details_of :: "event list \<Rightarrow> string list" where
  "details_of [] = []"
| "details_of (EvDetail s # es) = s # details_of es"
| "details_of (_ # es) = details_of es"

fun runs_of :: "event list \<Rightarrow> string list" where
  "runs_of [] = []"
| "runs_of (EvRun s # es) = s # runs_of es"
| "runs_of (_ # es) = runs_of es"

text \<open>The events that a run starting in \<open>w\<close> and ending in \<open>w'\<close> added.\<close>

definition new_events :: "world \<Rightarrow> world \<Rightarrow> event list" where
  "new_events w w' = drop (length (trace w)) (trace w')"

text \<open>The image file of a panel, as \<open>generateImageWithFlux\<close> names it.\<close>

definition image_file :: "path \<Rightarrow> ComicPanel \<Rightarrow> path" where
  "image_file imagesDir panel = path_join imagesDir (''panel-'' @ show_int (panel_id panel) @ ''.jpg'')"

text \<open>The entry of \<open>generatedImages\<close> for a panel whose image is in \<open>imagesDir\<close>.\<close>

definition image_entry :: "env \<Rightarrow> path \<Rightarrow> ComicPanel \<Rightarrow> GeneratedImage" where
  "image_entry E imagesDir panel =
     \<lparr>img_panelId = panel_id panel,
      img_imageUrl = ''file://'' @ render_abs (image_file imagesDir panel),
      img_imagePath = render_rel (path_relative (cwd E) (image_file imagesDir panel))\<rparr>"

text \<open>The files a successful pass over the panels writes, in order.\<close>

definition panel_writes :: "path \<Rightarrow> path \<Rightarrow> ComicPanel list \<Rightarrow> path list" where
  "panel_writes cd idir ps = concat (map (\<lambda>p. [panel_file cd p, image_file idir p]) ps)"

definition only_mkdirs :: "event list \<Rightarrow> bool" where
  "only_mkdirs evs = list_all (\<lambda>e. case e of EvMkdir _ \<Rightarrow> True | _ \<Rightarrow> False) evs"

section \<open>Example environments\<close>

definition panel1 :: ComicPanel where
  "panel1 = \<lparr>panel_id = 1, panel_description = ''a'', panel_characters = [''x'', ''y''],
     panel_setting = ''s'', panel_dialogue = None, panel_visualStyle = ''v'',
     panel_imagePrompt = ''i''\<rparr>"

definition story_of :: "ComicPanel list \<Rightarrow> ComicStory" where
  "story_of ps = \<lparr>story_title = ''t'', story_genre = ''g'', story_theme = ''h'',
     story_characters = [], story_panels = ps, story_artStyle = ''m''\<rparr>"

definition count_details :: "event list \<Rightarrow> nat" where
  "count_details h = length (details_of h)"

definition count_runs :: "event list \<Rightarrow> nat" where
  "count_runs h = length (runs_of h)"

text \<open>
  Every call succeeds; the story has panels 1 and 2; the illustrator answers \<open>one\<close> to
  its odd calls and \<open>two\<close> to its even ones.
\<close>

definition env_ok :: env where
  "env_ok = \<lparr>cwd = [''home''],
     clock = (\<lambda>h. \<lparr>ms = int (length h), iso = ''2026-11-02T13:00:00.000Z''\<rparr>),
     generateObject = (\<lambda>h p. Inr (story_of [panel1, panel1\<lparr>panel_id := 2\<rparr>])),
     generateText = (\<lambda>h p. Inr (if even (count_details h) then ''one'' else ''two'')),
     replicate_run = (\<lambda>h p. Inr (OutFile (JString ''u''))),
     https_get = (\<lambda>h u. Response 200 (Finished ''jpg'')),
     fs_error = (\<lambda>h p. None)\<rparr>"

text \<open>The model answers a request with a story of one panel.\<close>

definition env_short :: env where
  "env_short = env_ok\<lparr>generateObject := (\<lambda>h p. Inr (story_of [panel1]))\<rparr>"

text \<open>The model answers with two panels that both have id 3.\<close>

definition env_dup :: env where
  "env_dup = env_ok\<lparr>generateObject :=
     (\<lambda>h p. Inr (story_of [panel1\<lparr>panel_id := 3\<rparr>, panel1\<lparr>panel_id := 3, panel_description := ''b''\<rparr>]))\<rparr>"

text \<open>As \<open>env_dup\<close>, and the write stream of the second download reports an error.\<close>

definition env_dup_enospc :: env where
  "env_dup_enospc = env_dup\<lparr>https_get :=
     (\<lambda>h u. if count_runs h = 2 then Response 200 (FileError (Error ''ENOSPC''))
             else Response 200 (Finished ''jpg''))\<rparr>"

text \<open>Three panels; the second download is answered with status 404.\<close>

definition env_404 :: env where
  "env_404 = env_ok\<lparr>
     generateObject := (\<lambda>h p. Inr (story_of [panel1, panel1\<lparr>panel_id := 2\<rparr>, panel1\<lparr>panel_id := 3\<rparr>])),
     https_get := (\<lambda>h u. if count_runs h = 2 then Response 404 (Finished [])
                          else Response 200 (Finished ''jpg''))\<rparr>"

text \<open>Three panels; the image service resolves to nothing for the second.\<close>

definition env_badloc :: env where
  "env_badloc = env_ok\<lparr>
     generateObject := (\<lambda>h p. Inr (story_of [panel1, panel1\<lparr>panel_id := 2\<rparr>, panel1\<lparr>panel_id := 3\<rparr>])),
     replicate_run := (\<lambda>h p. if count_runs h = 1 then Inr OutUndefined
                              else Inr (OutFile (JString ''u'')))\<rparr>"

definition world0 :: world where
  "world0 = \<lparr>fs = (\<lambda>p. None), trace = []\<rparr>"

definition req4 :: ComicGenerationRequest where
  "req4 = \<lparr>req_prompt = ''cat'', req_panelCount = Num 4, req_artStyle = None, req_genre = None\<rparr>"

definition req2 :: ComicGenerationRequest where
  "req2 = \<lparr>req_prompt = ''cat'', req_panelCount = Num 2, req_artStyle = None, req_genre = None\<rparr>"

text \<open>Every download is answered with status 404.\<close>

definition env_http404 :: env where
  "env_http404 = env_ok\<lparr>https_get := (\<lambda>h u. Response 404 (Finished []))\<rparr>"

text \<open>What the run in \<open>env_ok\<close> returns, and the world it ends in.\<close>

definition res_ok :: ComicGenerationResult where
  "res_ok = \<lparr>res_story = story_of [panel1, panel1\<lparr>panel_id := 2\<rparr>],
     res_generatedImages =
       [\<lparr>img_panelId = 1, img_imageUrl = ''file:///home/.workspace/images/panel-1.jpg'',
          img_imagePath = ''.workspace/images/panel-1.jpg''\<rparr>,
        \<lparr>img_panelId = 2, img_imageUrl = ''file:///home/.workspace/images/panel-2.jpg'',
          img_imagePath = ''.workspace/images/panel-2.jpg''\<rparr>],
     res_metadata = \<lparr>meta_generatedAt = ''2026-11-02T13:00:00.000Z'',
        meta_totalPanels = 2, meta_processingTimeMs = 22\<rparr>\<rparr>"

definition w_ok :: world where
  "w_ok = snd (generateComic env_ok req4 world0)"

text \<open>What the run in \<open>env_short\<close> returns, and the world it ends in.\<close>

definition res_short :: ComicGenerationResult where
  "res_short = \<lparr>res_story = story_of [panel1],
     res_generatedImages =
       [\<lparr>img_panelId = 1, img_imageUrl = ''file:///home/.workspace/images/panel-1.jpg'',
          img_imagePath = ''.workspace/images/panel-1.jpg''\<rparr>],
     res_metadata = \<lparr>meta_generatedAt = ''2026-11-02T13:00:00.000Z'',
        meta_totalPanels = 1, meta_processingTimeMs = 15\<rparr>\<rparr>"

definition w_short :: world where
  "w_short = snd (generateComic env_short req4 world0)"

text \<open>
  The name of the comic directory as the spec words it: the ISO timestamp with its colons
  replaced by dashes. It is compared with \<open>timestamp_of\<close>, which is what the code does.
\<close>

definition spec_timestamp :: "string \<Rightarrow> string" where
  "spec_timestamp s = map (\<lambda>c. if c = CHR '':'' then CHR ''-'' else c) s"

text \<open>The world after the loop body has run for \<open>panel1\<close> in \<open>env_ok\<close>, from the empty world.\<close>

definition w_panel1 :: world where
  "w_panel1 = snd (process_panel env_ok (story_of [panel1]) [''c''] [''i''] panel1 world0)"

text \<open>The story of \<open>env_dup\<close>, what \<open>comic_prepare\<close> returns there, and the world the run ends in.\<close>

definition story_dup :: ComicStory where
  "story_dup = story_of [panel1\<lparr>panel_id := 3\<rparr>, panel1\<lparr>panel_id := 3, panel_description := ''b''\<rparr>]"

definition w_dup :: world where
  "w_dup = snd (generateComic env_dup req4 world0)"

definition pr_dup :: prepared where
  "pr_dup = \<lparr>pr_startTime = 0, pr_story = story_dup,
     pr_comicDir = [''home'', ''.workspace'', ''comics'', ''comic-2026-11-02T13-00-00-000Z''],
     pr_imagesDir = [''home'', ''.workspace'', ''images'']\<rparr>"

text \<open>The world the run in \<open>env_dup_enospc\<close> ends in.\<close>

definition w_enospc :: world where
  "w_enospc = snd (generateComic env_dup_enospc req4 world0)"

text \<open>
  The story of three panels of \<open>env_404\<close> and \<open>env_badloc\<close>, what \<open>comic_prepare\<close>
  returns there, and the worlds of the run in \<open>env_404\<close>: after the preparation, after the
  first panel, and after the second panel has failed.
\<close>

definition story_three :: ComicStory where
  "story_three = story_of [panel1, panel1\<lparr>panel_id := 2\<rparr>, panel1\<lparr>panel_id := 3\<rparr>]"

definition pr_three :: prepared where
  "pr_three = \<lparr>pr_startTime = 0, pr_story = story_three,
     pr_comicDir = [''home'', ''.workspace'', ''comics'', ''comic-2026-11-02T13-00-00-000Z''],
     pr_imagesDir = [''home'', ''.workspace'', ''images'']\<rparr>"

definition w404_1 :: world where
  "w404_1 = snd (comic_prepare env_404 req4 world0)"

definition w404_2 :: world where
  "w404_2 = snd (panel_loop env_404 story_three (pr_comicDir pr_three) (pr_imagesDir pr_three)
     [panel1] [] w404_1)"

definition w404_3 :: world where
  "w404_3 = snd (process_panel env_404 story_three (pr_comicDir pr_three) (pr_imagesDir pr_three)
     (panel1\<lparr>panel_id := 2\<rparr>) w404_2)"

text \<open>The world the run in \<open>env_badloc\<close> ends in.\<close>

definition w_badloc :: world where
  "w_badloc = snd (generateComic env_badloc req4 world0)"

text \<open>As \<open>env_dup\<close>, and every download is answered with status 404.\<close>

definition env_dup_404 :: env where
  "env_dup_404 = env_dup\<lparr>https_get := (\<lambda>h u. Response 404 (Finished []))\<rparr>"

definition w_dup_404 :: world where
  "w_dup_404 = snd (generateComic env_dup_404 req4 world0)"

text \<open>
  As \<open>env_ok\<close>, with a clock that shows 13:00:00 at its first reading and 13:00:07 at
  every later one.
\<close>

definition env_late :: env where
  "env_late = env_ok\<lparr>clock :=
     (\<lambda>h. if h = [] then \<lparr>ms = 0, iso = ''2026-11-02T13:00:00.000Z''\<rparr>
          else \<lparr>ms = 7000, iso = ''2026-11-02T13:00:07.000Z''\<rparr>)\<rparr>"

definition res_late :: ComicGenerationResult where
  "res_late = \<lparr>res_story = story_of [panel1, panel1\<lparr>panel_id := 2\<rparr>],
     res_generatedImages =
       [\<lparr>img_panelId = 1, img_imageUrl = ''file:///home/.workspace/images/panel-1.jpg'',
          img_imagePath = ''.workspace/images/panel-1.jpg''\<rparr>,
        \<lparr>img_panelId = 2, img_imageUrl = ''file:///home/.workspace/images/panel-2.jpg'',
          img_imagePath = ''.workspace/images/panel-2.jpg''\<rparr>],
     res_metadata = \<lparr>meta_generatedAt = ''2026-11-02T13:00:07.000Z'',
        meta_totalPanels = 2, meta_processingTimeMs = 7000\<rparr>\<rparr>"

definition w_late :: world where
  "w_late = snd (generateComic env_late req4 world0)"

section \<open>Numbers and paths: the names of the files are injective in the panel id\<close>

lemma digit_char_inj: "a < 10 \<Longrightarrow> b < 10 \<Longrightarrow> digit_char a = digit_char b \<Longrightarrow> a = b"
proof -
  assume a: "a < 10" and b: "b < 10" and e: "digit_char a = digit_char b"
  have d: "distinct ''0123456789''" by simp
  from a b e d show "a = b"
    unfolding digit_char_def by (simp add: nth_eq_iff_index_eq)
qed

lemma digit_char_not_minus: "d < 10 \<Longrightarrow> digit_char d \<noteq> CHR ''-''"
proof -
  assume "d < 10"
  then have "digit_char d \<in> set ''0123456789''"
    unfolding digit_char_def by (intro nth_mem) simp
  then show ?thesis by auto
qed

lemma digits_nonempty: "digits n \<noteq> []"
  by (subst digits.simps) simp

lemma digits_hd_not_minus: "hd (digits n) \<noteq> CHR ''-''"
proof (induction n rule: digits.induct)
  case (1 n)
  show ?case
  proof (cases "n < 10")
    case True
    then show ?thesis by (subst digits.simps) (simp add: digit_char_not_minus)
  next
    case False
    with 1 show ?thesis by (subst digits.simps) (simp add: digits_nonempty)
  qed
qed

lemma digits_inj: "digits n = digits m \<Longrightarrow> n = m"
proof (induction n arbitrary: m rule: digits.induct)
  case (1 n)
  show ?case
  proof (cases "n < 10")
    case n: True
    show ?thesis
    proof (cases "m < 10")
      case True
      with n 1(2) show ?thesis
        by (simp add: digits.simps[of n] digits.simps[of m] digit_char_inj)
    next
      case False
      with n 1(2) show ?thesis
        using digits_nonempty[of "m div 10"]
        by (simp add: digits.simps[of n] digits.simps[of m])
    qed
  next
    case n: False
    show ?thesis
    proof (cases "m < 10")
      case True
      with n 1(2) show ?thesis
        by (simp add: digits.simps[of n] digits.simps[of m] digits_nonempty)
    next
      case False
      with n 1(2) have e: "digits (n div 10) = digits (m div 10)"
        and d: "digit_char (n mod 10) = digit_char (m mod 10)"
        by (simp_all add: digits.simps[of n] digits.simps[of m])
      from 1(1)[OF n e] have "n div 10 = m div 10" .
      moreover from d have "n mod 10 = m mod 10" by (simp add: digit_char_inj)
      ultimately show ?thesis by (metis div_mult_mod_eq)
    qed
  qed
qed

lemma show_int_inj: "show_int a = show_int b \<Longrightarrow> a = b"
proof -
  assume e: "show_int a = show_int b"
  have neg: "\<And>x y. x < 0 \<Longrightarrow> \<not> y < 0 \<Longrightarrow> show_int x \<noteq> show_int y"
  proof
    fix x y :: int
    assume "x < 0" "\<not> y < 0" "show_int x = show_int y"
    then have "CHR ''-'' # digits (nat (- x)) = digits (nat y)" by (simp add: show_int_def)
    then have "hd (digits (nat y)) = CHR ''-''" by (metis list.sel(1))
    then show False by (simp add: digits_hd_not_minus)
  qed
  show "a = b"
  proof (cases "a < 0")
    case a: True
    show ?thesis
    proof (cases "b < 0")
      case True
      with a e have "nat (- a) = nat (- b)" by (simp add: show_int_def digits_inj)
      with a True show ?thesis by simp
    next
      case False
      with a e neg show ?thesis by blast
    qed
  next
    case a: False
    show ?thesis
    proof (cases "b < 0")
      case True
      with a e neg[of b a] show ?thesis by simp
    next
      case False
      with a e have "nat a = nat b" by (simp add: show_int_def digits_inj)
      with a False show ?thesis by simp
    qed
  qed
qed

lemma panel_file_inj: "panel_file d p = panel_file d q \<Longrightarrow> panel_id p = panel_id q"
  by (simp add: panel_file_def path_join_def show_int_inj)

lemma image_file_inj: "image_file d p = image_file d q \<Longrightarrow> panel_id p = panel_id q"
  by (simp add: image_file_def path_join_def show_int_inj)

lemma path_relative_prefix: "path_relative a (a @ b) = b"
  by (induction a) simp_all

section \<open>The terminal UI\<close>

lemma trim_abc: "trim ''abc'' = ''abc''"
  by (simp add: trim_def is_ws_def)

lemma parseInt_abc: "parseInt ''abc'' = NaN"
  by code_simp

lemma Math_clamp:
  "Math_max (Num 1) (Math_min (Num 12) x) =
     (case x of NaN \<Rightarrow> NaN | Num i \<Rightarrow> Num (max 1 (min 12 i)))"
  by (cases x) (simp_all add: Math_min_def Math_max_def)

text \<open>
  What does hold of the options screen: the panel count is \<open>NaN\<close> or an integer from 1
  to 12, and a blank input gives 4.
\<close>

lemma options_submit_range:
  "st_panelCount (handleOptionsSubmit v st) = NaN \<or>
   (\<exists>i. st_panelCount (handleOptionsSubmit v st) = Num i \<and> 1 \<le> i \<and> i \<le> 12)"
  by (simp add: handleOptionsSubmit_def Math_clamp Let_def split: jsnum.splits)

lemma dropWhile_all: "\<forall>c\<in>set v. P c \<Longrightarrow> dropWhile P v = []"
  by (induction v) auto

lemma options_submit_blank:
  "\<forall>c\<in>set v. is_ws c \<Longrightarrow> st_panelCount (handleOptionsSubmit v st) = Num 4"
  by (simp add: handleOptionsSubmit_def trim_def dropWhile_all Math_min_def Math_max_def)

text \<open>
  C3. The claim: every string submitted at the options screen gives a panel count that
  is an integer from 1 to 12. The code at the input \<open>abc\<close>: the trimmed input is not
  empty, \<open>parseInt\<close> finds no digit and returns \<open>NaN\<close>, and \<open>Math.min\<close> and
  \<open>Math.max\<close> hand \<open>NaN\<close> on, so the state and the request built from it carry the
  panel count \<open>NaN\<close>.
\<close>

theorem options_submit_abc_is_NaN:
  "st_panelCount (handleOptionsSubmit ''abc'' st) = NaN
   \<and> req_panelCount (request_of (handleOptionsSubmit ''abc'' st)) = NaN"
  by (simp add: handleOptionsSubmit_def trim_abc parseInt_abc Math_min_def Math_max_def request_of_def)

text \<open>
  C8. Submitting text on the done screen gives the state of a fresh session with the
  submitted text as current input: the step is \<open>prompt\<close>, the prompt is empty, the panel
  count is 4, and result, error, art style and genre are absent. The new state does not
  depend on the state before, and neither does the request that the next prompt and
  options submissions lead to.
\<close>

theorem done_submit_resets:
  "handleDoneSubmit v st = initial_state\<lparr>st_currentInput := v\<rparr>
   \<and> st_step (handleDoneSubmit v st) = Prompt
   \<and> st_prompt (handleDoneSubmit v st) = []
   \<and> st_panelCount (handleDoneSubmit v st) = Num 4
   \<and> st_result (handleDoneSubmit v st) = None
   \<and> st_error (handleDoneSubmit v st) = None
   \<and> st_artStyle (handleDoneSubmit v st) = None
   \<and> st_genre (handleDoneSubmit v st) = None
   \<and> handleDoneSubmit v st = handleDoneSubmit v st'
   \<and> request_of (handleOptionsSubmit o1 (handlePromptSubmit p1 (handleDoneSubmit v st)))
       = request_of (handleOptionsSubmit o1 (handlePromptSubmit p1 initial_state))"
  by (simp add: handleDoneSubmit_def initial_state_def request_of_def handleOptionsSubmit_def
        handlePromptSubmit_def Let_def)

section \<open>Downloads\<close>

text \<open>
  The three ways a download fails. A status other than 200 and a failed request leave
  the file that \<open>createWriteStream\<close> made, empty, at the target path; only an error of
  the write stream removes it.
\<close>

lemma downloadImage_not_200:
  assumes "https_get E (trace w @ [EvCreate fp]) url = Response st body" and "st \<noteq> 200"
  shows "fst (downloadImage E url fp w) = Inl (Error (''Failed to download image: '' @ digits st))
     \<and> fs (snd (downloadImage E url fp w)) fp = Some (File (Bytes []))"
  using assms
  by (simp add: downloadImage_def createWriteStream_def log_event_def Let_def)

lemma downloadImage_request_error:
  assumes "https_get E (trace w @ [EvCreate fp]) url = RequestError e"
  shows "fst (downloadImage E url fp w) = Inl e
     \<and> fs (snd (downloadImage E url fp w)) fp = Some (File (Bytes []))"
  using assms
  by (simp add: downloadImage_def createWriteStream_def log_event_def Let_def)

lemma downloadImage_write_error:
  assumes "https_get E (trace w @ [EvCreate fp]) url = Response 200 (FileError e)"
  shows "fst (downloadImage E url fp w) = Inl e
     \<and> fs (snd (downloadImage E url fp w)) fp = None"
  using assms
  by (simp add: downloadImage_def createWriteStream_def unlink_def log_event_def Let_def)

lemma digits_404: "digits 404 = ''404''"
  by code_simp

text \<open>
  C7. The claim: when a download fails, by a status other than 200 or by a write error,
  the file at the target path is deleted before the error propagates. The code at a
  response with status 404: \<open>createWriteStream\<close> has already created the file, the
  promise is rejected with \<open>Failed to download image: 404\<close>, and nothing removes the
  file; it stays at the target path, empty. Only the handler of the write stream's
  error unlinks it.
\<close>

theorem download_404_leaves_file:
  "fst (downloadImage env_http404 ''u'' [''images'', ''panel-1.jpg''] world0)
     = Inl (Error ''Failed to download image: 404'')
   \<and> fs (snd (downloadImage env_http404 ''u'' [''images'', ''panel-1.jpg''] world0))
        [''images'', ''panel-1.jpg'']
     = Some (File (Bytes []))"
  by (simp add: downloadImage_def env_http404_def env_ok_def createWriteStream_def log_event_def
       world0_def digits_404 Let_def)

section \<open>What each operation does to the world\<close>

lemma writes_of_append [simp]: "writes_of (a @ b) = writes_of a @ writes_of b"
  by (induction a rule: writes_of.induct) simp_all

lemma details_of_append [simp]: "details_of (a @ b) = details_of a @ details_of b"
  by (induction a rule: details_of.induct) simp_all

lemma runs_of_append [simp]: "runs_of (a @ b) = runs_of a @ runs_of b"
  by (induction a rule: runs_of.induct) simp_all

lemma new_events_append: "trace w' = trace w @ evs \<Longrightarrow> new_events w w' = evs"
  by (simp add: new_events_def)

lemma writeFileSync_Inr:
  "writeFileSync E p c w = (Inr u, w') \<Longrightarrow>
     fs w' = (fs w)(p \<mapsto> File c) \<and> trace w' = trace w @ [EvWrite p]"
  by (auto simp: writeFileSync_def log_event_def split: option.splits)

lemma writeFileSync_Inl: "writeFileSync E p c w = (Inl e, w') \<Longrightarrow> w' = w"
  by (auto simp: writeFileSync_def split: option.splits)

lemma mkdirSync_Inr:
  "mkdirSync E p w = (Inr u, w') \<Longrightarrow>
     trace w' = trace w @ [EvMkdir p] \<and> (\<forall>q. q \<noteq> p \<longrightarrow> fs w' q = fs w q)
     \<and> (\<forall>q. fs w q \<noteq> None \<longrightarrow> fs w' q = fs w q)"
  by (auto simp: mkdirSync_def log_event_def split: option.splits)

lemma mkdirSync_Inl: "mkdirSync E p w = (Inl e, w') \<Longrightarrow> w' = w"
  by (auto simp: mkdirSync_def split: option.splits)

lemma createPanelFile_Inr:
  assumes "createPanelFile E p story dir w = (Inr fp, w')"
  shows "\<exists>d. generateText E (trace w) (detail_prompt p story) = Inr d
     \<and> fs w' = (fs w)(panel_file dir p \<mapsto> File (PanelJson (panelData_of p story d)))
     \<and> trace w' = trace w @ [EvDetail (detail_prompt p story), EvWrite (panel_file dir p)]
     \<and> fp = panel_file dir p"
  using assms
  by (auto simp: createPanelFile_def generateDetailedImageDescription_def log_event_def Let_def
        split: sum.splits prod.splits dest!: writeFileSync_Inr)

lemma createPanelFile_Inl:
  assumes "createPanelFile E p story dir w = (Inl e, w')"
  shows "w' = log_event (EvDetail (detail_prompt p story)) w"
  using assms
  by (auto simp: createPanelFile_def generateDetailedImageDescription_def Let_def
        split: sum.splits prod.splits dest!: writeFileSync_Inl)

lemma downloadImage_Inr:
  assumes "downloadImage E url fp w = (Inr u, w')"
  shows "\<exists>bytes. https_get E (trace w @ [EvCreate fp]) url = Response 200 (Finished bytes)
     \<and> fs w' = (fs w)(fp \<mapsto> File (Bytes bytes))
     \<and> trace w' = trace w @ [EvCreate fp, EvGet url, EvWrite fp]"
  using assms
  by (auto simp: downloadImage_def createWriteStream_def unlink_def log_event_def Let_def
        split: http_outcome.splits body_outcome.splits if_splits)

lemma downloadImage_Inl:
  assumes "downloadImage E url fp w = (Inl e, w')"
  shows "(fs w' = (fs w)(fp \<mapsto> File (Bytes [])) \<and> trace w' = trace w @ [EvCreate fp, EvGet url])
       \<or> (fs w' = (fs w)(fp := None) \<and> trace w' = trace w @ [EvCreate fp, EvGet url, EvUnlink fp])"
  using assms
  by (auto simp: downloadImage_def createWriteStream_def unlink_def log_event_def Let_def
        split: http_outcome.splits body_outcome.splits if_splits)

lemma generateImageWithFlux_Inr:
  assumes "generateImageWithFlux E prompt pid dir w = (Inr fp, w')"
  shows "\<exists>url bytes. replicate_run E (trace w) prompt = Inr (OutFile (JString url)) \<and> url \<noteq> []
     \<and> fp = path_join dir (''panel-'' @ pid @ ''.jpg'')
     \<and> fs w' = (fs w)(fp \<mapsto> File (Bytes bytes))
     \<and> trace w' = trace w @ [EvRun prompt, EvCreate fp, EvGet url, EvWrite fp]"
  using assms
  by (auto simp: generateImageWithFlux_def url_href_def log_event_def Let_def truthy_def
        is_string_def the_string_def
        split: sum.splits prod.splits if_splits js_value.splits run_output.splits
        dest!: downloadImage_Inr)

lemma generateImageWithFlux_Inl:
  assumes "generateImageWithFlux E prompt pid dir w = (Inl e, w')"
  shows "\<exists>evs. trace w' = trace w @ EvRun prompt # evs \<and> writes_of evs = [] \<and> details_of evs = []
     \<and> runs_of evs = []
     \<and> (\<forall>q. q \<noteq> path_join dir (''panel-'' @ pid @ ''.jpg'') \<longrightarrow> fs w' q = fs w q)"
  using assms
  by (auto simp: generateImageWithFlux_def log_event_def Let_def
        split: sum.splits prod.splits if_splits dest!: downloadImage_Inl)


lemma process_panel_Inr:
  assumes "process_panel E story cd idir p w = (Inr entry, w')"
  shows "\<exists>d1 d2 url bytes.
       generateText E (trace w) (detail_prompt p story) = Inr d1
     \<and> generateText E (trace w @ [EvDetail (detail_prompt p story), EvWrite (panel_file cd p)])
          (detail_prompt p story) = Inr d2
     \<and> replicate_run E (trace w @ [EvDetail (detail_prompt p story), EvWrite (panel_file cd p),
          EvDetail (detail_prompt p story)]) d2 = Inr (OutFile (JString url))
     \<and> trace w' = trace w @ [EvDetail (detail_prompt p story), EvWrite (panel_file cd p),
          EvDetail (detail_prompt p story), EvRun d2, EvCreate (image_file idir p), EvGet url,
          EvWrite (image_file idir p)]
     \<and> fs w' = (fs w)(panel_file cd p \<mapsto> File (PanelJson (panelData_of p story d1)),
          image_file idir p \<mapsto> File (Bytes bytes))
     \<and> entry = image_entry E idir p"
proof -
  from assms obtain fp w1 d2 w2 ip where
    c: "createPanelFile E p story cd w = (Inr fp, w1)" and
    g: "generateDetailedImageDescription E p story w1 = (Inr d2, w2)" and
    f: "generateImageWithFlux E d2 (show_int (panel_id p)) idir w2 = (Inr ip, w')" and
    e: "entry = \<lparr>img_panelId = panel_id p, img_imageUrl = ''file://'' @ render_abs ip,
          img_imagePath = render_rel (path_relative (cwd E) ip)\<rparr>"
    by (auto simp: process_panel_def split: sum.splits prod.splits)
  from createPanelFile_Inr[OF c] obtain d1 where
    d1: "generateText E (trace w) (detail_prompt p story) = Inr d1" and
    fs1: "fs w1 = (fs w)(panel_file cd p \<mapsto> File (PanelJson (panelData_of p story d1)))" and
    tr1: "trace w1 = trace w @ [EvDetail (detail_prompt p story), EvWrite (panel_file cd p)]"
    by blast
  from g have d2: "generateText E (trace w1) (detail_prompt p story) = Inr d2"
    and w2: "w2 = log_event (EvDetail (detail_prompt p story)) w1"
    by (auto simp: generateDetailedImageDescription_def)
  from generateImageWithFlux_Inr[OF f] obtain url bytes where
    r: "replicate_run E (trace w2) d2 = Inr (OutFile (JString url))" and
    ip: "ip = image_file idir p" and
    fs3: "fs w' = (fs w2)(ip \<mapsto> File (Bytes bytes))" and
    tr3: "trace w' = trace w2 @ [EvRun d2, EvCreate ip, EvGet url, EvWrite ip]"
    by (auto simp: image_file_def)
  show ?thesis
    using d1 d2 r fs1 tr1 w2 ip fs3 tr3 e
    by (auto simp: log_event_def image_entry_def)
qed

lemma process_panel_Inl:
  assumes "process_panel E story cd idir p w = (Inl e, w')"
  shows "\<exists>evs. trace w' = trace w @ evs
     \<and> set (writes_of evs) \<subseteq> {panel_file cd p}
     \<and> (details_of evs = [detail_prompt p story]
          \<or> details_of evs = [detail_prompt p story, detail_prompt p story])
     \<and> length (runs_of evs) \<le> 1
     \<and> (\<forall>q. q \<noteq> panel_file cd p \<and> q \<noteq> image_file idir p \<longrightarrow> fs w' q = fs w q)
     \<and> (fs w (panel_file cd p) \<noteq> None \<longrightarrow> fs w' (panel_file cd p) \<noteq> None)"
proof -
  consider
    (a) "createPanelFile E p story cd w = (Inl e, w')"
  | (b) fp w1 where "createPanelFile E p story cd w = (Inr fp, w1)"
      "generateDetailedImageDescription E p story w1 = (Inl e, w')"
  | (c) fp w1 d2 w2 where "createPanelFile E p story cd w = (Inr fp, w1)"
      "generateDetailedImageDescription E p story w1 = (Inr d2, w2)"
      "generateImageWithFlux E d2 (show_int (panel_id p)) idir w2 = (Inl e, w')"
    using assms by (auto simp: process_panel_def split: sum.splits prod.splits)
  then show ?thesis
  proof cases
    case a
    from createPanelFile_Inl[OF a] show ?thesis
      by (auto simp: log_event_def)
  next
    case b
    from createPanelFile_Inr[OF b(1)] b(2) show ?thesis
      by (auto simp: generateDetailedImageDescription_def log_event_def)
  next
    case c
    from createPanelFile_Inr[OF c(1)] obtain d1 where
      fs1: "fs w1 = (fs w)(panel_file cd p \<mapsto> File (PanelJson (panelData_of p story d1)))" and
      tr1: "trace w1 = trace w @ [EvDetail (detail_prompt p story), EvWrite (panel_file cd p)]"
      by blast
    from c(2) have w2: "w2 = log_event (EvDetail (detail_prompt p story)) w1"
      by (auto simp: generateDetailedImageDescription_def)
    from generateImageWithFlux_Inl[OF c(3)] obtain evs where
      tr3: "trace w' = trace w2 @ EvRun d2 # evs" and
      ev: "writes_of evs = []" "details_of evs = []" "runs_of evs = []" and
      fs3: "\<forall>q. q \<noteq> image_file idir p \<longrightarrow> fs w' q = fs w2 q"
      by (auto simp: image_file_def)
    have ne: "panel_file cd p \<noteq> image_file idir p"
      by (simp add: panel_file_def image_file_def path_join_def)
    show ?thesis
      using fs1 tr1 w2 tr3 ev fs3 ne
      by (auto simp: log_event_def)
  qed
qed

lemma panel_loop_append:
  "panel_loop E story cd idir (xs @ ys) acc w =
     (case panel_loop E story cd idir xs acc w of
        (Inl e, w1) \<Rightarrow> (Inl e, w1)
      | (Inr acc', w1) \<Rightarrow> panel_loop E story cd idir ys acc' w1)"
  by (induction xs arbitrary: acc w) (auto split: sum.splits prod.splits)

lemma panel_loop_Inr:
  assumes "panel_loop E story cd idir ps acc w = (Inr imgs, w')"
  shows "imgs = acc @ map (image_entry E idir) ps
     \<and> (\<exists>evs. trace w' = trace w @ evs
          \<and> writes_of evs = panel_writes cd idir ps
          \<and> details_of evs = concat (map (\<lambda>p. [detail_prompt p story, detail_prompt p story]) ps)
          \<and> length (runs_of evs) = length ps)
     \<and> (\<forall>q. fs w q \<noteq> None \<longrightarrow> fs w' q \<noteq> None)
     \<and> (\<forall>p\<in>set ps. fs w' (panel_file cd p) \<noteq> None \<and> fs w' (image_file idir p) \<noteq> None)
     \<and> (\<forall>q. q \<notin> set (panel_writes cd idir ps) \<longrightarrow> fs w' q = fs w q)"
  using assms
proof (induction ps arbitrary: acc w)
  case Nil
  then show ?case by (simp add: panel_writes_def)
next
  case (Cons p ps)
  from Cons.prems obtain entry w1 where
    p: "process_panel E story cd idir p w = (Inr entry, w1)" and
    l: "panel_loop E story cd idir ps (acc @ [entry]) w1 = (Inr imgs, w')"
    by (auto split: sum.splits prod.splits)
  from process_panel_Inr[OF p] obtain d1 d2 url bytes where
    tr1: "trace w1 = trace w @ [EvDetail (detail_prompt p story), EvWrite (panel_file cd p),
          EvDetail (detail_prompt p story), EvRun d2, EvCreate (image_file idir p), EvGet url,
          EvWrite (image_file idir p)]" and
    fs1: "fs w1 = (fs w)(panel_file cd p \<mapsto> File (PanelJson (panelData_of p story d1)),
          image_file idir p \<mapsto> File (Bytes bytes))" and
    en: "entry = image_entry E idir p"
    by blast
  from Cons.IH[OF l] obtain evs where
    i1: "imgs = (acc @ [entry]) @ map (image_entry E idir) ps" and
    i2: "trace w' = trace w1 @ evs" "writes_of evs = panel_writes cd idir ps"
       "details_of evs = concat (map (\<lambda>p. [detail_prompt p story, detail_prompt p story]) ps)"
       "length (runs_of evs) = length ps" and
    i3: "\<forall>q. fs w1 q \<noteq> None \<longrightarrow> fs w' q \<noteq> None" and
    i4: "\<forall>p\<in>set ps. fs w' (panel_file cd p) \<noteq> None \<and> fs w' (image_file idir p) \<noteq> None" and
    i5: "\<forall>q. q \<notin> set (panel_writes cd idir ps) \<longrightarrow> fs w' q = fs w1 q"
    by blast
  have a: "imgs = acc @ map (image_entry E idir) (p # ps)"
    using i1 en by simp
  have b: "\<exists>evs. trace w' = trace w @ evs
          \<and> writes_of evs = panel_writes cd idir (p # ps)
          \<and> details_of evs = concat (map (\<lambda>p. [detail_prompt p story, detail_prompt p story]) (p # ps))
          \<and> length (runs_of evs) = length (p # ps)"
    using tr1 i2 by (simp add: panel_writes_def)
  have c: "\<forall>q. fs w q \<noteq> None \<longrightarrow> fs w' q \<noteq> None"
    using i3 fs1 by auto
  have d: "\<forall>p\<in>set (p # ps). fs w' (panel_file cd p) \<noteq> None \<and> fs w' (image_file idir p) \<noteq> None"
    using i3 i4 fs1 by auto
  have e: "\<forall>q. q \<notin> set (panel_writes cd idir (p # ps)) \<longrightarrow> fs w' q = fs w q"
    using i5 fs1 by (auto simp: panel_writes_def)
  from a b c d e show ?case by blast
qed

lemma panel_loop_Inl:
  assumes "panel_loop E story cd idir ps acc w = (Inl e, w')"
  shows "\<exists>pre p post acc' w1. ps = pre @ p # post
     \<and> panel_loop E story cd idir pre acc w = (Inr acc', w1)
     \<and> process_panel E story cd idir p w1 = (Inl e, w')"
  using assms
proof (induction ps arbitrary: acc w)
  case Nil
  then show ?case by simp
next
  case (Cons p ps)
  show ?case
  proof (cases "process_panel E story cd idir p w")
    case (Pair r w1)
    show ?thesis
    proof (cases r)
      case (Inl e')
      with Pair Cons.prems have "e' = e" "w1 = w'" by auto
      with Pair Inl have "p # ps = [] @ p # ps
        \<and> panel_loop E story cd idir [] acc w = (Inr acc, w)
        \<and> process_panel E story cd idir p w = (Inl e, w')" by simp
      then show ?thesis by blast
    next
      case (Inr entry)
      with Pair Cons.prems have "panel_loop E story cd idir ps (acc @ [entry]) w1 = (Inl e, w')"
        by simp
      from Cons.IH[OF this] obtain pre q post acc' w2 where
        x: "ps = pre @ q # post" "panel_loop E story cd idir pre (acc @ [entry]) w1 = (Inr acc', w2)"
          "process_panel E story cd idir q w2 = (Inl e, w')"
        by blast
      from x Pair Inr have "p # ps = (p # pre) @ q # post
        \<and> panel_loop E story cd idir (p # pre) acc w = (Inr acc', w2)
        \<and> process_panel E story cd idir q w2 = (Inl e, w')" by simp
      then show ?thesis by blast
    qed
  qed
qed


lemma only_mkdirs_simps [simp]:
  "only_mkdirs []" "only_mkdirs (EvMkdir p # evs) = only_mkdirs evs"
  "only_mkdirs (a @ b) = (only_mkdirs a \<and> only_mkdirs b)"
  by (simp_all add: only_mkdirs_def)

lemma only_mkdirs_reads:
  "only_mkdirs evs \<Longrightarrow> writes_of evs = [] \<and> details_of evs = [] \<and> runs_of evs = []"
  by (induction evs) (auto simp: only_mkdirs_def split: event.splits)

lemma ensure_dir_Inr:
  assumes "ensure_dir E p w = (Inr u, w')"
  shows "\<exists>mk. trace w' = trace w @ mk \<and> only_mkdirs mk
     \<and> (\<forall>q. fs w q \<noteq> None \<longrightarrow> fs w' q = fs w q) \<and> (\<forall>q. q \<noteq> p \<longrightarrow> fs w' q = fs w q)"
proof (cases "existsSync p w")
  case True
  with assms have "w' = w" by (simp add: ensure_dir_def)
  then have "trace w' = trace w @ [] \<and> only_mkdirs []
     \<and> (\<forall>q. fs w q \<noteq> None \<longrightarrow> fs w' q = fs w q) \<and> (\<forall>q. q \<noteq> p \<longrightarrow> fs w' q = fs w q)"
    by simp
  then show ?thesis by blast
next
  case False
  with assms have "mkdirSync E p w = (Inr u, w')" by (simp add: ensure_dir_def)
  from mkdirSync_Inr[OF this] have "trace w' = trace w @ [EvMkdir p] \<and> only_mkdirs [EvMkdir p]
     \<and> (\<forall>q. fs w q \<noteq> None \<longrightarrow> fs w' q = fs w q) \<and> (\<forall>q. q \<noteq> p \<longrightarrow> fs w' q = fs w q)"
    by simp
  then show ?thesis by blast
qed

lemma ensureWorkspaceDirectory_Inr:
  assumes "ensureWorkspaceDirectory E w = (Inr wd, w')"
  shows "wd = cwd E @ [''.workspace'']
     \<and> (\<exists>mk. trace w' = trace w @ mk \<and> only_mkdirs mk)
     \<and> (\<forall>q. fs w q \<noteq> None \<longrightarrow> fs w' q = fs w q)"
proof -
  from assms obtain u1 w1 u2 w2 u3 where
    a: "ensure_dir E (cwd E @ [''.workspace'']) w = (Inr u1, w1)" and
    b: "ensure_dir E (cwd E @ [''.workspace'', ''comics'']) w1 = (Inr u2, w2)" and
    c: "ensure_dir E (cwd E @ [''.workspace'', ''images'']) w2 = (Inr u3, w')" and
    d: "wd = cwd E @ [''.workspace'']"
    by (auto simp: ensureWorkspaceDirectory_def path_join_def Let_def split: sum.splits prod.splits)
  from ensure_dir_Inr[OF a] obtain m1 where
    a': "trace w1 = trace w @ m1" "only_mkdirs m1" "\<forall>q. fs w q \<noteq> None \<longrightarrow> fs w1 q = fs w q"
    by blast
  from ensure_dir_Inr[OF b] obtain m2 where
    b': "trace w2 = trace w1 @ m2" "only_mkdirs m2" "\<forall>q. fs w1 q \<noteq> None \<longrightarrow> fs w2 q = fs w1 q"
    by blast
  from ensure_dir_Inr[OF c] obtain m3 where
    c': "trace w' = trace w2 @ m3" "only_mkdirs m3" "\<forall>q. fs w2 q \<noteq> None \<longrightarrow> fs w' q = fs w2 q"
    by blast
  have "trace w' = trace w @ (m1 @ m2 @ m3) \<and> only_mkdirs (m1 @ m2 @ m3)"
    using a' b' c' by simp
  moreover have "\<forall>q. fs w q \<noteq> None \<longrightarrow> fs w' q = fs w q"
    using a'(3) b'(3) c'(3) by metis
  ultimately show ?thesis using d by blast
qed

lemma comic_prepare_Inr:
  assumes "comic_prepare E req w = (Inr pr, w1)"
  shows "\<exists>mk t1.
       trace w1 = trace w @ EvClock (clock E (trace w)) # mk @
          [EvStory (story_prompt req), EvClock t1, EvMkdir (pr_comicDir pr),
           EvWrite (path_join (pr_comicDir pr) ''story.json'')]
     \<and> only_mkdirs mk
     \<and> pr_startTime pr = ms (clock E (trace w))
     \<and> generateObject E (trace w @ EvClock (clock E (trace w)) # mk) (story_prompt req)
         = Inr (pr_story pr)
     \<and> t1 = clock E (trace w @ EvClock (clock E (trace w)) # mk @ [EvStory (story_prompt req)])
     \<and> pr_comicDir pr = cwd E @ [''.workspace'', ''comics'', ''comic-'' @ timestamp_of (iso t1)]
     \<and> pr_imagesDir pr = cwd E @ [''.workspace'', ''images'']
     \<and> fs w1 (path_join (pr_comicDir pr) ''story.json'') = Some (File (StoryJson (pr_story pr)))
     \<and> (\<forall>q. fs w q \<noteq> None \<longrightarrow> fs w1 q \<noteq> None)"
proof -
  define t0 where "t0 = clock E (trace w)"
  define wa where "wa = log_event (EvClock t0) w"
  from assms obtain wd wb story wc t1 wdd u1 we u2 where
    a: "ensureWorkspaceDirectory E wa = (Inr wd, wb)" and
    b: "generateComicStory E req wb = (Inr story, wc)" and
    c: "read_clock E wc = (t1, wdd)" and
    d: "mkdirSync E (path_join (path_join wd ''comics'') (''comic-'' @ timestamp_of (iso t1))) wdd
          = (Inr u1, we)" and
    e: "writeFileSync E (path_join (path_join (path_join wd ''comics'')
          (''comic-'' @ timestamp_of (iso t1))) ''story.json'') (StoryJson story) we = (Inr u2, w1)" and
    f: "pr = \<lparr>pr_startTime = ms t0, pr_story = story,
          pr_comicDir = path_join (path_join wd ''comics'') (''comic-'' @ timestamp_of (iso t1)),
          pr_imagesDir = path_join wd ''images''\<rparr>"
    by (auto simp: comic_prepare_def read_clock_def Let_def t0_def wa_def
          split: sum.splits prod.splits)
  from ensureWorkspaceDirectory_Inr[OF a] obtain mk where
    a': "wd = cwd E @ [''.workspace'']" "trace wb = trace wa @ mk" "only_mkdirs mk"
      "\<forall>q. fs wa q \<noteq> None \<longrightarrow> fs wb q = fs wa q"
    by blast
  from b have b': "generateObject E (trace wb) (story_prompt req) = Inr story"
    "wc = log_event (EvStory (story_prompt req)) wb"
    by (auto simp: generateComicStory_def)
  from c have c': "t1 = clock E (trace wc)" "wdd = log_event (EvClock t1) wc"
    by (auto simp: read_clock_def Let_def)
  note d' = mkdirSync_Inr[OF d]
  note e' = writeFileSync_Inr[OF e]
  have tr: "trace wa = trace w @ [EvClock t0]" "fs wa = fs w"
    by (simp_all add: wa_def log_event_def)
  show ?thesis
    apply (rule exI[of _ mk])
    apply (rule exI[of _ t1])
    using a' b' c' d' e' f tr
    apply (simp add: log_event_def path_join_def t0_def[symmetric])
    done
qed

lemma comic_finish_Inr:
  assumes "comic_finish E pr imgs w = (Inr res, w')"
  shows "\<exists>t2 t3. trace w' = trace w @ [EvClock t2, EvClock t3,
          EvWrite (path_join (pr_comicDir pr) ''result.json'')]
     \<and> res = \<lparr>res_story = pr_story pr, res_generatedImages = imgs,
          res_metadata = \<lparr>meta_generatedAt = iso t3,
            meta_totalPanels = length (story_panels (pr_story pr)),
            meta_processingTimeMs = ms t2 - pr_startTime pr\<rparr>\<rparr>
     \<and> fs w' = (fs w)(path_join (pr_comicDir pr) ''result.json'' \<mapsto> File (ResultJson res))"
  using assms
  by (auto simp: comic_finish_def read_clock_def log_event_def Let_def
        split: sum.splits prod.splits dest!: writeFileSync_Inr)

lemma generateComic_Inr:
  assumes "generateComic E req w = (Inr res, w')"
  shows "\<exists>pr w1 imgs w2. comic_prepare E req w = (Inr pr, w1)
     \<and> panel_loop E (pr_story pr) (pr_comicDir pr) (pr_imagesDir pr) (story_panels (pr_story pr)) [] w1
          = (Inr imgs, w2)
     \<and> comic_finish E pr imgs w2 = (Inr res, w')"
  using assms
  by (auto simp: generateComic_def split: sum.splits prod.splits)

section \<open>Runs of the example environments\<close>

lemmas run_defs = generateComic_def comic_prepare_def comic_finish_def
  read_clock_def log_event_def ensureWorkspaceDirectory_def ensure_dir_def existsSync_def
  mkdirSync_def path_join_def generateComicStory_def writeFileSync_def process_panel_def
  createPanelFile_def generateDetailedImageDescription_def generateImageWithFlux_def
  downloadImage_def createWriteStream_def unlink_def truthy_def is_string_def the_string_def
  url_href_def
  panel_file_def timestamp_of_def render_abs_def count_details_def count_runs_def Let_def

lemma show_int_1: "show_int 1 = ''1''"
  by code_simp

lemma show_int_2: "show_int 2 = ''2''"
  by code_simp

lemma show_int_3: "show_int 3 = ''3''"
  by code_simp

lemmas show_small = show_int_1 show_int_2 show_int_3

lemma env_ok_sel:
  "cwd env_ok = [''home'']"
  "clock env_ok h = \<lparr>ms = int (length h), iso = ''2026-11-02T13:00:00.000Z''\<rparr>"
  "generateObject env_ok h s = Inr (story_of [panel1, panel1\<lparr>panel_id := 2\<rparr>])"
  "generateText env_ok h s = Inr (if even (count_details h) then ''one'' else ''two'')"
  "replicate_run env_ok h s = Inr (OutFile (JString ''u''))"
  "https_get env_ok h s = Response 200 (Finished ''jpg'')"
  "fs_error env_ok h q = None"
  by (simp_all add: env_ok_def)

lemma env_short_sel:
  "cwd env_short = [''home'']"
  "clock env_short h = \<lparr>ms = int (length h), iso = ''2026-11-02T13:00:00.000Z''\<rparr>"
  "generateObject env_short h s = Inr (story_of [panel1])"
  "generateText env_short h s = Inr (if even (count_details h) then ''one'' else ''two'')"
  "replicate_run env_short h s = Inr (OutFile (JString ''u''))"
  "https_get env_short h s = Response 200 (Finished ''jpg'')"
  "fs_error env_short h q = None"
  by (simp_all add: env_short_def env_ok_sel)

lemma env_dup_sel:
  "cwd env_dup = [''home'']"
  "clock env_dup h = \<lparr>ms = int (length h), iso = ''2026-11-02T13:00:00.000Z''\<rparr>"
  "generateObject env_dup h s = Inr story_dup"
  "generateText env_dup h s = Inr (if even (count_details h) then ''one'' else ''two'')"
  "replicate_run env_dup h s = Inr (OutFile (JString ''u''))"
  "https_get env_dup h s = Response 200 (Finished ''jpg'')"
  "fs_error env_dup h q = None"
  by (simp_all add: env_dup_def env_ok_sel story_dup_def)

lemma env_dup_enospc_sel:
  "cwd env_dup_enospc = [''home'']"
  "clock env_dup_enospc h = \<lparr>ms = int (length h), iso = ''2026-11-02T13:00:00.000Z''\<rparr>"
  "generateObject env_dup_enospc h s = Inr story_dup"
  "generateText env_dup_enospc h s = Inr (if even (count_details h) then ''one'' else ''two'')"
  "replicate_run env_dup_enospc h s = Inr (OutFile (JString ''u''))"
  "https_get env_dup_enospc h s =
     (if count_runs h = 2 then Response 200 (FileError (Error ''ENOSPC''))
      else Response 200 (Finished ''jpg''))"
  "fs_error env_dup_enospc h q = None"
  by (simp_all add: env_dup_enospc_def env_dup_sel)

lemma env_404_sel:
  "cwd env_404 = [''home'']"
  "clock env_404 h = \<lparr>ms = int (length h), iso = ''2026-11-02T13:00:00.000Z''\<rparr>"
  "generateObject env_404 h s = Inr story_three"
  "generateText env_404 h s = Inr (if even (count_details h) then ''one'' else ''two'')"
  "replicate_run env_404 h s = Inr (OutFile (JString ''u''))"
  "https_get env_404 h s =
     (if count_runs h = 2 then Response 404 (Finished []) else Response 200 (Finished ''jpg''))"
  "fs_error env_404 h q = None"
  by (simp_all add: env_404_def env_ok_sel story_three_def)

lemma env_badloc_sel:
  "cwd env_badloc = [''home'']"
  "clock env_badloc h = \<lparr>ms = int (length h), iso = ''2026-11-02T13:00:00.000Z''\<rparr>"
  "generateObject env_badloc h s = Inr story_three"
  "generateText env_badloc h s = Inr (if even (count_details h) then ''one'' else ''two'')"
  "replicate_run env_badloc h s =
     (if count_runs h = 1 then Inr OutUndefined else Inr (OutFile (JString ''u'')))"
  "https_get env_badloc h s = Response 200 (Finished ''jpg'')"
  "fs_error env_badloc h q = None"
  by (simp_all add: env_badloc_def env_ok_sel story_three_def)

lemma run_ok: "fst (generateComic env_ok req4 world0) = Inr res_ok"
  by (simp add: run_defs env_ok_sel world0_def story_of_def panel1_def res_ok_def show_small
        cong: let_weak_cong prod.case_cong_weak)

lemma run_ok_pair: "generateComic env_ok req4 world0 = (Inr res_ok, w_ok)"
  by (simp add: prod_eq_iff run_ok w_ok_def)

section \<open>The result of a successful run\<close>

lemma image_file_run:
  "image_file (cwd E @ [''.workspace'', ''images'']) p =
     cwd E @ [''.workspace'', ''images'', ''panel-'' @ show_int (panel_id p) @ ''.jpg'']"
  by (simp add: image_file_def path_join_def)

lemma image_entry_run:
  "image_entry E (cwd E @ [''.workspace'', ''images'']) p =
     \<lparr>img_panelId = panel_id p,
      img_imageUrl = ''file://'' @ render_abs (cwd E @ [''.workspace'', ''images'',
         ''panel-'' @ show_int (panel_id p) @ ''.jpg'']),
      img_imagePath = ''.workspace/images/panel-'' @ show_int (panel_id p) @ ''.jpg''\<rparr>"
  by (simp add: image_entry_def image_file_run path_relative_prefix)

text \<open>
  C10. On a successful run \<open>generatedImages\<close> has one entry per panel, in the order of
  the panels: entry \<open>i\<close> has the id of panel \<open>i\<close>, its \<open>imageUrl\<close> is \<open>file://\<close>
  followed by the absolute path of \<open>images/panel-<id>.jpg\<close> in the workspace under the
  working directory, its \<open>imagePath\<close> is that path relative to the working directory,
  and the file is there when the run ends.
\<close>

theorem generated_images_follow_panels:
  assumes "generateComic E req w = (Inr res, w')"
  shows "length (res_generatedImages res) = length (story_panels (res_story res))
     \<and> (\<forall>i < length (story_panels (res_story res)).
          img_panelId (res_generatedImages res ! i) = panel_id (story_panels (res_story res) ! i)
        \<and> img_imageUrl (res_generatedImages res ! i) =
            ''file://'' @ render_abs (cwd E @ [''.workspace'', ''images'',
               ''panel-'' @ show_int (panel_id (story_panels (res_story res) ! i)) @ ''.jpg''])
        \<and> img_imagePath (res_generatedImages res ! i) =
            ''.workspace/images/panel-'' @ show_int (panel_id (story_panels (res_story res) ! i)) @ ''.jpg''
        \<and> fs w' (cwd E @ [''.workspace'', ''images'',
               ''panel-'' @ show_int (panel_id (story_panels (res_story res) ! i)) @ ''.jpg'']) \<noteq> None)"
proof -
  from generateComic_Inr[OF assms] obtain pr w1 imgs w2 where
    a: "comic_prepare E req w = (Inr pr, w1)" and
    b: "panel_loop E (pr_story pr) (pr_comicDir pr) (pr_imagesDir pr) (story_panels (pr_story pr)) [] w1
          = (Inr imgs, w2)" and
    c: "comic_finish E pr imgs w2 = (Inr res, w')"
    by blast
  from comic_prepare_Inr[OF a] have idir: "pr_imagesDir pr = cwd E @ [''.workspace'', ''images'']"
    by blast
  from panel_loop_Inr[OF b] have
    imgs: "imgs = map (image_entry E (pr_imagesDir pr)) (story_panels (pr_story pr))" and
    ex: "\<forall>p\<in>set (story_panels (pr_story pr)). fs w2 (image_file (pr_imagesDir pr) p) \<noteq> None"
    by simp_all
  from comic_finish_Inr[OF c] have
    st: "res_story res = pr_story pr" and gi: "res_generatedImages res = imgs" and
    fs: "fs w' = (fs w2)(path_join (pr_comicDir pr) ''result.json'' \<mapsto> File (ResultJson res))"
    by auto
  have keep: "\<And>q. fs w2 q \<noteq> None \<Longrightarrow> fs w' q \<noteq> None"
    using fs by simp
  show ?thesis
    using st gi imgs idir ex keep
    by (simp add: image_entry_run image_file_run)
qed

theorem generated_images_follow_panels_witness:
  "generateComic env_ok req4 world0 = (Inr res_ok, w_ok)
   \<and> length (res_generatedImages res_ok) = 2
   \<and> map img_panelId (res_generatedImages res_ok) = map panel_id (story_panels (res_story res_ok))
   \<and> img_imageUrl (res_generatedImages res_ok ! 1) = ''file:///home/.workspace/images/panel-2.jpg''
   \<and> img_imagePath (res_generatedImages res_ok ! 1) = ''.workspace/images/panel-2.jpg''
   \<and> fs w_ok [''home'', ''.workspace'', ''images'', ''panel-2.jpg''] \<noteq> None"
proof -
  note t = generated_images_follow_panels[OF run_ok_pair, THEN conjunct2, rule_format, of 1]
  from t have "fs w_ok (cwd env_ok @ [''.workspace'', ''images'',
      ''panel-'' @ show_int (panel_id (story_panels (res_story res_ok) ! 1)) @ ''.jpg'']) \<noteq> None"
    by (simp add: res_ok_def story_of_def)
  then have "fs w_ok [''home'', ''.workspace'', ''images'', ''panel-2.jpg''] \<noteq> None"
    by (simp add: res_ok_def story_of_def env_ok_sel show_small)
  then show ?thesis
    using run_ok_pair by (simp add: res_ok_def story_of_def panel1_def)
qed

section \<open>The trace and the files of a successful run\<close>

lemma panel_file_ne_image_file: "panel_file cd p \<noteq> image_file idir q"
proof
  assume "panel_file cd p = image_file idir q"
  then have "show_int (panel_id p) @ ''.json'' = show_int (panel_id q) @ ''.jpg''"
    by (simp add: panel_file_def image_file_def path_join_def)
  then have "last (show_int (panel_id p) @ ''.json'') = last (show_int (panel_id q) @ ''.jpg'')"
    by (rule arg_cong)
  then show False by simp
qed

lemma panel_writes_Cons:
  "panel_writes cd idir (p # ps) = panel_file cd p # image_file idir p # panel_writes cd idir ps"
  by (simp add: panel_writes_def)

lemma set_panel_writes:
  "set (panel_writes cd idir ps) = panel_file cd ` set ps \<union> image_file idir ` set ps"
  by (induction ps) (auto simp: panel_writes_def)


lemma json_not_in_panel_writes:
  "path_join cd ''story.json'' \<notin> set (panel_writes cd idir ps)"
  "path_join cd ''result.json'' \<notin> set (panel_writes cd idir ps)"
  by (auto simp: set_panel_writes panel_file_def image_file_def path_join_def)


lemma distinct_panel_writes:
  "distinct (map panel_id ps) \<Longrightarrow> distinct (panel_writes cd idir ps)"
proof (induction ps)
  case Nil
  then show ?case by (simp add: panel_writes_def)
next
  case (Cons p ps)
  then have d: "distinct (panel_writes cd idir ps)" and n: "panel_id p \<notin> panel_id ` set ps"
    by simp_all
  have a: "panel_file cd p \<notin> set (panel_writes cd idir ps)"
  proof
    assume "panel_file cd p \<in> set (panel_writes cd idir ps)"
    then obtain q where "q \<in> set ps" "panel_file cd p = panel_file cd q \<or> panel_file cd p = image_file idir q"
      unfolding set_panel_writes by blast
    with panel_file_ne_image_file[of cd p idir q] have "q \<in> set ps" "panel_id p = panel_id q"
      by (blast dest: panel_file_inj)+
    with n show False by blast
  qed
  have b: "image_file idir p \<notin> set (panel_writes cd idir ps)"
  proof
    assume "image_file idir p \<in> set (panel_writes cd idir ps)"
    then obtain q where "q \<in> set ps" "image_file idir p = panel_file cd q \<or> image_file idir p = image_file idir q"
      unfolding set_panel_writes by blast
    with panel_file_ne_image_file[of cd q idir p] have "q \<in> set ps" "panel_id p = panel_id q"
      by (metis, metis image_file_inj)
    with n show False by blast
  qed
  show ?case
    using a b d panel_file_ne_image_file[of cd p idir p]
    by (simp add: panel_writes_Cons)
qed


lemma success_run:
  assumes "generateComic E req w = (Inr res, w')"
  shows "\<exists>mk t1 evs t2 t3.
       new_events w w' = EvClock (clock E (trace w)) # mk @
          [EvStory (story_prompt req), EvClock t1,
           EvMkdir (cwd E @ [''.workspace'', ''comics'', ''comic-'' @ timestamp_of (iso t1)]),
           EvWrite (cwd E @ [''.workspace'', ''comics'', ''comic-'' @ timestamp_of (iso t1), ''story.json''])]
          @ evs @
          [EvClock t2, EvClock t3,
           EvWrite (cwd E @ [''.workspace'', ''comics'', ''comic-'' @ timestamp_of (iso t1), ''result.json''])]
     \<and> only_mkdirs mk
     \<and> generateObject E (trace w @ EvClock (clock E (trace w)) # mk) (story_prompt req)
         = Inr (res_story res)
     \<and> t1 = clock E (trace w @ EvClock (clock E (trace w)) # mk @ [EvStory (story_prompt req)])
     \<and> writes_of evs = panel_writes (cwd E @ [''.workspace'', ''comics'', ''comic-'' @ timestamp_of (iso t1)])
          (cwd E @ [''.workspace'', ''images'']) (story_panels (res_story res))
     \<and> details_of evs = concat (map (\<lambda>p. [detail_prompt p (res_story res), detail_prompt p (res_story res)])
          (story_panels (res_story res)))
     \<and> length (runs_of evs) = length (story_panels (res_story res))
     \<and> res_generatedImages res = map (image_entry E (cwd E @ [''.workspace'', ''images'']))
          (story_panels (res_story res))
     \<and> res_metadata res = \<lparr>meta_generatedAt = iso t3,
          meta_totalPanels = length (story_panels (res_story res)),
          meta_processingTimeMs = ms t2 - ms (clock E (trace w))\<rparr>
     \<and> fs w' (cwd E @ [''.workspace'', ''comics'', ''comic-'' @ timestamp_of (iso t1), ''story.json''])
          = Some (File (StoryJson (res_story res)))
     \<and> fs w' (cwd E @ [''.workspace'', ''comics'', ''comic-'' @ timestamp_of (iso t1), ''result.json''])
          = Some (File (ResultJson res))
     \<and> (\<forall>p\<in>set (story_panels (res_story res)).
          fs w' (panel_file (cwd E @ [''.workspace'', ''comics'', ''comic-'' @ timestamp_of (iso t1)]) p) \<noteq> None
        \<and> fs w' (image_file (cwd E @ [''.workspace'', ''images'']) p) \<noteq> None)"
proof -
  from generateComic_Inr[OF assms] obtain pr w1 imgs w2 where
    a: "comic_prepare E req w = (Inr pr, w1)" and
    b: "panel_loop E (pr_story pr) (pr_comicDir pr) (pr_imagesDir pr) (story_panels (pr_story pr)) [] w1
          = (Inr imgs, w2)" and
    c: "comic_finish E pr imgs w2 = (Inr res, w')"
    by blast
  from comic_prepare_Inr[OF a] obtain mk t1 where
    a1: "trace w1 = trace w @ EvClock (clock E (trace w)) # mk @
          [EvStory (story_prompt req), EvClock t1, EvMkdir (pr_comicDir pr),
           EvWrite (path_join (pr_comicDir pr) ''story.json'')]" and
    a2: "only_mkdirs mk" and
    a3: "pr_startTime pr = ms (clock E (trace w))" and
    a4: "generateObject E (trace w @ EvClock (clock E (trace w)) # mk) (story_prompt req)
         = Inr (pr_story pr)" and
    a5: "t1 = clock E (trace w @ EvClock (clock E (trace w)) # mk @ [EvStory (story_prompt req)])" and
    a6: "pr_comicDir pr = cwd E @ [''.workspace'', ''comics'', ''comic-'' @ timestamp_of (iso t1)]" and
    a7: "pr_imagesDir pr = cwd E @ [''.workspace'', ''images'']" and
    a8: "fs w1 (path_join (pr_comicDir pr) ''story.json'') = Some (File (StoryJson (pr_story pr)))"
    by blast
  from panel_loop_Inr[OF b] obtain evs where
    b1: "imgs = map (image_entry E (pr_imagesDir pr)) (story_panels (pr_story pr))" and
    b2: "trace w2 = trace w1 @ evs" and
    b3: "writes_of evs = panel_writes (pr_comicDir pr) (pr_imagesDir pr) (story_panels (pr_story pr))" and
    b4: "details_of evs = concat (map (\<lambda>p. [detail_prompt p (pr_story pr), detail_prompt p (pr_story pr)])
          (story_panels (pr_story pr)))" and
    b5: "length (runs_of evs) = length (story_panels (pr_story pr))" and
    b6: "\<forall>p\<in>set (story_panels (pr_story pr)). fs w2 (panel_file (pr_comicDir pr) p) \<noteq> None
          \<and> fs w2 (image_file (pr_imagesDir pr) p) \<noteq> None" and
    b7: "\<forall>q. q \<notin> set (panel_writes (pr_comicDir pr) (pr_imagesDir pr) (story_panels (pr_story pr)))
          \<longrightarrow> fs w2 q = fs w1 q"
    by auto
  from comic_finish_Inr[OF c] obtain t2 t3 where
    c1: "trace w' = trace w2 @ [EvClock t2, EvClock t3,
          EvWrite (path_join (pr_comicDir pr) ''result.json'')]" and
    c2: "res = \<lparr>res_story = pr_story pr, res_generatedImages = imgs,
          res_metadata = \<lparr>meta_generatedAt = iso t3,
            meta_totalPanels = length (story_panels (pr_story pr)),
            meta_processingTimeMs = ms t2 - pr_startTime pr\<rparr>\<rparr>" and
    c3: "fs w' = (fs w2)(path_join (pr_comicDir pr) ''result.json'' \<mapsto> File (ResultJson res))"
    by blast
  have st: "res_story res = pr_story pr" and gi: "res_generatedImages res = imgs"
    and md: "res_metadata res = \<lparr>meta_generatedAt = iso t3,
            meta_totalPanels = length (story_panels (pr_story pr)),
            meta_processingTimeMs = ms t2 - pr_startTime pr\<rparr>"
    using c2 by simp_all
  have ne: "new_events w w' = EvClock (clock E (trace w)) # mk @
          [EvStory (story_prompt req), EvClock t1, EvMkdir (pr_comicDir pr),
           EvWrite (path_join (pr_comicDir pr) ''story.json'')] @ evs @
          [EvClock t2, EvClock t3, EvWrite (path_join (pr_comicDir pr) ''result.json'')]"
    using a1 b2 c1 by (simp add: new_events_def)
  have sj: "fs w' (path_join (pr_comicDir pr) ''story.json'') = Some (File (StoryJson (pr_story pr)))"
    using a8 b7 c3 json_not_in_panel_writes(1)[of "pr_comicDir pr"]
    by (simp add: path_join_def)
  have rj: "fs w' (path_join (pr_comicDir pr) ''result.json'') = Some (File (ResultJson res))"
    using c3 by simp
  have pf: "\<forall>p\<in>set (story_panels (pr_story pr)). fs w' (panel_file (pr_comicDir pr) p) \<noteq> None
          \<and> fs w' (image_file (pr_imagesDir pr) p) \<noteq> None"
    using b6 c3 by simp
  show ?thesis
    apply (rule exI[of _ mk], rule exI[of _ t1], rule exI[of _ evs], rule exI[of _ t2],
        rule exI[of _ t3])
    using ne a2 a3 a4 a5 b1 b3 b4 b5 st gi md sj rj pf
    unfolding a6 a7 path_join_def
    apply simp
    done
qed

section \<open>How many panels, how many files\<close>

lemma run_short: "fst (generateComic env_short req4 world0) = Inr res_short"
  by (simp add: run_defs env_short_sel world0_def story_of_def panel1_def res_short_def show_small
        cong: let_weak_cong prod.case_cong_weak)

lemma run_short_writes:
  "writes_of (trace w_short) =
     [[''home'', ''.workspace'', ''comics'', ''comic-2026-11-02T13-00-00-000Z'', ''story.json''],
      [''home'', ''.workspace'', ''comics'', ''comic-2026-11-02T13-00-00-000Z'', ''panel-1.json''],
      [''home'', ''.workspace'', ''images'', ''panel-1.jpg''],
      [''home'', ''.workspace'', ''comics'', ''comic-2026-11-02T13-00-00-000Z'', ''result.json'']]"
  by (simp add: w_short_def run_defs env_short_sel world0_def story_of_def panel1_def show_small
        cong: let_weak_cong prod.case_cong_weak)

lemma run_dup2_total:
  "map_sum id (\<lambda>r. meta_totalPanels (res_metadata r)) (fst (generateComic env_dup req2 world0)) = Inr 2"
  by (simp add: run_defs env_dup_sel world0_def story_dup_def story_of_def panel1_def show_small
        cong: let_weak_cong prod.case_cong_weak)

lemma run_dup2_writes:
  "writes_of (trace (snd (generateComic env_dup req2 world0))) =
     [[''home'', ''.workspace'', ''comics'', ''comic-2026-11-02T13-00-00-000Z'', ''story.json''],
      [''home'', ''.workspace'', ''comics'', ''comic-2026-11-02T13-00-00-000Z'', ''panel-3.json''],
      [''home'', ''.workspace'', ''images'', ''panel-3.jpg''],
      [''home'', ''.workspace'', ''comics'', ''comic-2026-11-02T13-00-00-000Z'', ''panel-3.json''],
      [''home'', ''.workspace'', ''images'', ''panel-3.jpg''],
      [''home'', ''.workspace'', ''comics'', ''comic-2026-11-02T13-00-00-000Z'', ''result.json'']]"
  by (simp add: run_defs env_dup_sel world0_def story_dup_def story_of_def panel1_def show_small
        cong: let_weak_cong prod.case_cong_weak)

text \<open>
  C1, as the claim states it, fails. The request asks for 4 panels, the model answers
  with a story of one panel, and the run succeeds with \<open>totalPanels = 1\<close>, one entry
  in \<open>generatedImages\<close>, one panel JSON file and one image file. And when the request
  asks for 2 panels and the model answers with two panels of the same id 3, the run
  succeeds with \<open>totalPanels = 2\<close> and writes twice to one panel JSON file and twice to
  one image file.
\<close>

theorem requested_count_not_enforced:
  "req_panelCount req4 = Num 4
   \<and> generateComic env_short req4 world0 = (Inr res_short, w_short)
   \<and> meta_totalPanels (res_metadata res_short) = 1
   \<and> length (res_generatedImages res_short) = 1
   \<and> writes_of (new_events world0 w_short) =
     [[''home'', ''.workspace'', ''comics'', ''comic-2026-11-02T13-00-00-000Z'', ''story.json''],
      [''home'', ''.workspace'', ''comics'', ''comic-2026-11-02T13-00-00-000Z'', ''panel-1.json''],
      [''home'', ''.workspace'', ''images'', ''panel-1.jpg''],
      [''home'', ''.workspace'', ''comics'', ''comic-2026-11-02T13-00-00-000Z'', ''result.json'']]
   \<and> req_panelCount req2 = Num 2
   \<and> map_sum id (\<lambda>r. meta_totalPanels (res_metadata r)) (fst (generateComic env_dup req2 world0))
       = Inr 2
   \<and> writes_of (new_events world0 (snd (generateComic env_dup req2 world0))) =
     [[''home'', ''.workspace'', ''comics'', ''comic-2026-11-02T13-00-00-000Z'', ''story.json''],
      [''home'', ''.workspace'', ''comics'', ''comic-2026-11-02T13-00-00-000Z'', ''panel-3.json''],
      [''home'', ''.workspace'', ''images'', ''panel-3.jpg''],
      [''home'', ''.workspace'', ''comics'', ''comic-2026-11-02T13-00-00-000Z'', ''panel-3.json''],
      [''home'', ''.workspace'', ''images'', ''panel-3.jpg''],
      [''home'', ''.workspace'', ''comics'', ''comic-2026-11-02T13-00-00-000Z'', ''result.json'']]"
proof -
  have a: "req_panelCount req4 = Num 4" "req_panelCount req2 = Num 2"
    by (simp_all add: req4_def req2_def)
  have b: "generateComic env_short req4 world0 = (Inr res_short, w_short)"
    by (simp add: prod_eq_iff run_short w_short_def)
  have c: "meta_totalPanels (res_metadata res_short) = 1" "length (res_generatedImages res_short) = 1"
    by (simp_all add: res_short_def)
  have d: "new_events world0 w = trace w" for w
    by (simp add: new_events_def world0_def)
  from a b c run_short_writes run_dup2_total run_dup2_writes show ?thesis
    unfolding d by simp
qed

text \<open>
  C1, amended. A successful run returns a result whose \<open>totalPanels\<close> is the length of
  \<open>story.panels\<close> and whose \<open>generatedImages\<close> has that many entries. It writes
  \<open>story.json\<close>, then for each panel of the story, in order, its panel JSON file and
  its image file, then \<open>result.json\<close>, and nothing else: one file of each kind per
  panel of the story, whatever count was requested. When the panel ids are distinct,
  these writes go to pairwise distinct files.
\<close>

theorem one_pair_of_files_per_panel:
  assumes "generateComic E req w = (Inr res, w')"
  shows "meta_totalPanels (res_metadata res) = length (story_panels (res_story res))
     \<and> length (res_generatedImages res) = meta_totalPanels (res_metadata res)
     \<and> (\<exists>comicDir. writes_of (new_events w w') =
           path_join comicDir ''story.json'' #
           concat (map (\<lambda>p. [panel_file comicDir p, image_file (cwd E @ [''.workspace'', ''images'']) p])
                    (story_panels (res_story res)))
           @ [path_join comicDir ''result.json''])
     \<and> (distinct (map panel_id (story_panels (res_story res)))
           \<longrightarrow> distinct (writes_of (new_events w w')))"
proof -
  from success_run[OF assms] obtain mk t1 evs t2 t3 where
    ne: "new_events w w' = EvClock (clock E (trace w)) # mk @
          [EvStory (story_prompt req), EvClock t1,
           EvMkdir (cwd E @ [''.workspace'', ''comics'', ''comic-'' @ timestamp_of (iso t1)]),
           EvWrite (cwd E @ [''.workspace'', ''comics'', ''comic-'' @ timestamp_of (iso t1), ''story.json''])]
          @ evs @
          [EvClock t2, EvClock t3,
           EvWrite (cwd E @ [''.workspace'', ''comics'', ''comic-'' @ timestamp_of (iso t1), ''result.json''])]" and
    mk: "only_mkdirs mk" and
    wr: "writes_of evs = panel_writes (cwd E @ [''.workspace'', ''comics'', ''comic-'' @ timestamp_of (iso t1)])
          (cwd E @ [''.workspace'', ''images'']) (story_panels (res_story res))" and
    gi: "res_generatedImages res = map (image_entry E (cwd E @ [''.workspace'', ''images'']))
          (story_panels (res_story res))" and
    md: "res_metadata res = \<lparr>meta_generatedAt = iso t3,
          meta_totalPanels = length (story_panels (res_story res)),
          meta_processingTimeMs = ms t2 - ms (clock E (trace w))\<rparr>"
    by blast
  define cd where "cd = cwd E @ [''.workspace'', ''comics'', ''comic-'' @ timestamp_of (iso t1)]"
  define idir where "idir = cwd E @ [''.workspace'', ''images'']"
  have w: "writes_of (new_events w w') = path_join cd ''story.json'' #
      panel_writes cd idir (story_panels (res_story res)) @ [path_join cd ''result.json'']"
    using ne wr only_mkdirs_reads[OF mk] by (simp add: cd_def idir_def path_join_def)
  have a: "meta_totalPanels (res_metadata res) = length (story_panels (res_story res))"
    using md by simp
  have b: "length (res_generatedImages res) = meta_totalPanels (res_metadata res)"
    using gi md by simp
  have c: "\<exists>comicDir. writes_of (new_events w w') =
           path_join comicDir ''story.json'' #
           concat (map (\<lambda>p. [panel_file comicDir p, image_file (cwd E @ [''.workspace'', ''images'']) p])
                    (story_panels (res_story res)))
           @ [path_join comicDir ''result.json'']"
    using w unfolding panel_writes_def idir_def by blast
  have d: "distinct (writes_of (new_events w w'))"
    if "distinct (map panel_id (story_panels (res_story res)))"
    using distinct_panel_writes[OF that, of cd idir] json_not_in_panel_writes[of cd idir]
    by (simp add: w path_join_def)
  from a b c d show ?thesis by blast
qed

theorem one_pair_of_files_per_panel_witness:
  "generateComic env_ok req4 world0 = (Inr res_ok, w_ok)
   \<and> meta_totalPanels (res_metadata res_ok) = length (story_panels (res_story res_ok))
   \<and> length (res_generatedImages res_ok) = meta_totalPanels (res_metadata res_ok)
   \<and> (\<exists>comicDir. writes_of (new_events world0 w_ok) =
         path_join comicDir ''story.json'' #
         concat (map (\<lambda>p. [panel_file comicDir p, image_file (cwd env_ok @ [''.workspace'', ''images'']) p])
                  (story_panels (res_story res_ok)))
         @ [path_join comicDir ''result.json''])
   \<and> distinct (map panel_id (story_panels (res_story res_ok)))
   \<and> distinct (writes_of (new_events world0 w_ok))"
proof -
  have d: "distinct (map panel_id (story_panels (res_story res_ok)))"
    by (simp add: res_ok_def story_of_def panel1_def)
  from one_pair_of_files_per_panel[OF run_ok_pair] d run_ok_pair show ?thesis
    by blast
qed

section \<open>What no part of a run touches\<close>

lemma process_panel_frame:
  assumes "process_panel E story cd idir p w = (r, w')"
    and "q \<noteq> panel_file cd p" and "q \<noteq> image_file idir p"
  shows "fs w' q = fs w q"
proof (cases r)
  case (Inl e)
  with assms(1) have "process_panel E story cd idir p w = (Inl e, w')" by simp
  from process_panel_Inl[OF this] assms(2,3) show ?thesis by blast
next
  case (Inr entry)
  with assms(1) have "process_panel E story cd idir p w = (Inr entry, w')" by simp
  from process_panel_Inr[OF this] assms(2,3) show ?thesis by auto
qed

lemma panel_loop_frame:
  assumes "panel_loop E story cd idir ps acc w = (r, w')"
    and "q \<notin> set (panel_writes cd idir ps)"
  shows "fs w' q = fs w q"
  using assms
proof (induction ps arbitrary: acc w)
  case Nil
  then show ?case by simp
next
  case (Cons p ps)
  from Cons.prems(2) have q: "q \<noteq> panel_file cd p" "q \<noteq> image_file idir p"
    "q \<notin> set (panel_writes cd idir ps)"
    by (simp_all add: panel_writes_Cons)
  obtain r1 w1 where p: "process_panel E story cd idir p w = (r1, w1)"
    by (cases "process_panel E story cd idir p w")
  note f = process_panel_frame[OF p q(1,2)]
  show ?case
  proof (cases r1)
    case (Inl e)
    with p Cons.prems(1) have "w' = w1" by simp
    with f show ?thesis by simp
  next
    case (Inr entry)
    with p Cons.prems(1) have "panel_loop E story cd idir ps (acc @ [entry]) w1 = (r, w')"
      by simp
    from Cons.IH[OF this q(3)] f show ?thesis by simp
  qed
qed

lemma comic_finish_frame:
  assumes "comic_finish E pr imgs w = (r, w')"
    and "q \<noteq> path_join (pr_comicDir pr) ''result.json''"
  shows "fs w' q = fs w q"
  using assms
  by (auto simp: comic_finish_def read_clock_def log_event_def writeFileSync_def Let_def
        split: sum.splits prod.splits option.splits)

lemma story_json_kept:
  assumes prep: "comic_prepare E req w = (Inr pr, w1)"
    and run: "generateComic E req w = (r, w')"
  shows "fs w' (path_join (pr_comicDir pr) ''story.json'') = Some (File (StoryJson (pr_story pr)))"
proof -
  let ?sj = "path_join (pr_comicDir pr) ''story.json''"
  from comic_prepare_Inr[OF prep] have 1: "fs w1 ?sj = Some (File (StoryJson (pr_story pr)))"
    by blast
  obtain r2 w2 where l: "panel_loop E (pr_story pr) (pr_comicDir pr) (pr_imagesDir pr)
      (story_panels (pr_story pr)) [] w1 = (r2, w2)"
    by (cases "panel_loop E (pr_story pr) (pr_comicDir pr) (pr_imagesDir pr)
      (story_panels (pr_story pr)) [] w1")
  from panel_loop_frame[OF l json_not_in_panel_writes(1)] 1
  have 2: "fs w2 ?sj = Some (File (StoryJson (pr_story pr)))" by simp
  show ?thesis
  proof (cases r2)
    case (Inl e)
    with prep l run have "w' = w2" by (simp add: generateComic_def)
    with 2 show ?thesis by simp
  next
    case (Inr imgs)
    with prep l run have "comic_finish E pr imgs w2 = (r, w')" by (simp add: generateComic_def)
    from comic_finish_frame[OF this, of ?sj] 2 show ?thesis by (simp add: path_join_def)
  qed
qed

section \<open>The persisted story\<close>

lemma run_dup_story_json:
  "fs w_dup [''home'', ''.workspace'', ''comics'', ''comic-2026-11-02T13-00-00-000Z'', ''story.json'']
     = Some (File (StoryJson story_dup))"
  by (simp add: w_dup_def run_defs env_dup_sel world0_def story_dup_def story_of_def panel1_def show_small
        cong: let_weak_cong prod.case_cong_weak)

lemma run_dup_ok: "isl (fst (generateComic env_dup req4 world0)) = False"
  by (simp add: run_defs env_dup_sel world0_def story_dup_def story_of_def panel1_def show_small
        cong: let_weak_cong prod.case_cong_weak)

text \<open>
  C6, as the claim states it, fails: the model answers with two panels that both have
  id 3, the schema accepts them, the run succeeds, and \<open>story.json\<close> holds a story
  whose panel ids are neither unique nor their positions.
\<close>

theorem persisted_ids_not_positions:
  "\<not> isl (fst (generateComic env_dup req4 world0))
   \<and> fs (snd (generateComic env_dup req4 world0))
        [''home'', ''.workspace'', ''comics'', ''comic-2026-11-02T13-00-00-000Z'', ''story.json'']
       = Some (File (StoryJson story_dup))
   \<and> map panel_id (story_panels story_dup) = [3, 3]
   \<and> \<not> distinct (map panel_id (story_panels story_dup))
   \<and> map panel_id (story_panels story_dup) \<noteq> [1, 2]"
  using run_dup_ok run_dup_story_json
  by (simp add: w_dup_def story_dup_def story_of_def)

text \<open>
  C6, amended. Whenever a run gets as far as writing \<open>story.json\<close>, that file holds,
  until the run ends and however it ends, exactly the story the story generator
  returned, with its panels in the same order and with the ids the generator gave them;
  a result, if there is one, carries the same story. So the ids in a persisted story are
  unique and equal to their positions exactly when the generator's answer has them so.
\<close>

theorem persisted_story_is_generated:
  assumes "comic_prepare E req w = (Inr pr, w1)"
    and "generateComic E req w = (r, w')"
  shows "(\<exists>h. generateObject E h (story_prompt req) = Inr (pr_story pr))
     \<and> fs w' (path_join (pr_comicDir pr) ''story.json'') = Some (File (StoryJson (pr_story pr)))
     \<and> (\<forall>res. r = Inr res \<longrightarrow> res_story res = pr_story pr)"
proof -
  from comic_prepare_Inr[OF assms(1)] have a: "\<exists>h. generateObject E h (story_prompt req) = Inr (pr_story pr)"
    by blast
  have c: "res_story res = pr_story pr" if "r = Inr res" for res
  proof -
    from that assms(2) have s: "generateComic E req w = (Inr res, w')" by simp
    from generateComic_Inr[OF s] assms(1) obtain imgs w2 where
      "comic_finish E pr imgs w2 = (Inr res, w')" by auto
    from comic_finish_Inr[OF this] show ?thesis by auto
  qed
  from a story_json_kept[OF assms] c show ?thesis by blast
qed


lemma prepare_dup: "fst (comic_prepare env_dup req4 world0) = Inr pr_dup"
  by (simp add: run_defs env_dup_sel world0_def pr_dup_def
        cong: let_weak_cong prod.case_cong_weak)

theorem persisted_story_is_generated_witness:
  "comic_prepare env_dup req4 world0 = (Inr pr_dup, snd (comic_prepare env_dup req4 world0))
   \<and> generateComic env_dup req4 world0 = (fst (generateComic env_dup req4 world0), w_dup)
   \<and> (\<exists>h. generateObject env_dup h (story_prompt req4) = Inr (pr_story pr_dup))
   \<and> fs w_dup (path_join (pr_comicDir pr_dup) ''story.json'')
       = Some (File (StoryJson (pr_story pr_dup)))
   \<and> map_sum id res_story (fst (generateComic env_dup req4 world0)) = Inr (pr_story pr_dup)"
proof -
  have a: "comic_prepare env_dup req4 world0 = (Inr pr_dup, snd (comic_prepare env_dup req4 world0))"
    by (simp add: prod_eq_iff prepare_dup)
  have b: "generateComic env_dup req4 world0 = (fst (generateComic env_dup req4 world0), w_dup)"
    by (simp add: w_dup_def)
  note t = persisted_story_is_generated[OF a b]
  from run_dup_ok obtain res where r: "fst (generateComic env_dup req4 world0) = Inr res"
    by (cases "fst (generateComic env_dup req4 world0)") simp_all
  with t have "res_story res = pr_story pr_dup" by blast
  with r have c: "map_sum id res_story (fst (generateComic env_dup req4 world0)) = Inr (pr_story pr_dup)"
    by simp
  from t a b c show ?thesis
    by blast
qed

section \<open>A panel that fails\<close>

lemma in_writes_of: "EvWrite q \<in> set evs \<longleftrightarrow> q \<in> set (writes_of evs)"
  by (induction evs rule: writes_of.induct) auto

lemma failure_at_panel:
  assumes prep: "comic_prepare E req w = (Inr pr, w1)"
    and split: "story_panels (pr_story pr) = pre @ p # post"
    and pre: "panel_loop E (pr_story pr) (pr_comicDir pr) (pr_imagesDir pr) pre [] w1 = (Inr imgs, w2)"
    and fail: "process_panel E (pr_story pr) (pr_comicDir pr) (pr_imagesDir pr) p w2 = (Inl e, w3)"
  shows "generateComic E req w = (Inl e, w3)
     \<and> (details_of (new_events w w3) =
           concat (map (\<lambda>q. [detail_prompt q (pr_story pr), detail_prompt q (pr_story pr)]) pre)
           @ [detail_prompt p (pr_story pr)]
         \<or> details_of (new_events w w3) =
           concat (map (\<lambda>q. [detail_prompt q (pr_story pr), detail_prompt q (pr_story pr)]) pre)
           @ [detail_prompt p (pr_story pr), detail_prompt p (pr_story pr)])
     \<and> length (runs_of (new_events w w3)) \<le> length pre + 1
     \<and> (\<exists>ws. writes_of (new_events w w3) =
           path_join (pr_comicDir pr) ''story.json'' #
           panel_writes (pr_comicDir pr) (pr_imagesDir pr) pre @ ws
           \<and> set ws \<subseteq> {panel_file (pr_comicDir pr) p})
     \<and> path_join (pr_comicDir pr) ''result.json'' \<notin> set (writes_of (new_events w w3))
     \<and> fs w3 (path_join (pr_comicDir pr) ''story.json'') = Some (File (StoryJson (pr_story pr)))
     \<and> (\<forall>q\<in>set pre. fs w3 (panel_file (pr_comicDir pr) q) \<noteq> None
           \<and> (panel_id q \<noteq> panel_id p \<longrightarrow> fs w3 (image_file (pr_imagesDir pr) q) \<noteq> None))
     \<and> (\<forall>q. fs w2 q \<noteq> None \<and> q \<noteq> image_file (pr_imagesDir pr) p \<longrightarrow> fs w3 q \<noteq> None)"
proof -
  let ?cd = "pr_comicDir pr" and ?idir = "pr_imagesDir pr" and ?st = "pr_story pr"
  have loop: "panel_loop E ?st ?cd ?idir (story_panels ?st) [] w1 = (Inl e, w3)"
    unfolding split using pre fail by (simp add: panel_loop_append)
  have run: "generateComic E req w = (Inl e, w3)"
    using prep loop by (simp add: generateComic_def)
  from comic_prepare_Inr[OF prep] obtain mk t1 where
    t1: "trace w1 = trace w @ EvClock (clock E (trace w)) # mk @
          [EvStory (story_prompt req), EvClock t1, EvMkdir ?cd, EvWrite (path_join ?cd ''story.json'')]" and
    mk: "only_mkdirs mk"
    by blast
  from panel_loop_Inr[OF pre] obtain evs where
    t2: "trace w2 = trace w1 @ evs" and
    wr2: "writes_of evs = panel_writes ?cd ?idir pre" and
    de2: "details_of evs = concat (map (\<lambda>q. [detail_prompt q ?st, detail_prompt q ?st]) pre)" and
    ru2: "length (runs_of evs) = length pre" and
    ex2: "\<forall>q\<in>set pre. fs w2 (panel_file ?cd q) \<noteq> None \<and> fs w2 (image_file ?idir q) \<noteq> None"
    by blast
  from process_panel_Inl[OF fail] obtain evk where
    t3: "trace w3 = trace w2 @ evk" and
    wr3: "set (writes_of evk) \<subseteq> {panel_file ?cd p}" and
    de3: "details_of evk = [detail_prompt p ?st] \<or> details_of evk = [detail_prompt p ?st, detail_prompt p ?st]" and
    ru3: "length (runs_of evk) \<le> 1" and
    fr3: "\<forall>q. q \<noteq> panel_file ?cd p \<and> q \<noteq> image_file ?idir p \<longrightarrow> fs w3 q = fs w2 q" and
    pf3: "fs w2 (panel_file ?cd p) \<noteq> None \<longrightarrow> fs w3 (panel_file ?cd p) \<noteq> None"
    by blast
  have ne: "new_events w w3 = EvClock (clock E (trace w)) # mk @
          [EvStory (story_prompt req), EvClock t1, EvMkdir ?cd, EvWrite (path_join ?cd ''story.json'')]
          @ evs @ evk"
    using t1 t2 t3 by (simp add: new_events_def)
  note rd = only_mkdirs_reads[OF mk]
  have de: "details_of (new_events w w3) =
      concat (map (\<lambda>q. [detail_prompt q ?st, detail_prompt q ?st]) pre) @ details_of evk"
    using ne rd de2 by simp
  have ru: "length (runs_of (new_events w w3)) \<le> length pre + 1"
    using ne rd ru2 ru3 by simp
  have wr: "writes_of (new_events w w3) =
      path_join ?cd ''story.json'' # panel_writes ?cd ?idir pre @ writes_of evk"
    using ne rd wr2 by simp
  have nr: "path_join ?cd ''result.json'' \<notin> set (writes_of (new_events w w3))"
  proof -
    have "path_join ?cd ''result.json'' \<noteq> panel_file ?cd p"
      by (simp add: panel_file_def path_join_def)
    with wr3 have "path_join ?cd ''result.json'' \<notin> set (writes_of evk)" by blast
    with json_not_in_panel_writes(2)[of ?cd ?idir pre] show ?thesis
      by (simp add: wr path_join_def)
  qed
  have keep: "fs w3 q \<noteq> None" if "fs w2 q \<noteq> None" "q \<noteq> image_file ?idir p" for q
  proof (cases "q = panel_file ?cd p")
    case True
    with that pf3 show ?thesis by simp
  next
    case False
    with that fr3 show ?thesis by simp
  qed
  have old: "fs w3 (panel_file ?cd q) \<noteq> None
           \<and> (panel_id q \<noteq> panel_id p \<longrightarrow> fs w3 (image_file ?idir q) \<noteq> None)"
    if "q \<in> set pre" for q
  proof -
    from that ex2 have a: "fs w2 (panel_file ?cd q) \<noteq> None" "fs w2 (image_file ?idir q) \<noteq> None"
      by simp_all
    have "fs w3 (panel_file ?cd q) \<noteq> None"
      using keep[OF a(1)] panel_file_ne_image_file[of ?cd q ?idir p] by simp
    moreover have "fs w3 (image_file ?idir q) \<noteq> None" if "panel_id q \<noteq> panel_id p"
      using keep[OF a(2)] that image_file_inj[of ?idir q p] by blast
    ultimately show ?thesis by simp
  qed
  have sj: "fs w3 (path_join ?cd ''story.json'') = Some (File (StoryJson ?st))"
    using story_json_kept[OF prep run] .
  have de': "details_of (new_events w w3) =
           concat (map (\<lambda>q. [detail_prompt q ?st, detail_prompt q ?st]) pre) @ [detail_prompt p ?st]
         \<or> details_of (new_events w w3) =
           concat (map (\<lambda>q. [detail_prompt q ?st, detail_prompt q ?st]) pre)
           @ [detail_prompt p ?st, detail_prompt p ?st]"
    using de de3 by auto
  have wr': "\<exists>ws. writes_of (new_events w w3) =
           path_join ?cd ''story.json'' # panel_writes ?cd ?idir pre @ ws
           \<and> set ws \<subseteq> {panel_file ?cd p}"
    using wr wr3 by blast
  from run de' ru wr' nr sj old keep show ?thesis by blast
qed


lemma run_enospc:
  "fst (generateComic env_dup_enospc req4 world0) = Inl (Error ''ENOSPC'')"
  by (simp add: run_defs env_dup_enospc_sel world0_def story_dup_def story_of_def panel1_def
        show_small cong: let_weak_cong prod.case_cong_weak)

lemma run_enospc_writes:
  "writes_of (trace w_enospc) =
     [[''home'', ''.workspace'', ''comics'', ''comic-2026-11-02T13-00-00-000Z'', ''story.json''],
      [''home'', ''.workspace'', ''comics'', ''comic-2026-11-02T13-00-00-000Z'', ''panel-3.json''],
      [''home'', ''.workspace'', ''images'', ''panel-3.jpg''],
      [''home'', ''.workspace'', ''comics'', ''comic-2026-11-02T13-00-00-000Z'', ''panel-3.json'']]"
  by (simp add: w_enospc_def run_defs env_dup_enospc_sel world0_def story_dup_def story_of_def
        panel1_def show_small cong: let_weak_cong prod.case_cong_weak)

lemma run_enospc_image:
  "fs w_enospc [''home'', ''.workspace'', ''images'', ''panel-3.jpg''] = None"
  by (simp add: w_enospc_def run_defs env_dup_enospc_sel world0_def story_dup_def story_of_def
        panel1_def show_small cong: let_weak_cong prod.case_cong_weak)

text \<open>
  C2, as the claim states it, fails: the story has two panels with the same id 3; the
  first panel is processed and its image \<open>images/panel-3.jpg\<close> is written; the second
  download, to the same path, ends in a write error, whose handler unlinks the file. The
  run fails on panel 2 and the image written for panel 1 is gone.
\<close>

theorem earlier_image_unlinked:
  "generateComic env_dup_enospc req4 world0 = (Inl (Error ''ENOSPC''), w_enospc)
   \<and> writes_of (new_events world0 w_enospc) =
     [[''home'', ''.workspace'', ''comics'', ''comic-2026-11-02T13-00-00-000Z'', ''story.json''],
      [''home'', ''.workspace'', ''comics'', ''comic-2026-11-02T13-00-00-000Z'', ''panel-3.json''],
      [''home'', ''.workspace'', ''images'', ''panel-3.jpg''],
      [''home'', ''.workspace'', ''comics'', ''comic-2026-11-02T13-00-00-000Z'', ''panel-3.json'']]
   \<and> fs w_enospc [''home'', ''.workspace'', ''images'', ''panel-3.jpg''] = None"
proof -
  have a: "generateComic env_dup_enospc req4 world0 = (Inl (Error ''ENOSPC''), w_enospc)"
    by (simp add: prod_eq_iff run_enospc w_enospc_def)
  have b: "new_events world0 w_enospc = trace w_enospc"
    by (simp add: new_events_def world0_def)
  from a b run_enospc_writes run_enospc_image show ?thesis by simp
qed

text \<open>
  C2, amended. Let the story be generated and \<open>story.json\<close> written, let the panels
  before panel \<open>p\<close> be processed, and let the processing of \<open>p\<close> fail with \<open>e\<close>.
  Then the run fails with \<open>e\<close> in the world that the failure of \<open>p\<close> left, and the
  UI shows the message of \<open>e\<close>: nothing is done for the panels after \<open>p\<close>. The
  detailer has been called twice for each earlier panel and once or twice for \<open>p\<close>,
  in this order, and the image service at most once per panel up to \<open>p\<close>. The files
  written are \<open>story.json\<close>, the files of the earlier panels and at most the panel file
  of \<open>p\<close>; \<open>result.json\<close> is not written. When the run ends \<open>story.json\<close> holds the
  story, the panel files of the earlier panels are there, and so is everything that was
  on disk before \<open>p\<close> except what lies at the image path of \<open>p\<close>: the image of an
  earlier panel is there if its id differs from the id of \<open>p\<close>.
\<close>

theorem failure_stops_the_run:
  assumes prep: "comic_prepare E req w = (Inr pr, w1)"
    and split: "story_panels (pr_story pr) = pre @ p # post"
    and pre: "panel_loop E (pr_story pr) (pr_comicDir pr) (pr_imagesDir pr) pre [] w1 = (Inr imgs, w2)"
    and fail: "process_panel E (pr_story pr) (pr_comicDir pr) (pr_imagesDir pr) p w2 = (Inl e, w3)"
  shows "generateComic E req w = (Inl e, w3)
     \<and> (\<forall>st. request_of st = req \<longrightarrow> processComic E st w =
           (st\<lparr>st_step := Done,
               st_error := Some (case e of Error message \<Rightarrow> message | NonError \<Rightarrow> ''Unknown error'')\<rparr>, w3))
     \<and> (details_of (new_events w w3) =
           concat (map (\<lambda>q. [detail_prompt q (pr_story pr), detail_prompt q (pr_story pr)]) pre)
           @ [detail_prompt p (pr_story pr)]
         \<or> details_of (new_events w w3) =
           concat (map (\<lambda>q. [detail_prompt q (pr_story pr), detail_prompt q (pr_story pr)]) pre)
           @ [detail_prompt p (pr_story pr), detail_prompt p (pr_story pr)])
     \<and> length (runs_of (new_events w w3)) \<le> length pre + 1
     \<and> (\<exists>ws. writes_of (new_events w w3) =
           path_join (pr_comicDir pr) ''story.json'' #
           panel_writes (pr_comicDir pr) (pr_imagesDir pr) pre @ ws
           \<and> set ws \<subseteq> {panel_file (pr_comicDir pr) p})
     \<and> path_join (pr_comicDir pr) ''result.json'' \<notin> set (writes_of (new_events w w3))
     \<and> fs w3 (path_join (pr_comicDir pr) ''story.json'') = Some (File (StoryJson (pr_story pr)))
     \<and> (\<forall>q\<in>set pre. fs w3 (panel_file (pr_comicDir pr) q) \<noteq> None
           \<and> (panel_id q \<noteq> panel_id p \<longrightarrow> fs w3 (image_file (pr_imagesDir pr) q) \<noteq> None))
     \<and> (\<forall>q. fs w2 q \<noteq> None \<and> q \<noteq> image_file (pr_imagesDir pr) p \<longrightarrow> fs w3 q \<noteq> None)"
proof -
  note f = failure_at_panel[OF prep split pre fail]
  from f have run: "generateComic E req w = (Inl e, w3)" by blast
  have ui: "\<forall>st. request_of st = req \<longrightarrow> processComic E st w =
           (st\<lparr>st_step := Done,
               st_error := Some (case e of Error message \<Rightarrow> message | NonError \<Rightarrow> ''Unknown error'')\<rparr>, w3)"
    using run by (simp add: processComic_def)
  from f ui show ?thesis by blast
qed


lemma prepare_404: "fst (comic_prepare env_404 req4 world0) = Inr pr_three"
  by (simp add: run_defs env_404_sel world0_def pr_three_def
        cong: let_weak_cong prod.case_cong_weak)

lemma loop_404:
  "fst (panel_loop env_404 story_three (pr_comicDir pr_three) (pr_imagesDir pr_three) [panel1] [] w404_1)
     = Inr [image_entry env_404 (pr_imagesDir pr_three) panel1]"
  by (simp add: w404_1_def run_defs env_404_sel world0_def pr_three_def image_entry_def
        image_file_def cong: let_weak_cong prod.case_cong_weak)

lemma fail_404:
  "fst (process_panel env_404 story_three (pr_comicDir pr_three) (pr_imagesDir pr_three)
     (panel1\<lparr>panel_id := 2\<rparr>) w404_2) = Inl (Error ''Failed to download image: 404'')"
  by (simp add: w404_2_def w404_1_def run_defs env_404_sel world0_def pr_three_def digits_404
        panel1_def show_small cong: let_weak_cong prod.case_cong_weak)

theorem failure_stops_the_run_witness:
  "comic_prepare env_404 req4 world0 = (Inr pr_three, w404_1)
   \<and> story_panels (pr_story pr_three) = [panel1] @ panel1\<lparr>panel_id := 2\<rparr> # [panel1\<lparr>panel_id := 3\<rparr>]
   \<and> panel_loop env_404 (pr_story pr_three) (pr_comicDir pr_three) (pr_imagesDir pr_three) [panel1] [] w404_1
       = (Inr [image_entry env_404 (pr_imagesDir pr_three) panel1], w404_2)
   \<and> process_panel env_404 (pr_story pr_three) (pr_comicDir pr_three) (pr_imagesDir pr_three)
        (panel1\<lparr>panel_id := 2\<rparr>) w404_2 = (Inl (Error ''Failed to download image: 404''), w404_3)
   \<and> generateComic env_404 req4 world0 = (Inl (Error ''Failed to download image: 404''), w404_3)
   \<and> st_error (fst (processComic env_404 (initial_state\<lparr>st_prompt := ''cat''\<rparr>) world0))
       = Some ''Failed to download image: 404''
   \<and> length (details_of (new_events world0 w404_3)) \<le> 4
   \<and> length (runs_of (new_events world0 w404_3)) \<le> 2
   \<and> path_join (pr_comicDir pr_three) ''result.json'' \<notin> set (writes_of (new_events world0 w404_3))
   \<and> fs w404_3 (path_join (pr_comicDir pr_three) ''story.json'') = Some (File (StoryJson story_three))
   \<and> fs w404_3 (panel_file (pr_comicDir pr_three) panel1) \<noteq> None
   \<and> fs w404_3 (image_file (pr_imagesDir pr_three) panel1) \<noteq> None"
proof -
  have st: "pr_story pr_three = story_three"
    by (simp add: pr_three_def)
  have a: "comic_prepare env_404 req4 world0 = (Inr pr_three, w404_1)"
    by (simp add: prod_eq_iff prepare_404 w404_1_def)
  have b: "story_panels (pr_story pr_three)
      = [panel1] @ panel1\<lparr>panel_id := 2\<rparr> # [panel1\<lparr>panel_id := 3\<rparr>]"
    by (simp add: pr_three_def story_three_def story_of_def)
  have c: "panel_loop env_404 (pr_story pr_three) (pr_comicDir pr_three) (pr_imagesDir pr_three)
      [panel1] [] w404_1 = (Inr [image_entry env_404 (pr_imagesDir pr_three) panel1], w404_2)"
    using loop_404 unfolding st w404_2_def by (simp add: prod_eq_iff)
  have d: "process_panel env_404 (pr_story pr_three) (pr_comicDir pr_three) (pr_imagesDir pr_three)
        (panel1\<lparr>panel_id := 2\<rparr>) w404_2 = (Inl (Error ''Failed to download image: 404''), w404_3)"
    unfolding st by (simp add: prod_eq_iff fail_404 w404_3_def)
  note t = failure_stops_the_run[OF a b c d]
  have rq: "request_of (initial_state\<lparr>st_prompt := ''cat''\<rparr>) = req4"
    by (simp add: request_of_def initial_state_def req4_def)
  from t rq have ui: "processComic env_404 (initial_state\<lparr>st_prompt := ''cat''\<rparr>) world0 =
      (initial_state\<lparr>st_prompt := ''cat'', st_step := Done,
         st_error := Some ''Failed to download image: 404''\<rparr>, w404_3)"
    by simp
  from t have "details_of (new_events world0 w404_3) =
           concat (map (\<lambda>q. [detail_prompt q (pr_story pr_three), detail_prompt q (pr_story pr_three)]) [panel1])
           @ [detail_prompt (panel1\<lparr>panel_id := 2\<rparr>) (pr_story pr_three)]
         \<or> details_of (new_events world0 w404_3) =
           concat (map (\<lambda>q. [detail_prompt q (pr_story pr_three), detail_prompt q (pr_story pr_three)]) [panel1])
           @ [detail_prompt (panel1\<lparr>panel_id := 2\<rparr>) (pr_story pr_three),
              detail_prompt (panel1\<lparr>panel_id := 2\<rparr>) (pr_story pr_three)]"
    by blast
  then have de: "length (details_of (new_events world0 w404_3)) \<le> 4"
    by auto
  have ids: "panel_id panel1 \<noteq> panel_id (panel1\<lparr>panel_id := 2\<rparr>)"
    by (simp add: panel1_def)
  from t ids have old: "fs w404_3 (panel_file (pr_comicDir pr_three) panel1) \<noteq> None"
    "fs w404_3 (image_file (pr_imagesDir pr_three) panel1) \<noteq> None"
    by simp_all
  from t have ru: "length (runs_of (new_events world0 w404_3)) \<le> 2"
    by simp
  from t have nr: "path_join (pr_comicDir pr_three) ''result.json''
      \<notin> set (writes_of (new_events world0 w404_3))"
    by blast
  from t have sj: "fs w404_3 (path_join (pr_comicDir pr_three) ''story.json'')
      = Some (File (StoryJson story_three))"
    unfolding st by blast
  from t have run: "generateComic env_404 req4 world0
      = (Inl (Error ''Failed to download image: 404''), w404_3)"
    by blast
  from a b c d run ui de ru nr sj old show ?thesis
    by simp
qed

section \<open>An image service without an output\<close>

lemma cannot_read_url_ne: "cannot_read_url v \<noteq> ''Invalid output from Replicate API''"
  by (simp add: cannot_read_url_def)

lemma url_href_error_is_not_the_guard:
  "url_href out = Inl e \<Longrightarrow> e \<noteq> Error ''Invalid output from Replicate API''"
  by (cases out) (auto simp: url_href_def cannot_read_url_def)

lemma run_badloc:
  "fst (generateComic env_badloc req4 world0) = Inl (Error (cannot_read_url ''undefined''))"
  by (simp add: run_defs env_badloc_sel world0_def story_three_def story_of_def panel1_def
        show_small cong: let_weak_cong prod.case_cong_weak)

lemma run_badloc_writes:
  "writes_of (trace w_badloc) =
     [[''home'', ''.workspace'', ''comics'', ''comic-2026-11-02T13-00-00-000Z'', ''story.json''],
      [''home'', ''.workspace'', ''comics'', ''comic-2026-11-02T13-00-00-000Z'', ''panel-1.json''],
      [''home'', ''.workspace'', ''images'', ''panel-1.jpg''],
      [''home'', ''.workspace'', ''comics'', ''comic-2026-11-02T13-00-00-000Z'', ''panel-2.json'']]"
  by (simp add: w_badloc_def run_defs env_badloc_sel world0_def story_three_def story_of_def
        panel1_def show_small cong: let_weak_cong prod.case_cong_weak)

lemma run_badloc_runs: "runs_of (trace w_badloc) = [''two'', ''two'']"
  by (simp add: w_badloc_def run_defs env_badloc_sel world0_def story_three_def story_of_def
        panel1_def show_small cong: let_weak_cong prod.case_cong_weak)

lemma run_badloc_image:
  "fs w_badloc [''home'', ''.workspace'', ''images'', ''panel-1.jpg''] = Some (File (Bytes ''jpg''))"
  by (simp add: w_badloc_def run_defs env_badloc_sel world0_def story_three_def story_of_def
        panel1_def show_small cong: let_weak_cong prod.case_cong_weak)

lemma run_badloc_last:
  "last (trace w_badloc) = EvRun ''two''"
  "replicate_run env_badloc (butlast (trace w_badloc)) ''two'' = Inr OutUndefined"
  by (simp_all add: w_badloc_def run_defs env_badloc_sel world0_def story_three_def story_of_def
        panel1_def show_small cong: let_weak_cong prod.case_cong_weak)

text \<open>
  C4. The claim: when the image service returns a missing or non-string locator, the run
  fails with a descriptive error, writes no \<open>result.json\<close>, and the files of the
  earlier panels remain. The code when the service resolves to nothing for the second
  panel (the last event of the run is that request, and \<open>undefined\<close> is the answer to
  it): \<open>.url()\<close> is called on \<open>undefined\<close> before the check of the locator is
  reached, so the run fails with the \<open>TypeError\<close> of that property access and not with
  \<open>Invalid output from Replicate API\<close>. The rest of the claim holds there: the image
  service has been asked twice, the files written are \<open>story.json\<close>, the two files of
  panel 1 and the panel file of panel 2, and the image of panel 1 is on disk.
\<close>

theorem missing_output_is_a_type_error:
  "generateComic env_badloc req4 world0 = (Inl (Error (cannot_read_url ''undefined'')), w_badloc)
   \<and> last (trace w_badloc) = EvRun ''two''
   \<and> replicate_run env_badloc (butlast (trace w_badloc)) ''two'' = Inr OutUndefined
   \<and> cannot_read_url ''undefined'' \<noteq> ''Invalid output from Replicate API''
   \<and> runs_of (new_events world0 w_badloc) = [''two'', ''two'']
   \<and> writes_of (new_events world0 w_badloc) =
     [[''home'', ''.workspace'', ''comics'', ''comic-2026-11-02T13-00-00-000Z'', ''story.json''],
      [''home'', ''.workspace'', ''comics'', ''comic-2026-11-02T13-00-00-000Z'', ''panel-1.json''],
      [''home'', ''.workspace'', ''images'', ''panel-1.jpg''],
      [''home'', ''.workspace'', ''comics'', ''comic-2026-11-02T13-00-00-000Z'', ''panel-2.json'']]
   \<and> fs w_badloc [''home'', ''.workspace'', ''images'', ''panel-1.jpg''] = Some (File (Bytes ''jpg''))"
proof -
  have a: "generateComic env_badloc req4 world0
      = (Inl (Error (cannot_read_url ''undefined'')), w_badloc)"
    by (simp add: prod_eq_iff run_badloc w_badloc_def)
  have b: "new_events world0 w = trace w" for w
    by (simp add: new_events_def world0_def)
  from a run_badloc_last cannot_read_url_ne run_badloc_runs run_badloc_writes run_badloc_image
  show ?thesis
    unfolding b by simp
qed

text \<open>
  What the check of the locator does catch: a file output whose \<open>href\<close> is not a
  string. Then the run fails with \<open>Invalid output from Replicate API\<close>, no
  \<open>result.json\<close> is written and nothing that was on disk is removed.
\<close>

lemma non_string_href_fails_the_run:
  assumes prep: "comic_prepare E req w = (Inr pr, w1)"
    and split: "story_panels (pr_story pr) = pre @ p # post"
    and pre: "panel_loop E (pr_story pr) (pr_comicDir pr) (pr_imagesDir pr) pre [] w1 = (Inr imgs, w2)"
    and cpf: "createPanelFile E p (pr_story pr) (pr_comicDir pr) w2 = (Inr fp, wa)"
    and det: "generateDetailedImageDescription E p (pr_story pr) wa = (Inr d, wb)"
    and loc: "replicate_run E (trace wb) d = Inr (OutFile v)"
    and bad: "\<not> is_string v"
  shows "generateComic E req w
           = (Inl (Error ''Invalid output from Replicate API''), log_event (EvRun d) wb)
     \<and> path_join (pr_comicDir pr) ''result.json''
           \<notin> set (writes_of (new_events w (log_event (EvRun d) wb)))
     \<and> fs (log_event (EvRun d) wb) (path_join (pr_comicDir pr) ''story.json'')
           = Some (File (StoryJson (pr_story pr)))
     \<and> (\<forall>q\<in>set pre. fs (log_event (EvRun d) wb) (panel_file (pr_comicDir pr) q) \<noteq> None
           \<and> fs (log_event (EvRun d) wb) (image_file (pr_imagesDir pr) q) \<noteq> None)
     \<and> (\<forall>q. fs w2 q \<noteq> None \<longrightarrow> fs (log_event (EvRun d) wb) q \<noteq> None)"
proof -
  let ?w3 = "log_event (EvRun d) wb"
  have fail: "process_panel E (pr_story pr) (pr_comicDir pr) (pr_imagesDir pr) p w2
      = (Inl (Error ''Invalid output from Replicate API''), ?w3)"
    using cpf det loc bad
    by (simp add: process_panel_def generateImageWithFlux_def url_href_def Let_def)
  note f = failure_at_panel[OF prep split pre fail]
  from createPanelFile_Inr[OF cpf] obtain d1 where
    fa: "fs wa = (fs w2)(panel_file (pr_comicDir pr) p \<mapsto>
           File (PanelJson (panelData_of p (pr_story pr) d1)))"
    by blast
  from det have "wb = log_event (EvDetail (detail_prompt p (pr_story pr))) wa"
    by (simp add: generateDetailedImageDescription_def)
  then have fb: "fs ?w3 = fs wa"
    by (simp add: log_event_def)
  have keep: "\<forall>q. fs w2 q \<noteq> None \<longrightarrow> fs ?w3 q \<noteq> None"
    using fa fb by simp
  from panel_loop_Inr[OF pre] have
    "\<forall>q\<in>set pre. fs w2 (panel_file (pr_comicDir pr) q) \<noteq> None
        \<and> fs w2 (image_file (pr_imagesDir pr) q) \<noteq> None"
    by blast
  with keep have old: "\<forall>q\<in>set pre. fs ?w3 (panel_file (pr_comicDir pr) q) \<noteq> None
        \<and> fs ?w3 (image_file (pr_imagesDir pr) q) \<noteq> None"
    by blast
  from f keep old show ?thesis by blast
qed

section \<open>The run whose second download is refused\<close>

text \<open>
  The run in \<open>env_404\<close>, cut where \<open>generateComic\<close> cuts it: the preparation, the
  panels before the failing one, and the failing pass of the loop body.
\<close>

lemma split_three:
  "story_panels (pr_story pr_three)
     = [panel1] @ panel1\<lparr>panel_id := 2\<rparr> # [panel1\<lparr>panel_id := 3\<rparr>]"
  by (simp add: pr_three_def story_three_def story_of_def)

lemma prepare_404_pair: "comic_prepare env_404 req4 world0 = (Inr pr_three, w404_1)"
  by (simp add: prod_eq_iff prepare_404 w404_1_def)

lemma loop_404_pair:
  "panel_loop env_404 (pr_story pr_three) (pr_comicDir pr_three) (pr_imagesDir pr_three)
     [panel1] [] w404_1 = (Inr [image_entry env_404 (pr_imagesDir pr_three) panel1], w404_2)"
proof -
  have st: "pr_story pr_three = story_three"
    by (simp add: pr_three_def)
  show ?thesis
    using loop_404 unfolding st w404_2_def by (simp add: prod_eq_iff)
qed

lemma fail_404_pair:
  "process_panel env_404 (pr_story pr_three) (pr_comicDir pr_three) (pr_imagesDir pr_three)
     (panel1\<lparr>panel_id := 2\<rparr>) w404_2 = (Inl (Error ''Failed to download image: 404''), w404_3)"
proof -
  have st: "pr_story pr_three = story_three"
    by (simp add: pr_three_def)
  show ?thesis
    unfolding st by (simp add: prod_eq_iff fail_404 w404_3_def)
qed

lemma run_404_pair:
  "generateComic env_404 req4 world0 = (Inl (Error ''Failed to download image: 404''), w404_3)"
  using failure_at_panel[OF prepare_404_pair split_three loop_404_pair fail_404_pair] by blast

section \<open>The two detailed descriptions of a panel\<close>

lemma run_panel1:
  "fst (process_panel env_ok (story_of [panel1]) [''c''] [''i''] panel1 world0)
     = Inr (image_entry env_ok [''i''] panel1)"
  by (simp add: run_defs env_ok_sel world0_def image_entry_def image_file_def
        cong: let_weak_cong prod.case_cong_weak)

lemma run_panel1_pair:
  "process_panel env_ok (story_of [panel1]) [''c''] [''i''] panel1 world0
     = (Inr (image_entry env_ok [''i''] panel1), w_panel1)"
  by (simp add: prod_eq_iff run_panel1 w_panel1_def)

lemma env_dup_404_sel:
  "cwd env_dup_404 = [''home'']"
  "clock env_dup_404 h = \<lparr>ms = int (length h), iso = ''2026-11-02T13:00:00.000Z''\<rparr>"
  "generateObject env_dup_404 h s = Inr story_dup"
  "generateText env_dup_404 h s = Inr (if even (count_details h) then ''one'' else ''two'')"
  "replicate_run env_dup_404 h s = Inr (OutFile (JString ''u''))"
  "https_get env_dup_404 h s = Response 404 (Finished [])"
  "fs_error env_dup_404 h q = None"
  by (simp_all add: env_dup_404_def env_dup_sel)

lemma run_dup_404:
  "fst (generateComic env_dup_404 req4 world0) = Inl (Error ''Failed to download image: 404'')"
  by (simp add: run_defs env_dup_404_sel world0_def story_dup_def story_of_def panel1_def
        show_small digits_404 cong: let_weak_cong prod.case_cong_weak)

lemma run_dup_404_details:
  "details_of (trace w_dup_404) =
     [detail_prompt (panel1\<lparr>panel_id := 3\<rparr>) story_dup,
      detail_prompt (panel1\<lparr>panel_id := 3\<rparr>) story_dup]"
  by (simp add: w_dup_404_def run_defs env_dup_404_sel world0_def story_dup_def story_of_def
        show_small digits_404 cong: let_weak_cong prod.case_cong_weak)

lemma run_dup_404_story:
  "fs w_dup_404 [''home'', ''.workspace'', ''comics'', ''comic-2026-11-02T13-00-00-000Z'', ''story.json'']
     = Some (File (StoryJson story_dup))"
  by (simp add: w_dup_404_def run_defs env_dup_404_sel world0_def story_dup_def story_of_def
        panel1_def show_small digits_404 cong: let_weak_cong prod.case_cong_weak)

lemma detail_prompt_b:
  "detail_prompt (panel1\<lparr>panel_id := 3, panel_description := ''b''\<rparr>) story_dup
     \<noteq> detail_prompt (panel1\<lparr>panel_id := 3\<rparr>) story_dup"
  by (simp add: detail_prompt_def panel1_def nl_def)

text \<open>
  C5, as the specification words it, is false of runs that fail. In \<open>env_dup_404\<close> the
  story has two panels and every download is answered with status 404. The run fails in
  the first panel, after both of that panel's calls to the panel detailer; the second
  panel (description \<open>b\<close>) is never passed to the detailer at all, so for it the number
  of calls is zero, not two.
\<close>

theorem second_panel_never_detailed:
  "generateComic env_dup_404 req4 world0
     = (Inl (Error ''Failed to download image: 404''), w_dup_404)
   \<and> fs w_dup_404 [''home'', ''.workspace'', ''comics'', ''comic-2026-11-02T13-00-00-000Z'', ''story.json'']
       = Some (File (StoryJson story_dup))
   \<and> story_panels story_dup
       = [panel1\<lparr>panel_id := 3\<rparr>, panel1\<lparr>panel_id := 3, panel_description := ''b''\<rparr>]
   \<and> details_of (new_events world0 w_dup_404) =
       [detail_prompt (panel1\<lparr>panel_id := 3\<rparr>) story_dup,
        detail_prompt (panel1\<lparr>panel_id := 3\<rparr>) story_dup]
   \<and> detail_prompt (panel1\<lparr>panel_id := 3, panel_description := ''b''\<rparr>) story_dup
       \<notin> set (details_of (new_events world0 w_dup_404))"
proof -
  have a: "generateComic env_dup_404 req4 world0
     = (Inl (Error ''Failed to download image: 404''), w_dup_404)"
    by (simp add: prod_eq_iff run_dup_404 w_dup_404_def)
  have b: "new_events world0 w = trace w" for w
    by (simp add: new_events_def world0_def)
  have c: "story_panels story_dup
       = [panel1\<lparr>panel_id := 3\<rparr>, panel1\<lparr>panel_id := 3, panel_description := ''b''\<rparr>]"
    by (simp add: story_dup_def story_of_def)
  from a c run_dup_404_story run_dup_404_details detail_prompt_b show ?thesis
    unfolding b by simp
qed

text \<open>
  C5, amended. The detailer is called twice for every panel whose pass of the loop body
  completes, and only for those and for the panel that fails.

  \<^item> A pass that completes has added exactly seven events: the first call, the write of
    the panel's JSON file, the second call with the same prompt, the image request whose
    prompt is the answer \<open>d2\<close> of the second call, and the download. The panel's JSON
    file then holds the fields of the panel, the art style of the story and, as
    \<open>detailedVisualDescription\<close>, the answer \<open>d1\<close> of the first call. The two answers
    are the service's answers to two different calls; nothing makes them equal (in the
    example below they are \<open>one\<close> and \<open>two\<close>).
  \<^item> Over a run that returns a result the detailer is called twice for each panel, in
    the order of the panels.
  \<^item> In a run that fails at a panel \<open>q\<close>, the panels before \<open>q\<close> have two calls each,
    \<open>q\<close> has one or two, and the panels after \<open>q\<close> have none.
\<close>

theorem two_detail_calls_per_processed_panel:
  "(process_panel E story cd idir p w = (Inr entry, w') \<longrightarrow>
      (\<exists>d1 d2 url.
         generateText E (trace w) (detail_prompt p story) = Inr d1
       \<and> generateText E (trace w @ [EvDetail (detail_prompt p story), EvWrite (panel_file cd p)])
            (detail_prompt p story) = Inr d2
       \<and> replicate_run E (trace w @ [EvDetail (detail_prompt p story), EvWrite (panel_file cd p),
            EvDetail (detail_prompt p story)]) d2 = Inr (OutFile (JString url))
       \<and> new_events w w' = [EvDetail (detail_prompt p story), EvWrite (panel_file cd p),
            EvDetail (detail_prompt p story), EvRun d2, EvCreate (image_file idir p), EvGet url,
            EvWrite (image_file idir p)]
       \<and> fs w' (panel_file cd p) = Some (File (PanelJson
            \<lparr>pd_id = panel_id p,
             pd_description = panel_description p,
             pd_characters = panel_characters p,
             pd_setting = panel_setting p,
             pd_dialogue = panel_dialogue p,
             pd_visualStyle = panel_visualStyle p,
             pd_imagePrompt = panel_imagePrompt p,
             pd_detailedVisualDescription = d1,
             pd_artStyle = story_artStyle story\<rparr>))))
   \<and> (generateComic E req v = (Inr res, v') \<longrightarrow>
        details_of (new_events v v') =
          concat (map (\<lambda>p. [detail_prompt p (res_story res), detail_prompt p (res_story res)])
                   (story_panels (res_story res))))
   \<and> (comic_prepare E req u = (Inr pr, ua)
        \<and> story_panels (pr_story pr) = pre @ q # post
        \<and> panel_loop E (pr_story pr) (pr_comicDir pr) (pr_imagesDir pr) pre [] ua = (Inr imgs, ub)
        \<and> process_panel E (pr_story pr) (pr_comicDir pr) (pr_imagesDir pr) q ub = (Inl e, uc) \<longrightarrow>
        generateComic E req u = (Inl e, uc)
        \<and> (details_of (new_events u uc) =
              concat (map (\<lambda>p. [detail_prompt p (pr_story pr), detail_prompt p (pr_story pr)]) pre)
              @ [detail_prompt q (pr_story pr)]
            \<or> details_of (new_events u uc) =
              concat (map (\<lambda>p. [detail_prompt p (pr_story pr), detail_prompt p (pr_story pr)]) pre)
              @ [detail_prompt q (pr_story pr), detail_prompt q (pr_story pr)]))"
proof (intro conjI impI)
  assume a: "process_panel E story cd idir p w = (Inr entry, w')"
  from process_panel_Inr[OF a] obtain d1 d2 url bytes where
    1: "generateText E (trace w) (detail_prompt p story) = Inr d1" and
    2: "generateText E (trace w @ [EvDetail (detail_prompt p story), EvWrite (panel_file cd p)])
          (detail_prompt p story) = Inr d2" and
    r: "replicate_run E (trace w @ [EvDetail (detail_prompt p story), EvWrite (panel_file cd p),
          EvDetail (detail_prompt p story)]) d2 = Inr (OutFile (JString url))" and
    3: "trace w' = trace w @ [EvDetail (detail_prompt p story), EvWrite (panel_file cd p),
          EvDetail (detail_prompt p story), EvRun d2, EvCreate (image_file idir p), EvGet url,
          EvWrite (image_file idir p)]" and
    4: "fs w' = (fs w)(panel_file cd p \<mapsto> File (PanelJson (panelData_of p story d1)),
          image_file idir p \<mapsto> File (Bytes bytes))"
    by blast
  have 5: "fs w' (panel_file cd p) = Some (File (PanelJson
            \<lparr>pd_id = panel_id p,
             pd_description = panel_description p,
             pd_characters = panel_characters p,
             pd_setting = panel_setting p,
             pd_dialogue = panel_dialogue p,
             pd_visualStyle = panel_visualStyle p,
             pd_imagePrompt = panel_imagePrompt p,
             pd_detailedVisualDescription = d1,
             pd_artStyle = story_artStyle story\<rparr>))"
    using 4 panel_file_ne_image_file[of cd p idir p] by (simp add: panelData_of_def)
  from 1 2 r new_events_append[OF 3] 5
  show "\<exists>d1 d2 url.
         generateText E (trace w) (detail_prompt p story) = Inr d1
       \<and> generateText E (trace w @ [EvDetail (detail_prompt p story), EvWrite (panel_file cd p)])
            (detail_prompt p story) = Inr d2
       \<and> replicate_run E (trace w @ [EvDetail (detail_prompt p story), EvWrite (panel_file cd p),
            EvDetail (detail_prompt p story)]) d2 = Inr (OutFile (JString url))
       \<and> new_events w w' = [EvDetail (detail_prompt p story), EvWrite (panel_file cd p),
            EvDetail (detail_prompt p story), EvRun d2, EvCreate (image_file idir p), EvGet url,
            EvWrite (image_file idir p)]
       \<and> fs w' (panel_file cd p) = Some (File (PanelJson
            \<lparr>pd_id = panel_id p,
             pd_description = panel_description p,
             pd_characters = panel_characters p,
             pd_setting = panel_setting p,
             pd_dialogue = panel_dialogue p,
             pd_visualStyle = panel_visualStyle p,
             pd_imagePrompt = panel_imagePrompt p,
             pd_detailedVisualDescription = d1,
             pd_artStyle = story_artStyle story\<rparr>))"
    by blast
next
  assume b: "generateComic E req v = (Inr res, v')"
  from success_run[OF b] obtain mk t1 evs t2 t3 where
    ne: "new_events v v' = EvClock (clock E (trace v)) # mk @
          [EvStory (story_prompt req), EvClock t1,
           EvMkdir (cwd E @ [''.workspace'', ''comics'', ''comic-'' @ timestamp_of (iso t1)]),
           EvWrite (cwd E @ [''.workspace'', ''comics'', ''comic-'' @ timestamp_of (iso t1), ''story.json''])]
          @ evs @
          [EvClock t2, EvClock t3,
           EvWrite (cwd E @ [''.workspace'', ''comics'', ''comic-'' @ timestamp_of (iso t1), ''result.json''])]" and
    mk: "only_mkdirs mk" and
    de: "details_of evs = concat (map (\<lambda>p. [detail_prompt p (res_story res), detail_prompt p (res_story res)])
          (story_panels (res_story res)))"
    by blast
  show "details_of (new_events v v') =
          concat (map (\<lambda>p. [detail_prompt p (res_story res), detail_prompt p (res_story res)])
                   (story_panels (res_story res)))"
    using ne de only_mkdirs_reads[OF mk] by simp
next
  assume c: "comic_prepare E req u = (Inr pr, ua)
        \<and> story_panels (pr_story pr) = pre @ q # post
        \<and> panel_loop E (pr_story pr) (pr_comicDir pr) (pr_imagesDir pr) pre [] ua = (Inr imgs, ub)
        \<and> process_panel E (pr_story pr) (pr_comicDir pr) (pr_imagesDir pr) q ub = (Inl e, uc)"
  then have c1: "comic_prepare E req u = (Inr pr, ua)"
    and c2: "story_panels (pr_story pr) = pre @ q # post"
    and c3: "panel_loop E (pr_story pr) (pr_comicDir pr) (pr_imagesDir pr) pre [] ua = (Inr imgs, ub)"
    and c4: "process_panel E (pr_story pr) (pr_comicDir pr) (pr_imagesDir pr) q ub = (Inl e, uc)"
    by simp_all
  note f = failure_at_panel[OF c1 c2 c3 c4]
  from f show "generateComic E req u = (Inl e, uc)" by blast
  from f show "details_of (new_events u uc) =
              concat (map (\<lambda>p. [detail_prompt p (pr_story pr), detail_prompt p (pr_story pr)]) pre)
              @ [detail_prompt q (pr_story pr)]
            \<or> details_of (new_events u uc) =
              concat (map (\<lambda>p. [detail_prompt p (pr_story pr), detail_prompt p (pr_story pr)]) pre)
              @ [detail_prompt q (pr_story pr), detail_prompt q (pr_story pr)]" by blast
qed

theorem two_detail_calls_per_processed_panel_witness:
  "process_panel env_ok (story_of [panel1]) [''c''] [''i''] panel1 world0
     = (Inr (image_entry env_ok [''i''] panel1), w_panel1)
   \<and> new_events world0 w_panel1 = [EvDetail (detail_prompt panel1 (story_of [panel1])),
          EvWrite (panel_file [''c''] panel1), EvDetail (detail_prompt panel1 (story_of [panel1])),
          EvRun ''two'', EvCreate (image_file [''i''] panel1), EvGet ''u'',
          EvWrite (image_file [''i''] panel1)]
   \<and> fs w_panel1 (panel_file [''c''] panel1) = Some (File (PanelJson
            \<lparr>pd_id = 1,
             pd_description = panel_description panel1,
             pd_characters = panel_characters panel1,
             pd_setting = panel_setting panel1,
             pd_dialogue = panel_dialogue panel1,
             pd_visualStyle = panel_visualStyle panel1,
             pd_imagePrompt = panel_imagePrompt panel1,
             pd_detailedVisualDescription = ''one'',
             pd_artStyle = story_artStyle (story_of [panel1])\<rparr>))
   \<and> generateComic env_ok req4 world0 = (Inr res_ok, w_ok)
   \<and> length (details_of (new_events world0 w_ok)) = 4
   \<and> comic_prepare env_404 req4 world0 = (Inr pr_three, w404_1)
   \<and> story_panels (pr_story pr_three)
        = [panel1] @ panel1\<lparr>panel_id := 2\<rparr> # [panel1\<lparr>panel_id := 3\<rparr>]
   \<and> panel_loop env_404 (pr_story pr_three) (pr_comicDir pr_three) (pr_imagesDir pr_three)
        [panel1] [] w404_1 = (Inr [image_entry env_404 (pr_imagesDir pr_three) panel1], w404_2)
   \<and> process_panel env_404 (pr_story pr_three) (pr_comicDir pr_three) (pr_imagesDir pr_three)
        (panel1\<lparr>panel_id := 2\<rparr>) w404_2 = (Inl (Error ''Failed to download image: 404''), w404_3)
   \<and> generateComic env_404 req4 world0 = (Inl (Error ''Failed to download image: 404''), w404_3)
   \<and> (details_of (new_events world0 w404_3) =
          [detail_prompt panel1 story_three, detail_prompt panel1 story_three,
           detail_prompt (panel1\<lparr>panel_id := 2\<rparr>) story_three]
        \<or> details_of (new_events world0 w404_3) =
          [detail_prompt panel1 story_three, detail_prompt panel1 story_three,
           detail_prompt (panel1\<lparr>panel_id := 2\<rparr>) story_three,
           detail_prompt (panel1\<lparr>panel_id := 2\<rparr>) story_three])"
proof -
  note t = two_detail_calls_per_processed_panel[of env_ok "story_of [panel1]" "[''c'']" "[''i'']"
      panel1 world0 "image_entry env_ok [''i''] panel1" w_panel1 req4 world0 res_ok w_ok]
  note ta = t[THEN conjunct1, rule_format, OF run_panel1_pair]
  note tb = t[THEN conjunct2, THEN conjunct1, rule_format, OF run_ok_pair]
  note u = two_detail_calls_per_processed_panel[where E = env_404 and req = req4 and u = world0
      and pr = pr_three and ua = w404_1 and pre = "[panel1]"
      and q = "panel1\<lparr>panel_id := 2\<rparr>" and post = "[panel1\<lparr>panel_id := 3\<rparr>]"
      and imgs = "[image_entry env_404 (pr_imagesDir pr_three) panel1]" and ub = w404_2
      and e = "Error ''Failed to download image: 404''" and uc = w404_3]
  note tc = u[THEN conjunct2, THEN conjunct2, rule_format,
      OF conjI[OF prepare_404_pair conjI[OF split_three conjI[OF loop_404_pair fail_404_pair]]]]
  from ta obtain d1 d2 url where
    1: "generateText env_ok (trace world0) (detail_prompt panel1 (story_of [panel1])) = Inr d1" and
    2: "generateText env_ok (trace world0 @ [EvDetail (detail_prompt panel1 (story_of [panel1])),
          EvWrite (panel_file [''c''] panel1)]) (detail_prompt panel1 (story_of [panel1])) = Inr d2" and
    r: "replicate_run env_ok (trace world0 @ [EvDetail (detail_prompt panel1 (story_of [panel1])),
          EvWrite (panel_file [''c''] panel1), EvDetail (detail_prompt panel1 (story_of [panel1]))]) d2
          = Inr (OutFile (JString url))" and
    3: "new_events world0 w_panel1 = [EvDetail (detail_prompt panel1 (story_of [panel1])),
          EvWrite (panel_file [''c''] panel1), EvDetail (detail_prompt panel1 (story_of [panel1])),
          EvRun d2, EvCreate (image_file [''i''] panel1), EvGet url, EvWrite (image_file [''i''] panel1)]" and
    4: "fs w_panel1 (panel_file [''c''] panel1) = Some (File (PanelJson
            \<lparr>pd_id = panel_id panel1,
             pd_description = panel_description panel1,
             pd_characters = panel_characters panel1,
             pd_setting = panel_setting panel1,
             pd_dialogue = panel_dialogue panel1,
             pd_visualStyle = panel_visualStyle panel1,
             pd_imagePrompt = panel_imagePrompt panel1,
             pd_detailedVisualDescription = d1,
             pd_artStyle = story_artStyle (story_of [panel1])\<rparr>))"
    by blast
  from 1 have d1: "d1 = ''one''"
    by (simp add: env_ok_sel world0_def count_details_def)
  from 2 have d2: "d2 = ''two''"
    by (simp add: env_ok_sel world0_def count_details_def)
  from r have url: "url = ''u''"
    by (simp add: env_ok_sel)
  have id1: "panel_id panel1 = 1"
    by (simp add: panel1_def)
  have 6: "length (details_of (new_events world0 w_ok)) = 4"
    unfolding tb by (simp add: res_ok_def story_of_def)
  have st: "pr_story pr_three = story_three"
    by (simp add: pr_three_def)
  from tc have 7: "generateComic env_404 req4 world0 = (Inl (Error ''Failed to download image: 404''), w404_3)"
    by blast
  from tc have 8: "details_of (new_events world0 w404_3) =
          [detail_prompt panel1 story_three, detail_prompt panel1 story_three,
           detail_prompt (panel1\<lparr>panel_id := 2\<rparr>) story_three]
        \<or> details_of (new_events world0 w404_3) =
          [detail_prompt panel1 story_three, detail_prompt panel1 story_three,
           detail_prompt (panel1\<lparr>panel_id := 2\<rparr>) story_three,
           detail_prompt (panel1\<lparr>panel_id := 2\<rparr>) story_three]"
    unfolding st by simp
  from 3 d2 url have e3: "new_events world0 w_panel1 = [EvDetail (detail_prompt panel1 (story_of [panel1])),
          EvWrite (panel_file [''c''] panel1), EvDetail (detail_prompt panel1 (story_of [panel1])),
          EvRun ''two'', EvCreate (image_file [''i''] panel1), EvGet ''u'',
          EvWrite (image_file [''i''] panel1)]"
    by simp
  from 4 d1 id1 have e4: "fs w_panel1 (panel_file [''c''] panel1) = Some (File (PanelJson
            \<lparr>pd_id = 1,
             pd_description = panel_description panel1,
             pd_characters = panel_characters panel1,
             pd_setting = panel_setting panel1,
             pd_dialogue = panel_dialogue panel1,
             pd_visualStyle = panel_visualStyle panel1,
             pd_imagePrompt = panel_imagePrompt panel1,
             pd_detailedVisualDescription = ''one'',
             pd_artStyle = story_artStyle (story_of [panel1])\<rparr>))"
    by simp
  from run_panel1_pair e3 e4 run_ok_pair 6 prepare_404_pair split_three loop_404_pair fail_404_pair 7 8
  show ?thesis
    by (intro conjI)
qed

section \<open>Where the files go\<close>

lemma ensure_dir_Inl: "ensure_dir E p w = (Inl e, w') \<Longrightarrow> w' = w"
  by (auto simp: ensure_dir_def split: if_splits dest: mkdirSync_Inl)

lemma ensureWorkspaceDirectory_Inl:
  assumes "ensureWorkspaceDirectory E w = (Inl e, w')"
  shows "\<exists>mk. trace w' = trace w @ mk \<and> only_mkdirs mk"
proof -
  let ?a = "cwd E @ [''.workspace'']" and ?b = "cwd E @ [''.workspace'', ''comics'']"
    and ?c = "cwd E @ [''.workspace'', ''images'']"
  consider
    (1) "ensure_dir E ?a w = (Inl e, w')"
  | (2) u1 w1 where "ensure_dir E ?a w = (Inr u1, w1)" "ensure_dir E ?b w1 = (Inl e, w')"
  | (3) u1 w1 u2 w2 where "ensure_dir E ?a w = (Inr u1, w1)" "ensure_dir E ?b w1 = (Inr u2, w2)"
      "ensure_dir E ?c w2 = (Inl e, w')"
    using assms
    by (auto simp: ensureWorkspaceDirectory_def path_join_def Let_def split: sum.splits prod.splits)
  then show ?thesis
  proof cases
    case 1
    from ensure_dir_Inl[OF 1] have "trace w' = trace w @ [] \<and> only_mkdirs []" by simp
    then show ?thesis by blast
  next
    case 2
    from ensure_dir_Inr[OF 2(1)] obtain m1 where "trace w1 = trace w @ m1" "only_mkdirs m1"
      by blast
    with ensure_dir_Inl[OF 2(2)] show ?thesis by blast
  next
    case 3
    from ensure_dir_Inr[OF 3(1)] obtain m1 where m1: "trace w1 = trace w @ m1" "only_mkdirs m1"
      by blast
    from ensure_dir_Inr[OF 3(2)] obtain m2 where m2: "trace w2 = trace w1 @ m2" "only_mkdirs m2"
      by blast
    from m1 m2 ensure_dir_Inl[OF 3(3)]
    have "trace w' = trace w @ (m1 @ m2) \<and> only_mkdirs (m1 @ m2)" by simp
    then show ?thesis by blast
  qed
qed

lemma comic_prepare_Inl:
  assumes "comic_prepare E req w = (Inl e, w')"
  shows "writes_of (new_events w w') = []"
proof -
  define t0 where "t0 = clock E (trace w)"
  define wa where "wa = log_event (EvClock t0) w"
  have tra: "trace wa = trace w @ [EvClock t0]"
    by (simp add: wa_def log_event_def)
  consider
    (1) "ensureWorkspaceDirectory E wa = (Inl e, w')"
  | (2) wd wb where "ensureWorkspaceDirectory E wa = (Inr wd, wb)"
      "generateComicStory E req wb = (Inl e, w')"
  | (3) wd wb story wc cd where "ensureWorkspaceDirectory E wa = (Inr wd, wb)"
      "generateComicStory E req wb = (Inr story, wc)"
      "mkdirSync E cd (log_event (EvClock (clock E (trace wc))) wc) = (Inl e, w')"
  | (4) wd wb story wc cd u we sj where "ensureWorkspaceDirectory E wa = (Inr wd, wb)"
      "generateComicStory E req wb = (Inr story, wc)"
      "mkdirSync E cd (log_event (EvClock (clock E (trace wc))) wc) = (Inr u, we)"
      "writeFileSync E sj (StoryJson story) we = (Inl e, w')"
    using assms
    by (auto simp: comic_prepare_def read_clock_def Let_def t0_def wa_def
          split: sum.splits prod.splits)
  then show ?thesis
  proof cases
    case 1
    from ensureWorkspaceDirectory_Inl[OF 1] obtain mk where
      "trace w' = trace wa @ mk" "only_mkdirs mk" by blast
    with tra only_mkdirs_reads[of mk] show ?thesis by (simp add: new_events_def)
  next
    case 2
    from ensureWorkspaceDirectory_Inr[OF 2(1)] obtain mk where
      mk: "trace wb = trace wa @ mk" "only_mkdirs mk" by blast
    from 2(2) have "w' = log_event (EvStory (story_prompt req)) wb"
      by (simp add: generateComicStory_def)
    with mk tra only_mkdirs_reads[of mk] show ?thesis
      by (simp add: new_events_def log_event_def)
  next
    case 3
    from ensureWorkspaceDirectory_Inr[OF 3(1)] obtain mk where
      mk: "trace wb = trace wa @ mk" "only_mkdirs mk" by blast
    from 3(2) have wc: "wc = log_event (EvStory (story_prompt req)) wb"
      by (simp add: generateComicStory_def)
    from mkdirSync_Inl[OF 3(3)] wc mk tra only_mkdirs_reads[of mk] show ?thesis
      by (simp add: new_events_def log_event_def)
  next
    case 4
    from ensureWorkspaceDirectory_Inr[OF 4(1)] obtain mk where
      mk: "trace wb = trace wa @ mk" "only_mkdirs mk" by blast
    from 4(2) have wc: "wc = log_event (EvStory (story_prompt req)) wb"
      by (simp add: generateComicStory_def)
    from mkdirSync_Inr[OF 4(3)] writeFileSync_Inl[OF 4(4)] wc mk tra only_mkdirs_reads[of mk]
    show ?thesis
      by (simp add: new_events_def log_event_def)
  qed
qed

lemma comic_finish_Inl:
  assumes "comic_finish E pr imgs w = (Inl e, w')"
  shows "\<exists>t2 t3. trace w' = trace w @ [EvClock t2, EvClock t3]"
  using assms
  by (auto simp: comic_finish_def read_clock_def log_event_def Let_def
        split: sum.splits prod.splits dest!: writeFileSync_Inl)

lemma process_panel_Inl_writes:
  assumes "process_panel E story cd idir p w = (Inl e, w')"
  shows "\<exists>evs. trace w' = trace w @ evs
     \<and> (writes_of evs = [] \<or> writes_of evs = [panel_file cd p])"
proof -
  consider
    (a) "createPanelFile E p story cd w = (Inl e, w')"
  | (b) fp w1 where "createPanelFile E p story cd w = (Inr fp, w1)"
      "generateDetailedImageDescription E p story w1 = (Inl e, w')"
  | (c) fp w1 d2 w2 where "createPanelFile E p story cd w = (Inr fp, w1)"
      "generateDetailedImageDescription E p story w1 = (Inr d2, w2)"
      "generateImageWithFlux E d2 (show_int (panel_id p)) idir w2 = (Inl e, w')"
    using assms by (auto simp: process_panel_def split: sum.splits prod.splits)
  then show ?thesis
  proof cases
    case a
    from createPanelFile_Inl[OF a] show ?thesis
      by (auto simp: log_event_def)
  next
    case b
    from createPanelFile_Inr[OF b(1)] b(2) show ?thesis
      by (auto simp: generateDetailedImageDescription_def log_event_def)
  next
    case c
    from createPanelFile_Inr[OF c(1)] have
      tr1: "trace w1 = trace w @ [EvDetail (detail_prompt p story), EvWrite (panel_file cd p)]"
      by blast
    from c(2) have w2: "w2 = log_event (EvDetail (detail_prompt p story)) w1"
      by (auto simp: generateDetailedImageDescription_def)
    from generateImageWithFlux_Inl[OF c(3)] obtain evs where
      tr3: "trace w' = trace w2 @ EvRun d2 # evs" and
      ev: "writes_of evs = []"
      by blast
    show ?thesis
      using tr1 w2 tr3 ev by (auto simp: log_event_def)
  qed
qed

lemma panel_writes_append:
  "panel_writes cd idir (xs @ ys) = panel_writes cd idir xs @ panel_writes cd idir ys"
  by (simp add: panel_writes_def)

lemma writes_are_initial_part:
  assumes prep: "comic_prepare E req w = (Inr pr, w1)"
    and run: "generateComic E req w = (r, w')"
  shows "\<exists>tail rest. trace w' = trace w1 @ tail
     \<and> path_join (pr_comicDir pr) ''story.json''
         # panel_writes (pr_comicDir pr) (pr_imagesDir pr) (story_panels (pr_story pr))
         @ [path_join (pr_comicDir pr) ''result.json'']
       = writes_of (new_events w w') @ rest"
proof -
  let ?cd = "pr_comicDir pr" and ?idir = "pr_imagesDir pr" and ?ps = "story_panels (pr_story pr)"
  from comic_prepare_Inr[OF prep] obtain mk t1 where
    t1: "trace w1 = trace w @ EvClock (clock E (trace w)) # mk @
          [EvStory (story_prompt req), EvClock t1, EvMkdir ?cd, EvWrite (path_join ?cd ''story.json'')]" and
    mk: "only_mkdirs mk"
    by blast
  note rd = only_mkdirs_reads[OF mk]
  obtain r2 w2 where l: "panel_loop E (pr_story pr) ?cd ?idir ?ps [] w1 = (r2, w2)"
    by (cases "panel_loop E (pr_story pr) ?cd ?idir ?ps [] w1")
  show ?thesis
  proof (cases r2)
    case (Inl e)
    with l have l': "panel_loop E (pr_story pr) ?cd ?idir ?ps [] w1 = (Inl e, w2)" by simp
    with prep run have w': "w' = w2" by (simp add: generateComic_def)
    from panel_loop_Inl[OF l'] obtain pre p post acc' wa where
      sp: "?ps = pre @ p # post" and
      a: "panel_loop E (pr_story pr) ?cd ?idir pre [] w1 = (Inr acc', wa)" and
      b: "process_panel E (pr_story pr) ?cd ?idir p wa = (Inl e, w2)"
      by blast
    from panel_loop_Inr[OF a] obtain evs where
      ta: "trace wa = trace w1 @ evs" and wra: "writes_of evs = panel_writes ?cd ?idir pre"
      by blast
    from process_panel_Inl_writes[OF b] obtain evp where
      tb: "trace w2 = trace wa @ evp" and
      wrb: "writes_of evp = [] \<or> writes_of evp = [panel_file ?cd p]"
      by blast
    have tr: "trace w' = trace w1 @ (evs @ evp)"
      using ta tb w' by simp
    have wr: "writes_of (new_events w w') =
        path_join ?cd ''story.json'' # panel_writes ?cd ?idir pre @ writes_of evp"
      using t1 ta tb w' rd wra by (simp add: new_events_def)
    from wrb show ?thesis
    proof
      assume "writes_of evp = []"
      with wr have "path_join ?cd ''story.json'' # panel_writes ?cd ?idir ?ps
            @ [path_join ?cd ''result.json'']
          = writes_of (new_events w w')
            @ (panel_file ?cd p # image_file ?idir p # panel_writes ?cd ?idir post
               @ [path_join ?cd ''result.json''])"
        unfolding sp by (simp add: panel_writes_append panel_writes_Cons)
      with tr show ?thesis by blast
    next
      assume "writes_of evp = [panel_file ?cd p]"
      with wr have "path_join ?cd ''story.json'' # panel_writes ?cd ?idir ?ps
            @ [path_join ?cd ''result.json'']
          = writes_of (new_events w w')
            @ (image_file ?idir p # panel_writes ?cd ?idir post
               @ [path_join ?cd ''result.json''])"
        unfolding sp by (simp add: panel_writes_append panel_writes_Cons)
      with tr show ?thesis by blast
    qed
  next
    case (Inr imgs)
    with l have l': "panel_loop E (pr_story pr) ?cd ?idir ?ps [] w1 = (Inr imgs, w2)" by simp
    from panel_loop_Inr[OF l'] obtain evs where
      t2: "trace w2 = trace w1 @ evs" and wr2: "writes_of evs = panel_writes ?cd ?idir ?ps"
      by blast
    from prep l' run have f: "comic_finish E pr imgs w2 = (r, w')" by (simp add: generateComic_def)
    show ?thesis
    proof (cases r)
      case (Inl e)
      with f comic_finish_Inl[of E pr imgs w2 e w'] obtain t2' t3 where
        t3: "trace w' = trace w2 @ [EvClock t2', EvClock t3]" by blast
      have tr: "trace w' = trace w1 @ (evs @ [EvClock t2', EvClock t3])"
        using t2 t3 by simp
      have "path_join ?cd ''story.json'' # panel_writes ?cd ?idir ?ps
            @ [path_join ?cd ''result.json'']
          = writes_of (new_events w w') @ [path_join ?cd ''result.json'']"
        using t1 t2 t3 rd wr2 by (simp add: new_events_def)
      with tr show ?thesis by blast
    next
      case (Inr res)
      with f comic_finish_Inr[of E pr imgs w2 res w'] obtain t2' t3 where
        t3: "trace w' = trace w2 @ [EvClock t2', EvClock t3, EvWrite (path_join ?cd ''result.json'')]"
        by blast
      have tr: "trace w' = trace w1 @ (evs @ [EvClock t2', EvClock t3,
          EvWrite (path_join ?cd ''result.json'')])"
        using t2 t3 by simp
      have "path_join ?cd ''story.json'' # panel_writes ?cd ?idir ?ps
            @ [path_join ?cd ''result.json'']
          = writes_of (new_events w w') @ []"
        using t1 t2 t3 rd wr2 by (simp add: new_events_def)
      with tr show ?thesis by blast
    qed
  qed
qed

lemma env_late_sel:
  "cwd env_late = [''home'']"
  "clock env_late [] = \<lparr>ms = 0, iso = ''2026-11-02T13:00:00.000Z''\<rparr>"
  "clock env_late (x # h) = \<lparr>ms = 7000, iso = ''2026-11-02T13:00:07.000Z''\<rparr>"
  "generateObject env_late h s = Inr (story_of [panel1, panel1\<lparr>panel_id := 2\<rparr>])"
  "generateText env_late h s = Inr (if even (count_details h) then ''one'' else ''two'')"
  "replicate_run env_late h s = Inr (OutFile (JString ''u''))"
  "https_get env_late h s = Response 200 (Finished ''jpg'')"
  "fs_error env_late h q = None"
  by (simp_all add: env_late_def env_ok_sel)

lemma run_late: "fst (generateComic env_late req4 world0) = Inr res_late"
  by (simp add: run_defs env_late_sel world0_def story_of_def panel1_def res_late_def show_small
        cong: let_weak_cong prod.case_cong_weak)

lemma run_late_pair: "generateComic env_late req4 world0 = (Inr res_late, w_late)"
  by (simp add: prod_eq_iff run_late w_late_def)

lemma run_late_story_json:
  "fs w_late [''home'', ''.workspace'', ''comics'', ''comic-2026-11-02T13-00-00.000Z'', ''story.json''] = None"
  "fs w_late [''home'', ''.workspace'', ''comics'', ''comic-2026-11-02T13-00-00-000Z'', ''story.json''] = None"
  "fs w_late [''home'', ''.workspace'', ''comics'', ''comic-2026-11-02T13-00-07-000Z'', ''story.json'']
     = Some (File (StoryJson (story_of [panel1, panel1\<lparr>panel_id := 2\<rparr>])))"
  by (simp_all add: w_late_def run_defs env_late_sel world0_def story_of_def panel1_def show_small
        cong: let_weak_cong prod.case_cong_weak)

lemma run_late_writes:
  "writes_of (trace w_late) =
     [[''home'', ''.workspace'', ''comics'', ''comic-2026-11-02T13-00-07-000Z'', ''story.json''],
      [''home'', ''.workspace'', ''comics'', ''comic-2026-11-02T13-00-07-000Z'', ''panel-1.json''],
      [''home'', ''.workspace'', ''images'', ''panel-1.jpg''],
      [''home'', ''.workspace'', ''comics'', ''comic-2026-11-02T13-00-07-000Z'', ''panel-2.json''],
      [''home'', ''.workspace'', ''images'', ''panel-2.jpg''],
      [''home'', ''.workspace'', ''comics'', ''comic-2026-11-02T13-00-07-000Z'', ''result.json'']]"
  by (simp add: w_late_def run_defs env_late_sel world0_def story_of_def panel1_def show_small
        cong: let_weak_cong prod.case_cong_weak)

text \<open>
  C9, as the specification words it, is false in two respects. In \<open>env_late\<close> the clock
  reads \<open>2026-11-02T13:00:00.000Z\<close> when the run starts and \<open>2026-11-02T13:00:07.000Z\<close>
  at every later reading. With the start time and only its colons replaced the directory
  would be \<open>comic-2026-11-02T13-00-00.000Z\<close>. No \<open>story.json\<close> is written there, nor in
  the directory of the start time with the dot replaced as well: the name is made from the
  reading taken after the story has been generated, and the dot is replaced too, so all
  files of the run are in \<open>comic-2026-11-02T13-00-07-000Z\<close>.
\<close>

theorem comic_dir_is_later_reading_dots_replaced:
  "generateComic env_late req4 world0 = (Inr res_late, w_late)
   \<and> iso (clock env_late (trace world0)) = ''2026-11-02T13:00:00.000Z''
   \<and> spec_timestamp ''2026-11-02T13:00:00.000Z'' = ''2026-11-02T13-00-00.000Z''
   \<and> fs w_late [''home'', ''.workspace'', ''comics'',
         ''comic-'' @ spec_timestamp ''2026-11-02T13:00:00.000Z'', ''story.json''] = None
   \<and> timestamp_of ''2026-11-02T13:00:00.000Z'' = ''2026-11-02T13-00-00-000Z''
   \<and> fs w_late [''home'', ''.workspace'', ''comics'',
         ''comic-'' @ timestamp_of ''2026-11-02T13:00:00.000Z'', ''story.json''] = None
   \<and> fs w_late [''home'', ''.workspace'', ''comics'', ''comic-2026-11-02T13-00-07-000Z'', ''story.json'']
       = Some (File (StoryJson (res_story res_late)))
   \<and> writes_of (new_events world0 w_late) =
     [[''home'', ''.workspace'', ''comics'', ''comic-2026-11-02T13-00-07-000Z'', ''story.json''],
      [''home'', ''.workspace'', ''comics'', ''comic-2026-11-02T13-00-07-000Z'', ''panel-1.json''],
      [''home'', ''.workspace'', ''images'', ''panel-1.jpg''],
      [''home'', ''.workspace'', ''comics'', ''comic-2026-11-02T13-00-07-000Z'', ''panel-2.json''],
      [''home'', ''.workspace'', ''images'', ''panel-2.jpg''],
      [''home'', ''.workspace'', ''comics'', ''comic-2026-11-02T13-00-07-000Z'', ''result.json'']]"
proof -
  have a: "iso (clock env_late (trace world0)) = ''2026-11-02T13:00:00.000Z''"
    by (simp add: env_late_sel world0_def)
  have b: "spec_timestamp ''2026-11-02T13:00:00.000Z'' = ''2026-11-02T13-00-00.000Z''"
    by (simp add: spec_timestamp_def)
  have b': "timestamp_of ''2026-11-02T13:00:00.000Z'' = ''2026-11-02T13-00-00-000Z''"
    by (simp add: timestamp_of_def)
  have c: "res_story res_late = story_of [panel1, panel1\<lparr>panel_id := 2\<rparr>]"
    by (simp add: res_late_def)
  have d: "new_events world0 w = trace w" for w
    by (simp add: new_events_def world0_def)
  from run_late_pair a b b' c run_late_story_json run_late_writes show ?thesis
    unfolding d by simp
qed

text \<open>
  C9, amended. A run reads the clock a second time right after the story has been
  generated; let \<open>T\<close> be the ISO timestamp of that second reading with every colon and
  every dot replaced by a dash, and \<open>comicDir\<close> the directory \<open>.workspace/comics/comic-T\<close>
  under the working directory.

  \<^item> A run that returns a result creates \<open>comicDir\<close>, writes \<open>comicDir/story.json\<close>, then
    for each panel in order \<open>comicDir/panel-<id>.json\<close> and
    \<open>.workspace/images/panel-<id>.jpg\<close>, then \<open>comicDir/result.json\<close>, and writes nothing
    else; all these files are there when the run ends, \<open>story.json\<close> holding the story
    and \<open>result.json\<close> the result.
  \<^item> Any run, failed ones included, either completes no write at all, or has created
    \<open>comicDir\<close> and the list of the writes it completes, in order, is an initial part of
    that same list: \<open>story.json\<close>, then the two files of each panel of the generated
    story in order, then \<open>result.json\<close>.
\<close>

theorem run_layout:
  "(generateComic E req w = (Inr res, w') \<longrightarrow>
     (\<exists>mk t1 evs t2 t3 comicDir.
       t1 = clock E (trace w @ EvClock (clock E (trace w)) # mk @ [EvStory (story_prompt req)])
     \<and> comicDir = cwd E @ [''.workspace'', ''comics'', ''comic-'' @ timestamp_of (iso t1)]
     \<and> new_events w w' = EvClock (clock E (trace w)) # mk @
          [EvStory (story_prompt req), EvClock t1, EvMkdir comicDir,
           EvWrite (comicDir @ [''story.json''])] @ evs @
          [EvClock t2, EvClock t3, EvWrite (comicDir @ [''result.json''])]
     \<and> only_mkdirs mk
     \<and> writes_of evs = concat (map (\<lambda>p.
            [comicDir @ [''panel-'' @ show_int (panel_id p) @ ''.json''],
             cwd E @ [''.workspace'', ''images'', ''panel-'' @ show_int (panel_id p) @ ''.jpg'']])
          (story_panels (res_story res)))
     \<and> fs w' (comicDir @ [''story.json'']) = Some (File (StoryJson (res_story res)))
     \<and> fs w' (comicDir @ [''result.json'']) = Some (File (ResultJson res))
     \<and> (\<forall>p\<in>set (story_panels (res_story res)).
          fs w' (comicDir @ [''panel-'' @ show_int (panel_id p) @ ''.json'']) \<noteq> None
        \<and> fs w' (cwd E @ [''.workspace'', ''images'', ''panel-'' @ show_int (panel_id p) @ ''.jpg''])
            \<noteq> None)))
   \<and> (generateComic E req w = (r, w'') \<longrightarrow>
       writes_of (new_events w w'') = []
       \<or> (\<exists>mk t1 story comicDir tail rest.
              only_mkdirs mk
            \<and> generateObject E (trace w @ EvClock (clock E (trace w)) # mk) (story_prompt req)
                = Inr story
            \<and> t1 = clock E (trace w @ EvClock (clock E (trace w)) # mk @ [EvStory (story_prompt req)])
            \<and> comicDir = cwd E @ [''.workspace'', ''comics'', ''comic-'' @ timestamp_of (iso t1)]
            \<and> new_events w w'' = EvClock (clock E (trace w)) # mk @
                 [EvStory (story_prompt req), EvClock t1, EvMkdir comicDir,
                  EvWrite (comicDir @ [''story.json''])] @ tail
            \<and> (comicDir @ [''story.json''])
                # concat (map (\<lambda>p.
                    [comicDir @ [''panel-'' @ show_int (panel_id p) @ ''.json''],
                     cwd E @ [''.workspace'', ''images'', ''panel-'' @ show_int (panel_id p) @ ''.jpg'']])
                  (story_panels story))
                @ [comicDir @ [''result.json'']]
              = writes_of (new_events w w'') @ rest))"
proof (intro conjI impI)
  assume assms: "generateComic E req w = (Inr res, w')"
  from success_run[OF assms] obtain mk t1 evs t2 t3 where
    ne: "new_events w w' = EvClock (clock E (trace w)) # mk @
          [EvStory (story_prompt req), EvClock t1,
           EvMkdir (cwd E @ [''.workspace'', ''comics'', ''comic-'' @ timestamp_of (iso t1)]),
           EvWrite (cwd E @ [''.workspace'', ''comics'', ''comic-'' @ timestamp_of (iso t1), ''story.json''])]
          @ evs @
          [EvClock t2, EvClock t3,
           EvWrite (cwd E @ [''.workspace'', ''comics'', ''comic-'' @ timestamp_of (iso t1), ''result.json''])]" and
    mk: "only_mkdirs mk" and
    ck: "t1 = clock E (trace w @ EvClock (clock E (trace w)) # mk @ [EvStory (story_prompt req)])" and
    wr: "writes_of evs = panel_writes (cwd E @ [''.workspace'', ''comics'', ''comic-'' @ timestamp_of (iso t1)])
          (cwd E @ [''.workspace'', ''images'']) (story_panels (res_story res))" and
    sj: "fs w' (cwd E @ [''.workspace'', ''comics'', ''comic-'' @ timestamp_of (iso t1), ''story.json''])
          = Some (File (StoryJson (res_story res)))" and
    rj: "fs w' (cwd E @ [''.workspace'', ''comics'', ''comic-'' @ timestamp_of (iso t1), ''result.json''])
          = Some (File (ResultJson res))" and
    pf: "\<forall>p\<in>set (story_panels (res_story res)).
          fs w' (panel_file (cwd E @ [''.workspace'', ''comics'', ''comic-'' @ timestamp_of (iso t1)]) p) \<noteq> None
        \<and> fs w' (image_file (cwd E @ [''.workspace'', ''images'']) p) \<noteq> None"
    by blast
  define cd where "cd = cwd E @ [''.workspace'', ''comics'', ''comic-'' @ timestamp_of (iso t1)]"
  have 1: "new_events w w' = EvClock (clock E (trace w)) # mk @
          [EvStory (story_prompt req), EvClock t1, EvMkdir cd,
           EvWrite (cd @ [''story.json''])] @ evs @
          [EvClock t2, EvClock t3, EvWrite (cd @ [''result.json''])]"
    using ne by (simp add: cd_def)
  have 2: "writes_of evs = concat (map (\<lambda>p.
            [cd @ [''panel-'' @ show_int (panel_id p) @ ''.json''],
             cwd E @ [''.workspace'', ''images'', ''panel-'' @ show_int (panel_id p) @ ''.jpg'']])
          (story_panels (res_story res)))"
    using wr by (simp add: cd_def panel_writes_def panel_file_def image_file_def path_join_def)
  have 3: "fs w' (cd @ [''story.json'']) = Some (File (StoryJson (res_story res)))"
    "fs w' (cd @ [''result.json'']) = Some (File (ResultJson res))"
    using sj rj by (simp_all add: cd_def)
  have 4: "\<forall>p\<in>set (story_panels (res_story res)).
          fs w' (cd @ [''panel-'' @ show_int (panel_id p) @ ''.json'']) \<noteq> None
        \<and> fs w' (cwd E @ [''.workspace'', ''images'', ''panel-'' @ show_int (panel_id p) @ ''.jpg''])
            \<noteq> None"
    using pf by (simp add: cd_def panel_file_def image_file_def path_join_def)
  from ck 1 2 3 4 mk cd_def show "\<exists>mk t1 evs t2 t3 comicDir.
       t1 = clock E (trace w @ EvClock (clock E (trace w)) # mk @ [EvStory (story_prompt req)])
     \<and> comicDir = cwd E @ [''.workspace'', ''comics'', ''comic-'' @ timestamp_of (iso t1)]
     \<and> new_events w w' = EvClock (clock E (trace w)) # mk @
          [EvStory (story_prompt req), EvClock t1, EvMkdir comicDir,
           EvWrite (comicDir @ [''story.json''])] @ evs @
          [EvClock t2, EvClock t3, EvWrite (comicDir @ [''result.json''])]
     \<and> only_mkdirs mk
     \<and> writes_of evs = concat (map (\<lambda>p.
            [comicDir @ [''panel-'' @ show_int (panel_id p) @ ''.json''],
             cwd E @ [''.workspace'', ''images'', ''panel-'' @ show_int (panel_id p) @ ''.jpg'']])
          (story_panels (res_story res)))
     \<and> fs w' (comicDir @ [''story.json'']) = Some (File (StoryJson (res_story res)))
     \<and> fs w' (comicDir @ [''result.json'']) = Some (File (ResultJson res))
     \<and> (\<forall>p\<in>set (story_panels (res_story res)).
          fs w' (comicDir @ [''panel-'' @ show_int (panel_id p) @ ''.json'']) \<noteq> None
        \<and> fs w' (cwd E @ [''.workspace'', ''images'', ''panel-'' @ show_int (panel_id p) @ ''.jpg''])
            \<noteq> None)" by blast
next
  assume run: "generateComic E req w = (r, w'')"
  obtain r1 w1 where p: "comic_prepare E req w = (r1, w1)"
    by (cases "comic_prepare E req w")
  show "writes_of (new_events w w'') = []
       \<or> (\<exists>mk t1 story comicDir tail rest.
              only_mkdirs mk
            \<and> generateObject E (trace w @ EvClock (clock E (trace w)) # mk) (story_prompt req)
                = Inr story
            \<and> t1 = clock E (trace w @ EvClock (clock E (trace w)) # mk @ [EvStory (story_prompt req)])
            \<and> comicDir = cwd E @ [''.workspace'', ''comics'', ''comic-'' @ timestamp_of (iso t1)]
            \<and> new_events w w'' = EvClock (clock E (trace w)) # mk @
                 [EvStory (story_prompt req), EvClock t1, EvMkdir comicDir,
                  EvWrite (comicDir @ [''story.json''])] @ tail
            \<and> (comicDir @ [''story.json''])
                # concat (map (\<lambda>p.
                    [comicDir @ [''panel-'' @ show_int (panel_id p) @ ''.json''],
                     cwd E @ [''.workspace'', ''images'', ''panel-'' @ show_int (panel_id p) @ ''.jpg'']])
                  (story_panels story))
                @ [comicDir @ [''result.json'']]
              = writes_of (new_events w w'') @ rest)"
  proof (cases r1)
    case (Inl e)
    with p have p': "comic_prepare E req w = (Inl e, w1)" by simp
    with run have "w'' = w1" by (simp add: generateComic_def)
    with comic_prepare_Inl[OF p'] show ?thesis by simp
  next
    case (Inr pr)
    with p have p': "comic_prepare E req w = (Inr pr, w1)" by simp
    from comic_prepare_Inr[OF p'] obtain mk t1 where
      a: "trace w1 = trace w @ EvClock (clock E (trace w)) # mk @
          [EvStory (story_prompt req), EvClock t1, EvMkdir (pr_comicDir pr),
           EvWrite (path_join (pr_comicDir pr) ''story.json'')]" and
      b: "only_mkdirs mk" and
      g: "generateObject E (trace w @ EvClock (clock E (trace w)) # mk) (story_prompt req)
            = Inr (pr_story pr)" and
      ck: "t1 = clock E (trace w @ EvClock (clock E (trace w)) # mk @ [EvStory (story_prompt req)])" and
      c: "pr_comicDir pr = cwd E @ [''.workspace'', ''comics'', ''comic-'' @ timestamp_of (iso t1)]" and
      d: "pr_imagesDir pr = cwd E @ [''.workspace'', ''images'']"
      by blast
    from writes_are_initial_part[OF p' run] obtain tail rest where
      tr: "trace w'' = trace w1 @ tail" and
      pre: "path_join (pr_comicDir pr) ''story.json''
         # panel_writes (pr_comicDir pr) (pr_imagesDir pr) (story_panels (pr_story pr))
         @ [path_join (pr_comicDir pr) ''result.json'']
       = writes_of (new_events w w'') @ rest"
      by blast
    define cd where "cd = cwd E @ [''.workspace'', ''comics'', ''comic-'' @ timestamp_of (iso t1)]"
    have ne: "new_events w w'' = EvClock (clock E (trace w)) # mk @
                 [EvStory (story_prompt req), EvClock t1, EvMkdir cd,
                  EvWrite (cd @ [''story.json''])] @ tail"
      using a tr c by (simp add: new_events_def cd_def path_join_def)
    have pw: "(cd @ [''story.json''])
                # concat (map (\<lambda>p.
                    [cd @ [''panel-'' @ show_int (panel_id p) @ ''.json''],
                     cwd E @ [''.workspace'', ''images'', ''panel-'' @ show_int (panel_id p) @ ''.jpg'']])
                  (story_panels (pr_story pr)))
                @ [cd @ [''result.json'']]
              = writes_of (new_events w w'') @ rest"
      using pre c d
      by (simp add: cd_def panel_writes_def panel_file_def image_file_def path_join_def)
    have "\<exists>mk t1 story comicDir tail rest.
              only_mkdirs mk
            \<and> generateObject E (trace w @ EvClock (clock E (trace w)) # mk) (story_prompt req)
                = Inr story
            \<and> t1 = clock E (trace w @ EvClock (clock E (trace w)) # mk @ [EvStory (story_prompt req)])
            \<and> comicDir = cwd E @ [''.workspace'', ''comics'', ''comic-'' @ timestamp_of (iso t1)]
            \<and> new_events w w'' = EvClock (clock E (trace w)) # mk @
                 [EvStory (story_prompt req), EvClock t1, EvMkdir comicDir,
                  EvWrite (comicDir @ [''story.json''])] @ tail
            \<and> (comicDir @ [''story.json''])
                # concat (map (\<lambda>p.
                    [comicDir @ [''panel-'' @ show_int (panel_id p) @ ''.json''],
                     cwd E @ [''.workspace'', ''images'', ''panel-'' @ show_int (panel_id p) @ ''.jpg'']])
                  (story_panels story))
                @ [comicDir @ [''result.json'']]
              = writes_of (new_events w w'') @ rest"
      using b g ck cd_def ne pw by blast
    then show ?thesis by (rule disjI2)
  qed
qed

theorem run_layout_witness:
  "generateComic env_late req4 world0 = (Inr res_late, w_late)
   \<and> (\<exists>mk evs t2 t3.
        new_events world0 w_late = EvClock \<lparr>ms = 0, iso = ''2026-11-02T13:00:00.000Z''\<rparr> # mk @
          [EvStory (story_prompt req4), EvClock \<lparr>ms = 7000, iso = ''2026-11-02T13:00:07.000Z''\<rparr>,
           EvMkdir [''home'', ''.workspace'', ''comics'', ''comic-2026-11-02T13-00-07-000Z''],
           EvWrite [''home'', ''.workspace'', ''comics'', ''comic-2026-11-02T13-00-07-000Z'',
             ''story.json'']] @ evs @
          [EvClock t2, EvClock t3,
           EvWrite [''home'', ''.workspace'', ''comics'', ''comic-2026-11-02T13-00-07-000Z'',
             ''result.json'']]
      \<and> only_mkdirs mk
      \<and> writes_of evs = concat (map (\<lambda>p.
            [[''home'', ''.workspace'', ''comics'', ''comic-2026-11-02T13-00-07-000Z'',
              ''panel-'' @ show_int (panel_id p) @ ''.json''],
             [''home'', ''.workspace'', ''images'', ''panel-'' @ show_int (panel_id p) @ ''.jpg'']])
          (story_panels (res_story res_late))))
   \<and> fs w_late [''home'', ''.workspace'', ''comics'', ''comic-2026-11-02T13-00-07-000Z'', ''story.json'']
       = Some (File (StoryJson (res_story res_late)))
   \<and> fs w_late [''home'', ''.workspace'', ''comics'', ''comic-2026-11-02T13-00-07-000Z'', ''result.json'']
       = Some (File (ResultJson res_late))
   \<and> generateComic env_404 req4 world0 = (Inl (Error ''Failed to download image: 404''), w404_3)
   \<and> (writes_of (new_events world0 w404_3) = []
       \<or> (\<exists>mk t1 story comicDir tail rest.
              only_mkdirs mk
            \<and> generateObject env_404 (trace world0 @ EvClock (clock env_404 (trace world0)) # mk)
                (story_prompt req4) = Inr story
            \<and> t1 = clock env_404 (trace world0 @ EvClock (clock env_404 (trace world0)) # mk
                @ [EvStory (story_prompt req4)])
            \<and> comicDir = cwd env_404 @ [''.workspace'', ''comics'', ''comic-'' @ timestamp_of (iso t1)]
            \<and> new_events world0 w404_3 = EvClock (clock env_404 (trace world0)) # mk @
                 [EvStory (story_prompt req4), EvClock t1, EvMkdir comicDir,
                  EvWrite (comicDir @ [''story.json''])] @ tail
            \<and> (comicDir @ [''story.json''])
                # concat (map (\<lambda>p.
                    [comicDir @ [''panel-'' @ show_int (panel_id p) @ ''.json''],
                     cwd env_404 @ [''.workspace'', ''images'', ''panel-'' @ show_int (panel_id p) @ ''.jpg'']])
                  (story_panels story))
                @ [comicDir @ [''result.json'']]
              = writes_of (new_events world0 w404_3) @ rest))"
proof -
  note a = run_layout[of env_late req4 world0 res_late w_late, THEN conjunct1, rule_format,
      OF run_late_pair]
  note b = run_layout[of env_404 req4 world0 _ _ "Inl (Error ''Failed to download image: 404'')"
      w404_3, THEN conjunct2, rule_format, OF run_404_pair]
  from a obtain mk t1 evs t2 t3 comicDir where
    ck: "t1 = clock env_late (trace world0 @ EvClock (clock env_late (trace world0)) # mk
          @ [EvStory (story_prompt req4)])" and
    cd: "comicDir = cwd env_late @ [''.workspace'', ''comics'', ''comic-'' @ timestamp_of (iso t1)]" and
    ne: "new_events world0 w_late = EvClock (clock env_late (trace world0)) # mk @
          [EvStory (story_prompt req4), EvClock t1, EvMkdir comicDir,
           EvWrite (comicDir @ [''story.json''])] @ evs @
          [EvClock t2, EvClock t3, EvWrite (comicDir @ [''result.json''])]" and
    mk: "only_mkdirs mk" and
    wr: "writes_of evs = concat (map (\<lambda>p.
            [comicDir @ [''panel-'' @ show_int (panel_id p) @ ''.json''],
             cwd env_late @ [''.workspace'', ''images'', ''panel-'' @ show_int (panel_id p) @ ''.jpg'']])
          (story_panels (res_story res_late)))" and
    sj: "fs w_late (comicDir @ [''story.json'']) = Some (File (StoryJson (res_story res_late)))" and
    rj: "fs w_late (comicDir @ [''result.json'']) = Some (File (ResultJson res_late))"
    by blast
  have t0: "clock env_late (trace world0) = \<lparr>ms = 0, iso = ''2026-11-02T13:00:00.000Z''\<rparr>"
    by (simp add: world0_def env_late_sel)
  from ck have t1: "t1 = \<lparr>ms = 7000, iso = ''2026-11-02T13:00:07.000Z''\<rparr>"
    by (simp add: world0_def env_late_sel)
  from cd t1 have cd': "comicDir = [''home'', ''.workspace'', ''comics'', ''comic-2026-11-02T13-00-07-000Z'']"
    by (simp add: env_late_sel timestamp_of_def)
  from ne have ne': "new_events world0 w_late =
        EvClock \<lparr>ms = 0, iso = ''2026-11-02T13:00:00.000Z''\<rparr> # mk @
          [EvStory (story_prompt req4), EvClock \<lparr>ms = 7000, iso = ''2026-11-02T13:00:07.000Z''\<rparr>,
           EvMkdir [''home'', ''.workspace'', ''comics'', ''comic-2026-11-02T13-00-07-000Z''],
           EvWrite [''home'', ''.workspace'', ''comics'', ''comic-2026-11-02T13-00-07-000Z'',
             ''story.json'']] @ evs @
          [EvClock t2, EvClock t3,
           EvWrite [''home'', ''.workspace'', ''comics'', ''comic-2026-11-02T13-00-07-000Z'',
             ''result.json'']]"
    unfolding t0 t1 cd' by simp
  from wr have wr': "writes_of evs = concat (map (\<lambda>p.
            [[''home'', ''.workspace'', ''comics'', ''comic-2026-11-02T13-00-07-000Z'',
              ''panel-'' @ show_int (panel_id p) @ ''.json''],
             [''home'', ''.workspace'', ''images'', ''panel-'' @ show_int (panel_id p) @ ''.jpg'']])
          (story_panels (res_story res_late)))"
    unfolding cd' by (simp add: env_late_sel)
  from ne' mk wr' have 1: "\<exists>mk evs t2 t3.
        new_events world0 w_late = EvClock \<lparr>ms = 0, iso = ''2026-11-02T13:00:00.000Z''\<rparr> # mk @
          [EvStory (story_prompt req4), EvClock \<lparr>ms = 7000, iso = ''2026-11-02T13:00:07.000Z''\<rparr>,
           EvMkdir [''home'', ''.workspace'', ''comics'', ''comic-2026-11-02T13-00-07-000Z''],
           EvWrite [''home'', ''.workspace'', ''comics'', ''comic-2026-11-02T13-00-07-000Z'',
             ''story.json'']] @ evs @
          [EvClock t2, EvClock t3,
           EvWrite [''home'', ''.workspace'', ''comics'', ''comic-2026-11-02T13-00-07-000Z'',
             ''result.json'']]
      \<and> only_mkdirs mk
      \<and> writes_of evs = concat (map (\<lambda>p.
            [[''home'', ''.workspace'', ''comics'', ''comic-2026-11-02T13-00-07-000Z'',
              ''panel-'' @ show_int (panel_id p) @ ''.json''],
             [''home'', ''.workspace'', ''images'', ''panel-'' @ show_int (panel_id p) @ ''.jpg'']])
          (story_panels (res_story res_late)))"
    by blast
  from sj rj have 2:
    "fs w_late [''home'', ''.workspace'', ''comics'', ''comic-2026-11-02T13-00-07-000Z'', ''story.json'']
       = Some (File (StoryJson (res_story res_late)))"
    "fs w_late [''home'', ''.workspace'', ''comics'', ''comic-2026-11-02T13-00-07-000Z'', ''result.json'']
       = Some (File (ResultJson res_late))"
    unfolding cd' by simp_all
  from run_late_pair 1 2 run_404_pair b show ?thesis
    by (intro conjI)
qed

end
